theory Spec2Isabelle
  imports Complex_Main "HOL-Library.AList"
begin

section \<open>Numeric cells\<close>

text \<open>
  A cell of a pandas Series or of a numpy array is a float: a number, an infinity or NaN.
  Numbers are modelled as reals, so rounding, overflow and the sign of zero are idealised;
  the special values follow IEEE 754 arithmetic.
\<close>

datatype fval = Fin real | PInf | NInf | NaN

fun isfinite :: "fval \<Rightarrow> bool" where
  "isfinite (Fin a) = True"
| "isfinite PInf = False"
| "isfinite NInf = False"
| "isfinite NaN = False"

fun isinf :: "fval \<Rightarrow> bool" where
  "isinf (Fin a) = False"
| "isinf PInf = True"
| "isinf NInf = True"
| "isinf NaN = False"

fun fneg :: "fval \<Rightarrow> fval" where
  "fneg (Fin a) = Fin (- a)"
| "fneg PInf = NInf"
| "fneg NInf = PInf"
| "fneg NaN = NaN"

fun fadd :: "fval \<Rightarrow> fval \<Rightarrow> fval" where
  "fadd (Fin a) (Fin b) = Fin (a + b)"
| "fadd (Fin a) PInf = PInf"
| "fadd (Fin a) NInf = NInf"
| "fadd (Fin a) NaN = NaN"
| "fadd PInf (Fin b) = PInf"
| "fadd PInf PInf = PInf"
| "fadd PInf NInf = NaN"
| "fadd PInf NaN = NaN"
| "fadd NInf (Fin b) = NInf"
| "fadd NInf PInf = NaN"
| "fadd NInf NInf = NInf"
| "fadd NInf NaN = NaN"
| "fadd NaN y = NaN"

definition fsub :: "fval \<Rightarrow> fval \<Rightarrow> fval" where
  "fsub x y = fadd x (fneg y)"

text \<open>The sign of an infinity times or over a number; a zero counts as positive.\<close>

definition signed_inf :: "bool \<Rightarrow> fval" where
  "signed_inf pos = (if pos then PInf else NInf)"

fun fmul :: "fval \<Rightarrow> fval \<Rightarrow> fval" where
  "fmul (Fin a) (Fin b) = Fin (a * b)"
| "fmul (Fin a) PInf = (if a = 0 then NaN else signed_inf (0 < a))"
| "fmul (Fin a) NInf = (if a = 0 then NaN else signed_inf (a < 0))"
| "fmul (Fin a) NaN = NaN"
| "fmul PInf (Fin b) = (if b = 0 then NaN else signed_inf (0 < b))"
| "fmul PInf PInf = PInf"
| "fmul PInf NInf = NInf"
| "fmul PInf NaN = NaN"
| "fmul NInf (Fin b) = (if b = 0 then NaN else signed_inf (b < 0))"
| "fmul NInf PInf = NInf"
| "fmul NInf NInf = PInf"
| "fmul NInf NaN = NaN"
| "fmul NaN y = NaN"

fun fdiv :: "fval \<Rightarrow> fval \<Rightarrow> fval" where
  "fdiv (Fin a) (Fin b) =
     (if b = 0 then (if a = 0 then NaN else signed_inf (0 < a)) else Fin (a / b))"
| "fdiv (Fin a) PInf = Fin 0"
| "fdiv (Fin a) NInf = Fin 0"
| "fdiv (Fin a) NaN = NaN"
| "fdiv PInf (Fin b) = signed_inf (0 \<le> b)"
| "fdiv PInf PInf = NaN"
| "fdiv PInf NInf = NaN"
| "fdiv PInf NaN = NaN"
| "fdiv NInf (Fin b) = signed_inf (b < 0)"
| "fdiv NInf PInf = NaN"
| "fdiv NInf NInf = NaN"
| "fdiv NInf NaN = NaN"
| "fdiv NaN y = NaN"

text \<open>Comparisons with NaN are false, as in \<^verbatim>\<open>delta > 0\<close> on a Series.\<close>

fun fgt0 :: "fval \<Rightarrow> bool" where
  "fgt0 (Fin a) = (0 < a)"
| "fgt0 PInf = True"
| "fgt0 NInf = False"
| "fgt0 NaN = False"

fun flt0 :: "fval \<Rightarrow> bool" where
  "flt0 (Fin a) = (a < 0)"
| "flt0 PInf = False"
| "flt0 NInf = True"
| "flt0 NaN = False"

section \<open>Series\<close>

type_synonym series = "fval list"

text \<open>\<^verbatim>\<open>s.replace(a, b)\<close> and \<^verbatim>\<open>s.replace([inf, -inf], b)\<close>.\<close>

definition replace_val :: "fval \<Rightarrow> fval \<Rightarrow> series \<Rightarrow> series" where
  "replace_val a b s = map (\<lambda>x. if x = a then b else x) s"

definition replace_inf :: "fval \<Rightarrow> series \<Rightarrow> series" where
  "replace_inf b s = map (\<lambda>x. if isinf x then b else x) s"

definition fillna :: "fval \<Rightarrow> series \<Rightarrow> series" where
  "fillna b s = map (\<lambda>x. if x = NaN then b else x) s"

text \<open>\<^verbatim>\<open>s.shift(1)\<close>, \<^verbatim>\<open>s.diff()\<close>: the first row has no predecessor.\<close>

definition shift1 :: "series \<Rightarrow> series" where
  "shift1 s = (if s = [] then [] else NaN # butlast s)"

definition diff :: "series \<Rightarrow> series" where
  "diff s = map (\<lambda>(x, p). fsub x p) (zip s (shift1 s))"

text \<open>\<^verbatim>\<open>s.ffill()\<close> carries the last defined value forward, \<^verbatim>\<open>s.bfill()\<close> backward.\<close>

fun ffill_from :: "fval \<Rightarrow> series \<Rightarrow> series" where
  "ffill_from prev [] = []"
| "ffill_from prev (x # xs) = (if x = NaN then prev # ffill_from prev xs else x # ffill_from x xs)"

definition ffill :: "series \<Rightarrow> series" where
  "ffill s = ffill_from NaN s"

definition bfill :: "series \<Rightarrow> series" where
  "bfill s = rev (ffill (rev s))"

text \<open>
  \<^verbatim>\<open>s.pct_change()\<close>: the relative change to the previous row, after the default
  forward fill of missing values.
\<close>

definition pct_change :: "series \<Rightarrow> series" where
  "pct_change s = map (\<lambda>(x, p). fsub (fdiv x p) (Fin 1)) (zip (ffill s) (shift1 (ffill s)))"

text \<open>
  \<^verbatim>\<open>s.rolling(window=w).mean()\<close>: undefined until w rows are seen and wherever the
  window holds a missing value; otherwise the mean of the window.
\<close>

definition window_mean :: "fval list \<Rightarrow> fval" where
  "window_mean w = (if NaN \<in> set w then NaN
                    else fdiv (foldl fadd (Fin 0) w) (Fin (real (length w))))"

definition rolling_mean :: "nat \<Rightarrow> series \<Rightarrow> series" where
  "rolling_mean w s =
     map (\<lambda>i. if Suc i < w then NaN else window_mean (take w (drop (Suc i - w) s)))
         [0..<length s]"

text \<open>\<^verbatim>\<open>s.where(cond, 0)\<close> keeps the cells where the condition holds.\<close>

definition where0 :: "(fval \<Rightarrow> bool) \<Rightarrow> series \<Rightarrow> series" where
  "where0 cond s = map (\<lambda>x. if cond x then x else Fin 0) s"

fun clip_cell :: "real \<Rightarrow> real \<Rightarrow> fval \<Rightarrow> fval" where
  "clip_cell lo hi (Fin a) = Fin (if a < lo then lo else if hi < a then hi else a)"
| "clip_cell lo hi PInf = Fin hi"
| "clip_cell lo hi NInf = Fin lo"
| "clip_cell lo hi NaN = NaN"

definition clip :: "real \<Rightarrow> real \<Rightarrow> series \<Rightarrow> series" where
  "clip lo hi s = map (clip_cell lo hi) s"

section \<open>Errors\<close>

datatype error = KeyError string | ValueError string | IndexError | OSError string

definition bindE :: "error + 'a \<Rightarrow> ('a \<Rightarrow> error + 'b) \<Rightarrow> error + 'b" where
  "bindE m f = (case m of Inl e \<Rightarrow> Inl e | Inr x \<Rightarrow> f x)"

section \<open>Data frames\<close>

text \<open>
  A DataFrame: the index (trading dates as day numbers) and the named columns in their
  order. In a well-formed frame every column is as long as the index.
\<close>

record dataframe =
  index :: "int list"
  cols :: "(string \<times> series) list"

definition nrows :: "dataframe \<Rightarrow> nat" where
  "nrows df = length (index df)"

definition wf_df :: "dataframe \<Rightarrow> bool" where
  "wf_df df = list_all (\<lambda>(c, s). length s = nrows df) (cols df)"

definition has_col :: "dataframe \<Rightarrow> string \<Rightarrow> bool" where
  "has_col df c = (c \<in> set (map fst (cols df)))"

definition get_col :: "dataframe \<Rightarrow> string \<Rightarrow> error + series" where
  "get_col df c = (case map_of (cols df) c of None \<Rightarrow> Inl (KeyError c) | Some s \<Rightarrow> Inr s)"

text \<open>\<^verbatim>\<open>df[c] = s\<close> overwrites the column in place or appends a new one.\<close>

definition set_col :: "dataframe \<Rightarrow> string \<Rightarrow> series \<Rightarrow> dataframe" where
  "set_col df c s = df\<lparr>cols := AList.update c s (cols df)\<rparr>"

definition df_empty :: "dataframe \<Rightarrow> bool" where
  "df_empty df = (nrows df = 0 \<or> cols df = [])"

definition take_rows :: "dataframe \<Rightarrow> nat list \<Rightarrow> dataframe" where
  "take_rows df keep =
     \<lparr>index = map (\<lambda>i. index df ! i) keep,
      cols = map (\<lambda>(c, s). (c, map (\<lambda>i. s ! i) keep)) (cols df)\<rparr>"

text \<open>\<^verbatim>\<open>df.dropna()\<close> keeps the rows with no missing cell in any column.\<close>

definition dropna :: "dataframe \<Rightarrow> dataframe" where
  "dropna df =
     take_rows df (filter (\<lambda>i. list_all (\<lambda>(c, s). s ! i \<noteq> NaN) (cols df)) [0..<nrows df])"

text \<open>\<^verbatim>\<open>df.dropna(subset=[c])\<close> looks at one column only.\<close>

definition dropna_subset :: "string \<Rightarrow> dataframe \<Rightarrow> error + dataframe" where
  "dropna_subset c df =
     bindE (get_col df c) (\<lambda>s.
       Inr (take_rows df (filter (\<lambda>i. s ! i \<noteq> NaN) [0..<nrows df])))"

text \<open>\<^verbatim>\<open>df.replace([np.inf, -np.inf], np.nan)\<close> on every column.\<close>

definition replace_inf_df :: "dataframe \<Rightarrow> dataframe" where
  "replace_inf_df df = df\<lparr>cols := map (\<lambda>(c, s). (c, replace_inf NaN s)) (cols df)\<rparr>"

text \<open>\<^verbatim>\<open>df[names].values\<close>: the rows of the selected columns, in the order of the names.\<close>

fun select_cols :: "dataframe \<Rightarrow> string list \<Rightarrow> error + series list" where
  "select_cols df [] = Inr []"
| "select_cols df (c # cs) =
     bindE (get_col df c) (\<lambda>s. bindE (select_cols df cs) (\<lambda>ss. Inr (s # ss)))"

definition rows_of :: "nat \<Rightarrow> series list \<Rightarrow> fval list list" where
  "rows_of n ss = map (\<lambda>i. map (\<lambda>s. s ! i) ss) [0..<n]"

definition df_values :: "dataframe \<Rightarrow> string list \<Rightarrow> error + fval list list" where
  "df_values df names = bindE (select_cols df names) (\<lambda>ss. Inr (rows_of (nrows df) ss))"

section \<open>Feature engineer: calculate_technical_indicators\<close>

text \<open>The 14-day RSI of stock_data_fetcher.py, lines 63 to 72, from the close column.\<close>

definition rsi_series :: "series \<Rightarrow> series" where
  "rsi_series close =
     (let delta = diff close;
          gain = rolling_mean 14 (where0 fgt0 delta);
          loss = rolling_mean 14 (map fneg (where0 flt0 delta));
          rs = map (\<lambda>(g, l). fdiv g l) (zip gain (replace_val (Fin 0) NaN loss));
          rs = fillna (Fin 50) (replace_inf (Fin 100) rs);
          rsi = map (\<lambda>r. fsub (Fin 100) (fdiv (Fin 100) (fadd (Fin 1) r))) rs
      in clip 0 100 rsi)"

definition add_volume_change :: "dataframe \<Rightarrow> error + dataframe" where
  "add_volume_change df =
     (if has_col df ''Volume'' then
        bindE (get_col df ''Volume'') (\<lambda>volume.
          let df = set_col df ''Volume'' (replace_val (Fin 0) NaN volume) in
          bindE (get_col df ''Volume'') (\<lambda>volume.
            Inr (set_col df ''Volume_Change''
                   (fillna (Fin 0) (replace_inf (Fin 0) (pct_change volume))))))
      else Inr df)"

definition calculate_technical_indicators :: "dataframe \<Rightarrow> error + dataframe" where
  "calculate_technical_indicators data =
     (if \<not> has_col data ''Close'' then Inr data
      else
        bindE (get_col data ''Close'') (\<lambda>close0.
        bindE (dropna_subset ''Close'' (set_col data ''Close'' (replace_val (Fin 0) NaN close0)))
          (\<lambda>df.
        if nrows df = 0 then Inr df
        else
          bindE (get_col df ''Close'') (\<lambda>close.
          let df = set_col df ''MA5'' (rolling_mean 5 close);
              df = set_col df ''MA10'' (rolling_mean 10 close);
              df = set_col df ''MA20'' (rolling_mean 20 close);
              df = set_col df ''Price_Change'' (replace_inf (Fin 0) (pct_change close))
          in
          bindE (get_col df ''High'') (\<lambda>high.
          bindE (get_col df ''Low'') (\<lambda>low.
          let range = map (\<lambda>((h, l), c). fdiv (fsub h l) c)
                          (zip (zip high low) (replace_val (Fin 0) NaN close));
              df = set_col df ''Price_Range'' (fillna (Fin 0) (replace_inf (Fin 0) range))
          in
          bindE (add_volume_change df) (\<lambda>df.
          let df = set_col df ''RSI'' (rsi_series close)
          in Inr (replace_inf_df df))))))))"

section \<open>Scaler pair: sklearn's MinMaxScaler on the range 0 to 1\<close>

text \<open>
  A numpy matrix is a list of rows. The library checks its input first: no sample, no
  column or an infinity raises ValueError; NaN is let through and ignored by the fit.
\<close>

definition ncols :: "fval list list \<Rightarrow> nat" where
  "ncols rows = (case rows of [] \<Rightarrow> 0 | r # rs \<Rightarrow> length r)"

definition column :: "nat \<Rightarrow> fval list list \<Rightarrow> fval list" where
  "column j rows = map (\<lambda>r. r ! j) rows"

definition check_array :: "fval list list \<Rightarrow> error + unit" where
  "check_array rows =
     (if rows = [] then Inl (ValueError ''Found array with 0 sample(s)'')
      else if ncols rows = 0 then Inl (ValueError ''Found array with 0 feature(s)'')
      else if list_ex (list_ex isinf) rows then Inl (ValueError ''Input contains infinity'')
      else Inr ())"

fun fins :: "fval list \<Rightarrow> real list" where
  "fins [] = []"
| "fins (Fin a # xs) = a # fins xs"
| "fins (PInf # xs) = fins xs"
| "fins (NInf # xs) = fins xs"
| "fins (NaN # xs) = fins xs"

definition nanmin :: "fval list \<Rightarrow> fval" where
  "nanmin xs = (case fins xs of [] \<Rightarrow> NaN | a # as \<Rightarrow> Fin (foldl min a as))"

definition nanmax :: "fval list \<Rightarrow> fval" where
  "nanmax xs = (case fins xs of [] \<Rightarrow> NaN | a # as \<Rightarrow> Fin (foldl max a as))"

record scaler =
  data_min :: "fval list"
  data_max :: "fval list"

definition scaler_fit :: "fval list list \<Rightarrow> error + scaler" where
  "scaler_fit rows =
     bindE (check_array rows) (\<lambda>u.
       Inr \<lparr>data_min = map (\<lambda>j. nanmin (column j rows)) [0..<ncols rows],
            data_max = map (\<lambda>j. nanmax (column j rows)) [0..<ncols rows]\<rparr>)"

text \<open>A constant column has range 0, which the library replaces by 1 before dividing.\<close>

definition scale_of :: "fval \<Rightarrow> fval \<Rightarrow> fval" where
  "scale_of lo hi = (let r = fsub hi lo in fdiv (Fin 1) (if r = Fin 0 then Fin 1 else r))"

definition min_of :: "fval \<Rightarrow> fval \<Rightarrow> fval" where
  "min_of lo hi = fsub (Fin 0) (fmul lo (scale_of lo hi))"

definition scale_cell :: "fval \<Rightarrow> fval \<Rightarrow> fval \<Rightarrow> fval" where
  "scale_cell lo hi x = fadd (fmul x (scale_of lo hi)) (min_of lo hi)"

definition unscale_cell :: "fval \<Rightarrow> fval \<Rightarrow> fval \<Rightarrow> fval" where
  "unscale_cell lo hi x = fdiv (fsub x (min_of lo hi)) (scale_of lo hi)"

definition per_column :: "(fval \<Rightarrow> fval \<Rightarrow> fval \<Rightarrow> fval) \<Rightarrow> scaler \<Rightarrow> fval list \<Rightarrow> fval list" where
  "per_column f s r = map (\<lambda>(x, lo, hi). f lo hi x) (zip r (zip (data_min s) (data_max s)))"

definition scaler_transform :: "scaler \<Rightarrow> fval list list \<Rightarrow> error + fval list list" where
  "scaler_transform s rows =
     bindE (check_array rows) (\<lambda>u.
       if ncols rows \<noteq> length (data_min s) then Inl (ValueError ''X has a different number of features'')
       else Inr (map (per_column scale_cell s) rows))"

definition inverse_transform :: "scaler \<Rightarrow> fval list list \<Rightarrow> error + fval list list" where
  "inverse_transform s rows =
     bindE (check_array rows) (\<lambda>u.
       if ncols rows \<noteq> length (data_min s) then Inl (ValueError ''X has a different number of features'')
       else Inr (map (per_column unscale_cell s) rows))"

definition fit_transform :: "fval list list \<Rightarrow> error + scaler \<times> fval list list" where
  "fit_transform rows =
     bindE (scaler_fit rows) (\<lambda>s. bindE (scaler_transform s rows) (\<lambda>t. Inr (s, t)))"

text \<open>\<^verbatim>\<open>values.reshape(-1, 1)\<close>: a series as a matrix of one column.\<close>

definition reshape_col :: "fval list \<Rightarrow> fval list list" where
  "reshape_col xs = map (\<lambda>x. [x]) xs"

section \<open>Sequence builder: ModelTrainer.prepare_stock_data\<close>

record trainer =
  model_dir :: string
  lookback :: nat
  features :: "string list"

definition ModelTrainer :: "string \<Rightarrow> trainer" where
  "ModelTrainer dir =
     \<lparr>model_dir = dir, lookback = 30,
      features = [''Close'', ''Volume'', ''MA5'', ''MA10'', ''MA20'',
                  ''Price_Change'', ''Price_Range'', ''Volume_Change'', ''RSI'']\<rparr>"

definition all_finite :: "fval list list \<Rightarrow> bool" where
  "all_finite rows = list_all (list_all isfinite) rows"

text \<open>
  The cleaning of model_trainer.py, lines 85 to 89: non-finite cells become NaN, each
  column is filled forward, then backward, then with 0.
\<close>

definition clean_features :: "fval list list \<Rightarrow> fval list list" where
  "clean_features rows =
     (let masked = map (map (\<lambda>x. if isfinite x then x else NaN)) rows;
          columns = map (\<lambda>j. column j masked) [0..<ncols masked]
      in rows_of (length rows) (map (\<lambda>c. fillna (Fin 0) (bfill (ffill c))) columns))"

text \<open>The Python slice \<^verbatim>\<open>xs[a:b]\<close> for \<open>0 \<le> a \<le> b\<close>.\<close>

definition slice :: "'a list \<Rightarrow> nat \<Rightarrow> nat \<Rightarrow> 'a list" where
  "slice xs a b = take (b - a) (drop a xs)"

text \<open>
  The loop of lines 105 to 111: for i from lookback up to the number of rows, one window
  \<^verbatim>\<open>scaled_features[i-lookback:i]\<close> and one label \<^verbatim>\<open>scaled_prices[i, 0]\<close>.
\<close>

definition create_sequences ::
  "nat \<Rightarrow> fval list list \<Rightarrow> fval list list \<Rightarrow> fval list list list \<times> fval list" where
  "create_sequences L scaled_features scaled_prices =
     (map (\<lambda>i. slice scaled_features (i - L) i) [L..<length scaled_features],
      map (\<lambda>i. scaled_prices ! i ! 0) [L..<length scaled_features])"

text \<open>The frame whose length is checked: indicators are computed only when MA5 is absent.\<close>

definition indicator_frame :: "dataframe \<Rightarrow> error + dataframe" where
  "indicator_frame df =
     (if \<not> has_col df ''MA5''
      then bindE (calculate_technical_indicators df) (\<lambda>d. Inr (dropna d))
      else Inr df)"

type_synonym sequences = "fval list list list \<times> fval list \<times> scaler \<times> scaler"

definition prepare_stock_data_try :: "trainer \<Rightarrow> dataframe \<Rightarrow> error + sequences option" where
  "prepare_stock_data_try self df0 =
     (if \<not> has_col df0 ''Close'' then Inr None
      else
        bindE (indicator_frame df0) (\<lambda>df.
        if nrows df < lookback self + 50 then Inr None
        else
          bindE (df_values df (features self)) (\<lambda>feature_data0.
          let feature_data = (if \<not> all_finite feature_data0 then clean_features feature_data0
                              else feature_data0)
          in
          if \<not> all_finite feature_data then Inr None
          else
            bindE (fit_transform feature_data) (\<lambda>(feature_scaler, scaled_features).
            bindE (get_col df ''Close'') (\<lambda>close.
            bindE (fit_transform (reshape_col close)) (\<lambda>(target_scaler, scaled_prices).
            let (X, y) = create_sequences (lookback self) scaled_features scaled_prices
            in Inr (Some (X, y, feature_scaler, target_scaler))))))))"

text \<open>The \<^verbatim>\<open>except Exception\<close> of prepare_stock_data turns every error into None.\<close>

definition prepare_stock_data :: "trainer \<Rightarrow> dataframe \<Rightarrow> sequences option" where
  "prepare_stock_data self df =
     (case prepare_stock_data_try self df of Inl e \<Rightarrow> None | Inr r \<Rightarrow> r)"

section \<open>Environment: the network library, the clock, the disk, the market data provider\<close>

text \<open>
  A fitted network is the function it computes from a window to a scaled price. Fitting,
  evaluating, writing a file and downloading bars are parameters: the properties below
  hold whatever they return.
\<close>

type_synonym network = "fval list list \<Rightarrow> fval"

record fit_result =
  net :: network
  loss_history :: "fval list"

record metadata =
  md_symbol :: string
  trained_date :: string
  training_samples :: nat
  test_samples :: nat
  test_loss :: fval
  test_mae :: fval
  final_train_loss :: fval
  md_epochs :: int
  md_lookback :: nat
  md_features :: "string list"

record training_summary =
  market :: string
  total_stocks :: nat
  successful :: nat
  failed :: nat
  failed_symbols :: "string list"
  training_date :: string
  models :: "metadata list"

datatype json = MetadataJson metadata | SummaryJson training_summary | OtherJson

datatype disk_file = KerasFile network | ScalersPickle scaler scaler | JsonFile json | OtherFile

type_synonym filesystem = "string \<Rightarrow> disk_file option"

record env =
  keras_available :: bool
  keras_fit :: "fval list list list \<Rightarrow> fval list \<Rightarrow> int \<Rightarrow> int \<Rightarrow> error + fit_result"
  keras_evaluate :: "network \<Rightarrow> fval list list list \<Rightarrow> fval list \<Rightarrow> error + fval \<times> fval"
  writable :: "string \<Rightarrow> bool"
  makedirs_ok :: bool
  now :: string
  download_stock_with_fallback :: "string \<Rightarrow> string \<Rightarrow> dataframe option"

section \<open>Trainer: ModelTrainer.train_single_stock\<close>

text \<open>\<^verbatim>\<open>s.replace(c, t)\<close> for a pattern of one character.\<close>

definition str_replace :: "char \<Rightarrow> string \<Rightarrow> string \<Rightarrow> string" where
  "str_replace c t s = concat (map (\<lambda>x. if x = c then t else [x]) s)"

text \<open>
  \<^verbatim>\<open>int(len(X) * 0.8)\<close>: the double nearest to 0.8 exceeds it by 0.8 * 2^-54, so the
  product rounds to 4n/5 when that is an integer and lies well inside the unit interval
  above the floor otherwise; the truncation is the integer quotient of 4n by 5.
\<close>

definition split_index :: "nat \<Rightarrow> nat" where
  "split_index n = (4 * n) div 5"

definition train_single_stock ::
  "env \<Rightarrow> trainer \<Rightarrow> string \<Rightarrow> dataframe \<Rightarrow> int \<Rightarrow> int \<Rightarrow> filesystem
     \<Rightarrow> metadata option \<times> filesystem" where
  "train_single_stock e self symbol df epochs batch_size fs =
     (case prepare_stock_data self df of
        None \<Rightarrow> (None, fs)
      | Some (X, y, feature_scaler, target_scaler) \<Rightarrow>
          let split_idx = split_index (length X);
              X_train = take split_idx X; X_test = drop split_idx X;
              y_train = take split_idx y; y_test = drop split_idx y;
              actual_batch_size = min batch_size (max 8 (int (length X_train) div 10))
          in
          if \<not> keras_available e then (None, fs)
          else
          (case keras_fit e X_train y_train epochs actual_batch_size of
             Inl err \<Rightarrow> (None, fs)
           | Inr history \<Rightarrow>
          (case keras_evaluate e (net history) X_test y_test of
             Inl err \<Rightarrow> (None, fs)
           | Inr (loss, mae) \<Rightarrow>
          let safe_symbol = str_replace CHR ''&'' ''AND'' (str_replace CHR ''.'' ''_'' symbol);
              model_path = model_dir self @ ''/'' @ safe_symbol @ ''.keras'';
              scaler_path = model_dir self @ ''/scalers/'' @ safe_symbol @ ''.pkl'';
              metadata_path = model_dir self @ ''/metadata/'' @ safe_symbol @ ''.json''
          in
          if \<not> writable e model_path then (None, fs)
          else
          let fs = fs(model_path \<mapsto> KerasFile (net history)) in
          if \<not> writable e scaler_path then (None, fs)
          else
          let fs = fs(scaler_path \<mapsto> ScalersPickle feature_scaler target_scaler) in
          if loss_history history = [] then (None, fs)
          else
          let md = \<lparr>md_symbol = symbol, trained_date = now e,
                    training_samples = length X_train, test_samples = length X_test,
                    test_loss = loss, test_mae = mae,
                    final_train_loss = last (loss_history history),
                    md_epochs = epochs, md_lookback = lookback self,
                    md_features = features self\<rparr>
          in
          if \<not> writable e metadata_path then (None, fs)
          else (Some md, fs(metadata_path \<mapsto> JsonFile (MetadataJson md))))))"

section \<open>Bulk pipeline: ModelTrainer.train_all_stocks\<close>

text \<open>The dictionary is walked in insertion order: a list of (symbol, frame) items.\<close>

fun train_loop ::
  "env \<Rightarrow> trainer \<Rightarrow> int \<Rightarrow> int \<Rightarrow> (string \<times> dataframe) list
     \<Rightarrow> metadata list \<times> string list \<times> filesystem
     \<Rightarrow> metadata list \<times> string list \<times> filesystem" where
  "train_loop e self epochs batch_size [] acc = acc"
| "train_loop e self epochs batch_size ((symbol, df) # rest) (succ, fl, fs) =
     (case train_single_stock e self symbol df epochs batch_size fs of
        (Some result, fs') \<Rightarrow> train_loop e self epochs batch_size rest (succ @ [result], fl, fs')
      | (None, fs') \<Rightarrow> train_loop e self epochs batch_size rest (succ, fl @ [symbol], fs'))"

definition lower_char :: "char \<Rightarrow> char" where
  "lower_char c =
     (let n = (of_char c :: nat) in if 65 \<le> n \<and> n \<le> 90 then char_of (n + 32) else c)"

definition train_all_stocks ::
  "env \<Rightarrow> trainer \<Rightarrow> (string \<times> dataframe) list \<Rightarrow> string \<Rightarrow> int \<Rightarrow> int \<Rightarrow> filesystem
     \<Rightarrow> (error + training_summary) \<times> filesystem" where
  "train_all_stocks e self stock_data market_name epochs batch_size fs =
     (case train_loop e self epochs batch_size stock_data ([], [], fs) of
        (succ, fl, fs') \<Rightarrow>
          let summary = \<lparr>market = market_name, total_stocks = length stock_data,
                         successful = length succ, failed = length fl,
                         failed_symbols = fl, training_date = now e, models = succ\<rparr>;
              summary_path = model_dir self @ ''/training_summary_''
                               @ map lower_char market_name @ ''.json''
          in
          if \<not> writable e summary_path then (Inl (OSError summary_path), fs')
          else (Inr summary, fs'(summary_path \<mapsto> JsonFile (SummaryJson summary))))"

section \<open>Model store: ModelTrainer.load_pretrained_model\<close>

type_synonym artifact = "network \<times> scaler \<times> scaler \<times> json"

definition load_pretrained_model :: "env \<Rightarrow> trainer \<Rightarrow> filesystem \<Rightarrow> string \<Rightarrow> artifact option" where
  "load_pretrained_model e self fs symbol =
     (let safe_symbol = str_replace CHR ''&'' ''AND'' (str_replace CHR ''.'' ''_'' symbol);
          model_path = model_dir self @ ''/'' @ safe_symbol @ ''.keras'';
          scaler_path = model_dir self @ ''/scalers/'' @ safe_symbol @ ''.pkl'';
          metadata_path = model_dir self @ ''/metadata/'' @ safe_symbol @ ''.json''
      in
      if \<not> list_all (\<lambda>p. fs p \<noteq> None) [model_path, scaler_path, metadata_path] then None
      else if \<not> keras_available e then None
      else
        (case fs model_path of
           Some (KerasFile model) \<Rightarrow>
             (case fs scaler_path of
                Some (ScalersPickle feature_scaler target_scaler) \<Rightarrow>
                  (case fs metadata_path of
                     Some (JsonFile md) \<Rightarrow> Some (model, feature_scaler, target_scaler, md)
                   | _ \<Rightarrow> None)
              | _ \<Rightarrow> None)
         | _ \<Rightarrow> None))"

section \<open>Inference path: the recursive forecast loop\<close>

text \<open>The feature list written out in lstm_prediction.py (lines 93, 211 and 292).\<close>

definition feature_names :: "string list" where
  "feature_names = [''Close'', ''Volume'', ''MA5'', ''MA10'', ''MA20'',
                    ''Price_Change'', ''Price_Range'', ''Volume_Change'', ''RSI'']"

text \<open>
  One pass of the loop body (lines 303 to 311 and 223 to 237): the window is reshaped to
  (1, lookback, 9), which numpy refuses unless it holds lookback * 9 cells; the network
  predicts; the last row is copied, its cell 0 overwritten by the prediction, and stacked
  under the window without its first row.
\<close>

fun forecast_loop ::
  "network \<Rightarrow> nat \<Rightarrow> nat \<Rightarrow> fval list list \<Rightarrow> fval list \<Rightarrow> error + fval list \<times> fval list list" where
  "forecast_loop model L 0 current_sequence predictions = Inr (predictions, current_sequence)"
| "forecast_loop model L (Suc days) current_sequence predictions =
     (if length (concat current_sequence) \<noteq> L * length feature_names
      then Inl (ValueError ''cannot reshape array'')
      else
        let next_pred = model current_sequence in
        if current_sequence = [] \<or> last current_sequence = [] then Inl IndexError
        else
          let last_features = (last current_sequence)[0 := next_pred]
          in forecast_loop model L days (tl current_sequence @ [last_features])
               (predictions @ [next_pred]))"

text \<open>\<^verbatim>\<open>values[-n:]\<close>: the last n rows, and all of them when n is 0.\<close>

definition last_rows :: "nat \<Rightarrow> 'a list \<Rightarrow> 'a list" where
  "last_rows n rows = (if n = 0 then rows else drop (length rows - n) rows)"

section \<open>Prediction results\<close>

text \<open>
  The dictionaries returned by the prediction entry points. A failure carries the
  \<^verbatim>\<open>error\<close> text: a literal, the rendering of an exception, or that rendering after
  the words "Prediction failed: ". Dates are day numbers.
\<close>

datatype message = Text string | StrOf error | PredictionFailed error

record pretrained_result =
  pr_symbol :: string
  pr_predictions :: "fval list"
  pr_future_dates :: "int list"
  pr_historical_prices :: "fval list"
  pr_historical_dates :: "int list"
  pr_current_price :: fval
  pr_predicted_price :: fval
  pr_price_change_percent :: fval
  pr_model_metadata :: metadata
  pr_using_pretrained :: bool

record simulation_result =
  sr_symbol :: string
  sr_historical_dates :: "int list"
  sr_historical_prices :: "fval list"
  sr_dates :: "int list"
  sr_average :: "fval list"
  sr_std :: "fval list"
  sr_simulations :: "fval list list"
  sr_current_price :: fval
  sr_predicted_price :: fval
  sr_price_change :: fval
  sr_price_change_pct :: fval
  sr_num_simulations :: nat
  sr_future_days :: int

datatype prediction = Failure message | Pretrained pretrained_result | Simulated simulation_result

text \<open>The keys \<^verbatim>\<open>success\<close>, \<^verbatim>\<open>error\<close> and \<^verbatim>\<open>using_pretrained\<close>; None is a missing key.\<close>

fun success :: "prediction \<Rightarrow> bool" where
  "success (Failure m) = False"
| "success (Pretrained r) = True"
| "success (Simulated r) = True"

fun error_message :: "prediction \<Rightarrow> message option" where
  "error_message (Failure m) = Some m"
| "error_message (Pretrained r) = None"
| "error_message (Simulated r) = None"

fun using_pretrained :: "prediction \<Rightarrow> bool option" where
  "using_pretrained (Failure m) = None"
| "using_pretrained (Pretrained r) = Some (pr_using_pretrained r)"
| "using_pretrained (Simulated r) = None"

fun show_nat :: "nat \<Rightarrow> string" where
  "show_nat n = (if n < 10 then [char_of (48 + n)]
                 else show_nat (n div 10) @ [char_of (48 + n mod 10)])"

declare show_nat.simps [simp del]

section \<open>Inference path: the pretrained branch of run_lstm_prediction_pretrained\<close>

definition pretrained_predict_try ::
  "env \<Rightarrow> string \<Rightarrow> int \<Rightarrow> artifact \<Rightarrow> error + prediction" where
  "pretrained_predict_try e symbol future_days pretrained =
     (case pretrained of (model, feature_scaler, target_scaler, js) \<Rightarrow>
      (case js of
         MetadataJson md \<Rightarrow>
           (case download_stock_with_fallback e symbol ''6mo'' of
              None \<Rightarrow> Inr (Failure (Text (''No data found for '' @ symbol)))
            | Some df0 \<Rightarrow>
                if df_empty df0 then Inr (Failure (Text (''No data found for '' @ symbol)))
                else
                  bindE (calculate_technical_indicators df0) (\<lambda>df1.
                  let df = dropna df1 in
                  if nrows df < 30
                  then Inr (Failure (Text (''Insufficient recent data: need 30 rows, got ''
                              @ show_nat (nrows df) @ ''. Try longer period.'')))
                  else
                    bindE (df_values df feature_names) (\<lambda>vals.
                    let last_sequence = last_rows 30 vals in
                    bindE (scaler_transform feature_scaler last_sequence) (\<lambda>last_sequence_scaled.
                    bindE (forecast_loop model 30 (nat future_days) last_sequence_scaled [])
                      (\<lambda>(predictions, current_sequence).
                    bindE (inverse_transform target_scaler (reshape_col predictions))
                      (\<lambda>predictions_unscaled.
                    let last_date = last (index df);
                        future_dates = map (\<lambda>i. last_date + 1 + int i) [0..<nat future_days]
                    in
                    bindE (get_col df ''Close'') (\<lambda>close.
                    if predictions_unscaled = [] \<or> close = [] then Inl IndexError
                    else
                      Inr (Pretrained
                        \<lparr>pr_symbol = symbol,
                         pr_predictions = concat predictions_unscaled,
                         pr_future_dates = future_dates,
                         pr_historical_prices = close,
                         pr_historical_dates = index df,
                         pr_current_price = last close,
                         pr_predicted_price = hd (last predictions_unscaled),
                         pr_price_change_percent =
                           fmul (fdiv (fsub (hd (last predictions_unscaled)) (last close))
                                      (last close)) (Fin 100),
                         pr_model_metadata = md,
                         pr_using_pretrained = True\<rparr>))))))))
       | SummaryJson sm \<Rightarrow> Inl (KeyError ''trained_date'')
       | OtherJson \<Rightarrow> Inl (KeyError ''trained_date'')))"

section \<open>Inference path: the fallback, LSTMPredictor and run_lstm_prediction\<close>

text \<open>The features of LSTMPredictor.prepare_data and predict_future: no edge-case handling.\<close>

definition predictor_indicators :: "dataframe \<Rightarrow> error + dataframe" where
  "predictor_indicators df =
     bindE (get_col df ''Close'') (\<lambda>close.
     bindE (get_col df ''High'') (\<lambda>high.
     bindE (get_col df ''Low'') (\<lambda>low.
     bindE (get_col df ''Volume'') (\<lambda>volume.
     let df = set_col df ''MA5'' (rolling_mean 5 close);
         df = set_col df ''MA10'' (rolling_mean 10 close);
         df = set_col df ''MA20'' (rolling_mean 20 close);
         df = set_col df ''Price_Change'' (pct_change close);
         df = set_col df ''Price_Range''
                (map (\<lambda>((h, l), c). fdiv (fsub h l) c) (zip (zip high low) close));
         df = set_col df ''Volume_Change'' (pct_change volume);
         delta = diff close;
         gain = rolling_mean 14 (where0 fgt0 delta);
         loss = rolling_mean 14 (map fneg (where0 flt0 delta));
         rs = map (\<lambda>(g, l). fdiv g l) (zip gain loss);
         df = set_col df ''RSI'' (map (\<lambda>r. fsub (Fin 100) (fdiv (Fin 100) (fadd (Fin 1) r))) rs)
     in Inr (dropna df)))))"

record prepared =
  X_train :: "fval list list list"
  y_train :: "fval list"
  X_test :: "fval list list list"
  y_test :: "fval list"
  scaled_features :: "fval list list"
  fitted_scaler :: scaler
  fitted_target_scaler :: scaler

definition prepare_data :: "nat \<Rightarrow> dataframe \<Rightarrow> error + prepared" where
  "prepare_data L data =
     bindE (predictor_indicators data) (\<lambda>df.
     if nrows df < L + 50
     then Inl (ValueError (''Insufficient data after feature calculation. Need at least ''
                 @ show_nat (L + 50) @ '' rows, got '' @ show_nat (nrows df)
                 @ ''. Try a longer period.''))
     else
       bindE (df_values df feature_names) (\<lambda>feature_data.
       bindE (fit_transform feature_data) (\<lambda>(sc, scaled).
       bindE (get_col df ''Close'') (\<lambda>close.
       bindE (fit_transform (reshape_col close)) (\<lambda>(tsc, scaled_prices).
       let (X, y) = create_sequences L scaled scaled_prices;
           split_idx = split_index (length X)
       in Inr \<lparr>X_train = take split_idx X, y_train = take split_idx y,
               X_test = drop split_idx X, y_test = drop split_idx y,
               scaled_features = scaled, fitted_scaler = sc,
               fitted_target_scaler = tsc\<rparr>)))))"

text \<open>LSTMPredictor.train: one fit of a fresh network, with the adapted batch size.\<close>

definition predictor_train ::
  "env \<Rightarrow> fval list list list \<Rightarrow> fval list \<Rightarrow> int \<Rightarrow> int \<Rightarrow> error + network" where
  "predictor_train e X y epochs batch_size =
     bindE (keras_fit e X y epochs (min batch_size (max 8 (int (length X) div 10))))
       (\<lambda>history. Inr (net history))"

text \<open>\<^verbatim>\<open>df.tail(n)\<close>: the last n rows.\<close>

definition df_tail :: "nat \<Rightarrow> dataframe \<Rightarrow> dataframe" where
  "df_tail n df = take_rows df [nrows df - n..<nrows df]"

definition predict_future ::
  "network \<Rightarrow> nat \<Rightarrow> scaler \<Rightarrow> scaler \<Rightarrow> dataframe \<Rightarrow> int \<Rightarrow> error + fval list" where
  "predict_future model L sc tsc df days =
     bindE (predictor_indicators (df_tail (L + 50) df)) (\<lambda>recent_df.
     bindE (df_values recent_df feature_names) (\<lambda>vals.
     let last_sequence = last_rows L vals in
     bindE (scaler_transform sc last_sequence) (\<lambda>last_sequence_scaled.
     bindE (forecast_loop model L (nat days) last_sequence_scaled [])
       (\<lambda>(predictions, current_sequence).
     bindE (inverse_transform tsc (reshape_col predictions)) (\<lambda>predictions_unscaled.
     Inr (concat predictions_unscaled))))))"

text \<open>
  One simulation of run_lstm_prediction (lines 386 to 409) with the number of calls of
  \<^verbatim>\<open>predictor.train\<close> it made; an exception anywhere abandons the simulation.
\<close>

definition run_simulation :: "env \<Rightarrow> dataframe \<Rightarrow> int \<Rightarrow> (error + fval list) \<times> nat" where
  "run_simulation e df future_days =
     (case prepare_data 30 df of
        Inl err \<Rightarrow> (Inl err, 0)
      | Inr p \<Rightarrow>
          (case predictor_train e (X_train p) (y_train p) 10 32 of
             Inl err \<Rightarrow> (Inl err, 1)
           | Inr model \<Rightarrow>
               (predict_future model 30 (fitted_scaler p) (fitted_target_scaler p) df future_days,
                1)))"

fun simulations :: "env \<Rightarrow> dataframe \<Rightarrow> int \<Rightarrow> nat \<Rightarrow> fval list list \<times> nat" where
  "simulations e df future_days 0 = ([], 0)"
| "simulations e df future_days (Suc n) =
     (case run_simulation e df future_days of
        (r, calls) \<Rightarrow>
          (case simulations e df future_days n of
             (all_predictions, calls') \<Rightarrow>
               ((case r of Inl err \<Rightarrow> all_predictions | Inr p \<Rightarrow> p # all_predictions),
                calls + calls')))"

text \<open>\<^verbatim>\<open>np.mean\<close> and \<^verbatim>\<open>np.std\<close> along axis 0, and \<^verbatim>\<open>round(x, 2)\<close> to the even neighbour.\<close>

definition list_mean :: "fval list \<Rightarrow> fval" where
  "list_mean xs = fdiv (foldl fadd (Fin 0) xs) (Fin (real (length xs)))"

fun fsqrt :: "fval \<Rightarrow> fval" where
  "fsqrt (Fin a) = (if a < 0 then NaN else Fin (sqrt a))"
| "fsqrt PInf = PInf"
| "fsqrt NInf = NaN"
| "fsqrt NaN = NaN"

definition mean_axis0 :: "fval list list \<Rightarrow> fval list" where
  "mean_axis0 rows = map (\<lambda>j. list_mean (column j rows)) [0..<ncols rows]"

definition std_axis0 :: "fval list list \<Rightarrow> fval list" where
  "std_axis0 rows =
     map (\<lambda>j. let c = column j rows; m = list_mean c
               in fsqrt (list_mean (map (\<lambda>x. fmul (fsub x m) (fsub x m)) c)))
         [0..<ncols rows]"

definition round_half_even :: "real \<Rightarrow> int" where
  "round_half_even x =
     (let f = \<lfloor>x\<rfloor>; d = x - of_int f
      in if d < 1 / 2 then f else if 1 / 2 < d then f + 1 else if even f then f else f + 1)"

fun round2 :: "fval \<Rightarrow> fval" where
  "round2 (Fin a) = Fin (of_int (round_half_even (a * 100)) / 100)"
| "round2 PInf = PInf"
| "round2 NInf = NInf"
| "round2 NaN = NaN"

definition run_lstm_prediction_try ::
  "env \<Rightarrow> string \<Rightarrow> string \<Rightarrow> int \<Rightarrow> int \<Rightarrow> (error + prediction) \<times> nat" where
  "run_lstm_prediction_try e symbol period num_simulations future_days =
     (case download_stock_with_fallback e symbol period of
        None \<Rightarrow> (Inr (Failure (Text (''No data found for symbol '' @ symbol))), 0)
      | Some df \<Rightarrow>
          if df_empty df then (Inr (Failure (Text (''No data found for symbol '' @ symbol))), 0)
          else
            (case get_col df ''Close'' of
               Inl err \<Rightarrow> (Inl err, 0)
             | Inr historical_prices \<Rightarrow>
                 (case simulations e df future_days (nat num_simulations) of
                    (all_predictions, calls) \<Rightarrow>
                      if all_predictions = []
                      then (Inr (Failure (Text
                              ''All simulations failed. Please try different parameters.'')), calls)
                      else
                        let avg_prediction = mean_axis0 all_predictions;
                            std_prediction = std_axis0 all_predictions;
                            last_date = last (index df);
                            future_dates = map (\<lambda>i. last_date + (int i + 1)) [0..<nat future_days]
                        in
                        if historical_prices = [] \<or> avg_prediction = [] then (Inl IndexError, calls)
                        else
                          let current_price = last historical_prices;
                              predicted_price = last avg_prediction;
                              price_change = fsub predicted_price current_price;
                              price_change_pct = fmul (fdiv price_change current_price) (Fin 100)
                          in
                          (Inr (Simulated
                             \<lparr>sr_symbol = symbol,
                              sr_historical_dates = index df,
                              sr_historical_prices = historical_prices,
                              sr_dates = future_dates,
                              sr_average = avg_prediction,
                              sr_std = std_prediction,
                              sr_simulations = all_predictions,
                              sr_current_price = round2 current_price,
                              sr_predicted_price = round2 predicted_price,
                              sr_price_change = round2 price_change,
                              sr_price_change_pct = round2 price_change_pct,
                              sr_num_simulations = length all_predictions,
                              sr_future_days = future_days\<rparr>), calls))))"

text \<open>
  The entry points return the dictionary together with the number of training runs made
  on the way. Their \<^verbatim>\<open>except Exception\<close> turns every error into a failure dictionary.
\<close>

definition run_lstm_prediction ::
  "env \<Rightarrow> string \<Rightarrow> string \<Rightarrow> int \<Rightarrow> int \<Rightarrow> prediction \<times> nat" where
  "run_lstm_prediction e symbol period num_simulations future_days =
     (if \<not> keras_available e
      then (Failure (Text ''TensorFlow/Keras not installed. Please install: pip install tensorflow keras''), 0)
      else
        (case run_lstm_prediction_try e symbol period num_simulations future_days of
           (Inl err, calls) \<Rightarrow> (Failure (PredictionFailed err), calls)
         | (Inr r, calls) \<Rightarrow> (r, calls)))"

definition run_lstm_prediction_pretrained ::
  "env \<Rightarrow> filesystem \<Rightarrow> string \<Rightarrow> string \<Rightarrow> int \<Rightarrow> prediction \<times> nat" where
  "run_lstm_prediction_pretrained e fs symbol period future_days =
     (if \<not> keras_available e then (Failure (Text ''TensorFlow/Keras not installed''), 0)
      else if \<not> makedirs_ok e then (Failure (StrOf (OSError ''models/pretrained'')), 0)
      else
        let trainer = ModelTrainer ''models/pretrained'' in
        (case load_pretrained_model e trainer fs symbol of
           Some pretrained \<Rightarrow>
             (case pretrained_predict_try e symbol future_days pretrained of
                Inl err \<Rightarrow> (Failure (StrOf err), 0)
              | Inr r \<Rightarrow> (r, 0))
         | None \<Rightarrow> run_lstm_prediction e symbol period 1 future_days))"

section \<open>Notions used to state the properties\<close>

text \<open>The key under which the three files of a symbol are stored, and their paths.\<close>

definition safe_key :: "string \<Rightarrow> string" where
  "safe_key symbol = str_replace CHR ''&'' ''AND'' (str_replace CHR ''.'' ''_'' symbol)"

definition artifact_paths :: "trainer \<Rightarrow> string \<Rightarrow> string list" where
  "artifact_paths self symbol =
     [model_dir self @ ''/'' @ safe_key symbol @ ''.keras'',
      model_dir self @ ''/scalers/'' @ safe_key symbol @ ''.pkl'',
      model_dir self @ ''/metadata/'' @ safe_key symbol @ ''.json'']"

text \<open>
  What training one symbol returns. The disk only receives writes, so the result is the
  same on every disk (lemma \<open>train_single_stock_result_indep\<close>).
\<close>

definition symbol_result :: "env \<Rightarrow> trainer \<Rightarrow> int \<Rightarrow> int \<Rightarrow> string \<times> dataframe \<Rightarrow> metadata option" where
  "symbol_result e self epochs bs item = fst (train_single_stock e self (fst item) (snd item) epochs bs Map.empty)"

text \<open>
  A feature frame is indicator-complete for a list of columns: it is well formed, and the
  columns of the list and the close column exist and hold numbers only.
\<close>

definition feature_complete :: "string list \<Rightarrow> dataframe \<Rightarrow> bool" where
  "feature_complete names df =
     (wf_df df \<and> names \<noteq> [] \<and>
      list_all (\<lambda>c. case map_of (cols df) c of None \<Rightarrow> False | Some s \<Rightarrow> list_all isfinite s)
               (''Close'' # names))"

text \<open>Sample data: a feature frame of n rows, and an environment where every step succeeds.\<close>

definition demo_frame :: "nat \<Rightarrow> dataframe" where
  "demo_frame n =
     \<lparr>index = map int [0..<n],
      cols = map (\<lambda>c. (c, map (\<lambda>i. Fin (real i)) [0..<n])) feature_names\<rparr>"

definition demo_env :: env where
  "demo_env =
     \<lparr>keras_available = True,
      keras_fit = (\<lambda>X y epochs batch_size. Inr \<lparr>net = (\<lambda>w. Fin 0), loss_history = [Fin 1]\<rparr>),
      keras_evaluate = (\<lambda>model X y. Inr (Fin 0, Fin 0)),
      writable = (\<lambda>p. True),
      makedirs_ok = True,
      now = ''2024-01-01T00:00:00'',
      download_stock_with_fallback = (\<lambda>symbol period. None)\<rparr>"
definition demo_universe :: "(string \<times> dataframe) list" where
  "demo_universe =
     [(''S1'', demo_frame 300), (''S2'', demo_frame 300), (''S3'', demo_frame 40),
      (''S4'', demo_frame 300), (''S5'', demo_frame 300)]"

text \<open>A window as the loop expects it: lookback rows (at least one) of nine cells.\<close>

definition window_shape :: "nat \<Rightarrow> fval list list \<Rightarrow> bool" where
  "window_shape L w = (length w = L \<and> 0 < L \<and> list_all (\<lambda>r. length r = length feature_names) w)"

text \<open>
  Clean raw bars: a well-formed frame with the columns Close, High, Low and Volume whose
  cells are all numbers, with no zero close price and no zero volume.
\<close>

definition clean_bars :: "dataframe \<Rightarrow> bool" where
  "clean_bars df =
     (wf_df df
      \<and> list_all (has_col df) [''Close'', ''High'', ''Low'', ''Volume'']
      \<and> list_all (\<lambda>(c, s). list_all isfinite s) (cols df)
      \<and> (case map_of (cols df) ''Close'' of None \<Rightarrow> False | Some s \<Rightarrow> Fin 0 \<notin> set s)
      \<and> (case map_of (cols df) ''Volume'' of None \<Rightarrow> False | Some s \<Rightarrow> Fin 0 \<notin> set s))"

text \<open>
  The invariant carried through the column assignments of the feature engineer: n rows,
  every column of length n and holding numbers from row k on.
\<close>

definition cols_ok :: "nat \<Rightarrow> nat \<Rightarrow> dataframe \<Rightarrow> bool" where
  "cols_ok n k df = (nrows df = n \<and>
      (\<forall>(c, s) \<in> set (cols df). length s = n \<and> (\<forall>i. k \<le> i \<and> i < n \<longrightarrow> isfinite (s ! i))))"

text \<open>A scaler fitted on k columns.\<close>

definition scaler_width :: "nat \<Rightarrow> scaler \<Rightarrow> bool" where
  "scaler_width k s = (length (data_min s) = k \<and> length (data_max s) = k)"

text \<open>
  More sample data: n clean raw bars, an environment whose market data provider returns
  given bars, a stored artifact for the symbol TEST, and an empty disk.
\<close>

definition raw_frame :: "nat \<Rightarrow> dataframe" where
  "raw_frame n =
     \<lparr>index = map int [0..<n],
      cols = [(''Open'', map (\<lambda>i. Fin (real (100 + i))) [0..<n]),
              (''High'', map (\<lambda>i. Fin (real (102 + i))) [0..<n]),
              (''Low'', map (\<lambda>i. Fin (real (99 + i))) [0..<n]),
              (''Close'', map (\<lambda>i. Fin (real (101 + i))) [0..<n]),
              (''Volume'', map (\<lambda>i. Fin (real (1000 + i))) [0..<n])]\<rparr>"

definition market_env :: "dataframe option \<Rightarrow> env" where
  "market_env bars = demo_env\<lparr>download_stock_with_fallback := (\<lambda>symbol period. bars)\<rparr>"

definition demo_scaler :: "nat \<Rightarrow> scaler" where
  "demo_scaler k = \<lparr>data_min = replicate k (Fin 0), data_max = replicate k (Fin 200)\<rparr>"

definition demo_metadata :: metadata where
  "demo_metadata =
     \<lparr>md_symbol = ''TEST'', trained_date = ''2024-01-01T00:00:00'',
      training_samples = 216, test_samples = 54, test_loss = Fin 0, test_mae = Fin 0,
      final_train_loss = Fin 1, md_epochs = 10, md_lookback = 30, md_features = feature_names\<rparr>"

definition demo_network :: network where
  "demo_network w = Fin (1 / 2)"

definition demo_store :: filesystem where
  "demo_store =
     [''models/pretrained/TEST.keras'' \<mapsto> KerasFile demo_network,
      ''models/pretrained/scalers/TEST.pkl'' \<mapsto> ScalersPickle (demo_scaler 9) (demo_scaler 1),
      ''models/pretrained/metadata/TEST.json'' \<mapsto> JsonFile (MetadataJson demo_metadata)]"

definition empty_store :: filesystem where
  "empty_store = Map.empty"

text \<open>
  The step of the forecast as the specification words it: drop the oldest row, append the
  last row with the prediction in place of its close price; and the window after k steps.
\<close>

definition slide :: "network \<Rightarrow> fval list list \<Rightarrow> fval list list" where
  "slide model w = tl w @ [(last w)[0 := model w]]"

primrec window_after :: "network \<Rightarrow> fval list list \<Rightarrow> nat \<Rightarrow> fval list list" where
  "window_after model w 0 = w"
| "window_after model w (Suc k) = slide model (window_after model w k)"

text \<open>A sample window of 30 rows, and a network that adds 1 to the last close.\<close>

definition demo_window :: "fval list list" where
  "demo_window = map (\<lambda>i. map (\<lambda>j. Fin (real (10 * i + j))) [0..<9]) [0..<30]"

definition last_close :: network where
  "last_close w = fadd (hd (last w)) (Fin 1)"

text \<open>
  The market data provider gave nothing usable: \<^verbatim>\<open>df is None or df.empty\<close>.
\<close>

definition fetch_fails :: "env \<Rightarrow> string \<Rightarrow> string \<Rightarrow> bool" where
  "fetch_fails e symbol period =
     (case download_stock_with_fallback e symbol period of None \<Rightarrow> True | Some df \<Rightarrow> df_empty df)"

text \<open>Fifteen daily bars whose close rises by 1 every day: no day has a loss.\<close>

definition rising_closes :: "fval list" where
  "rising_closes = map Fin [101, 102, 103, 104, 105, 106, 107, 108, 109, 110, 111, 112, 113, 114, 115]"

definition rising_bars :: dataframe where
  "rising_bars =
     \<lparr>index = map int [0..<15],
      cols = [(''Open'', map (\<lambda>i. Fin (real (100 + i))) [0..<15]),
              (''High'', map (\<lambda>i. Fin (real (102 + i))) [0..<15]),
              (''Low'', map (\<lambda>i. Fin (real (99 + i))) [0..<15]),
              (''Close'', rising_closes),
              (''Volume'', map (\<lambda>i. Fin (real (1000 + i))) [0..<15])]\<rparr>"

section \<open>Basic lemmas\<close>

lemma bindE_Inr [simp]: "bindE (Inr x) f = f x"
  by (simp add: bindE_def)

lemma bindE_Inl [simp]: "bindE (Inl e) f = Inl e"
  by (simp add: bindE_def)

section \<open>Model store\<close>

lemma str_replace_notin: "c \<notin> set t \<Longrightarrow> c \<notin> set (str_replace c t s)"
  by (induction s) (auto simp: str_replace_def)

lemma str_replace_keeps: "c \<notin> set s \<Longrightarrow> c \<notin> set t \<Longrightarrow> c \<notin> set (str_replace d t s)"
  by (induction s) (auto simp: str_replace_def)

lemma safe_key_clean: "CHR ''.'' \<notin> set (safe_key s) \<and> CHR ''&'' \<notin> set (safe_key s)"
  unfolding safe_key_def
  by (intro conjI str_replace_keeps str_replace_notin) simp_all

lemma paths_distinct:
  "a @ ''/'' @ k @ ''.keras'' \<noteq> b @ ''/scalers/'' @ k' @ ''.pkl''"
  "a @ ''/'' @ k @ ''.keras'' \<noteq> b @ ''/metadata/'' @ k' @ ''.json''"
  "a @ ''/scalers/'' @ k @ ''.pkl'' \<noteq> b @ ''/metadata/'' @ k' @ ''.json''"
proof -
  show "a @ ''/'' @ k @ ''.keras'' \<noteq> b @ ''/scalers/'' @ k' @ ''.pkl''"
  proof
    assume eq: "a @ ''/'' @ k @ ''.keras'' = b @ ''/scalers/'' @ k' @ ''.pkl''"
    from arg_cong [OF eq, of last] show False by simp
  qed
  show "a @ ''/'' @ k @ ''.keras'' \<noteq> b @ ''/metadata/'' @ k' @ ''.json''"
  proof
    assume eq: "a @ ''/'' @ k @ ''.keras'' = b @ ''/metadata/'' @ k' @ ''.json''"
    from arg_cong [OF eq, of last] show False by simp
  qed
  show "a @ ''/scalers/'' @ k @ ''.pkl'' \<noteq> b @ ''/metadata/'' @ k' @ ''.json''"
  proof
    assume eq: "a @ ''/scalers/'' @ k @ ''.pkl'' = b @ ''/metadata/'' @ k' @ ''.json''"
    from arg_cong [OF eq, of last] show False by simp
  qed
qed

lemma load_miss:
  "\<exists>p \<in> set (artifact_paths self symbol). fs p = None \<Longrightarrow> load_pretrained_model e self fs symbol = None"
  by (auto simp: load_pretrained_model_def artifact_paths_def safe_key_def Let_def)

lemma load_hit_present:
  assumes "load_pretrained_model e self fs symbol = Some b"
    and "p \<in> set (artifact_paths self symbol)"
  shows "fs p \<noteq> None"
proof
  assume "fs p = None"
  with assms(2) have "\<exists>p \<in> set (artifact_paths self symbol). fs p = None" by blast
  from load_miss [OF this, of e] assms(1) show False by simp
qed

lemma train_single_stock_SomeD:
  assumes "train_single_stock e self symbol df epochs bs fs = (Some md, fs')"
  shows "\<exists>X y fsc tsc history loss mae.
     prepare_stock_data self df = Some (X, y, fsc, tsc)
   \<and> keras_available e
   \<and> keras_fit e (take (split_index (length X)) X) (take (split_index (length X)) y) epochs
         (min bs (max 8 (int (length (take (split_index (length X)) X)) div 10))) = Inr history
   \<and> keras_evaluate e (net history) (drop (split_index (length X)) X) (drop (split_index (length X)) y) = Inr (loss, mae)
   \<and> loss_history history \<noteq> []
   \<and> md = \<lparr>md_symbol = symbol, trained_date = now e,
            training_samples = length (take (split_index (length X)) X),
            test_samples = length (drop (split_index (length X)) X),
            test_loss = loss, test_mae = mae,
            final_train_loss = last (loss_history history),
            md_epochs = epochs, md_lookback = lookback self, md_features = features self\<rparr>
   \<and> fs' = fs(model_dir self @ ''/'' @ safe_key symbol @ ''.keras'' \<mapsto> KerasFile (net history),
             model_dir self @ ''/scalers/'' @ safe_key symbol @ ''.pkl'' \<mapsto> ScalersPickle fsc tsc,
             model_dir self @ ''/metadata/'' @ safe_key symbol @ ''.json'' \<mapsto> JsonFile (MetadataJson md))"
proof (cases "prepare_stock_data self df")
  case None
  with assms show ?thesis by (simp add: train_single_stock_def)
next
  case (Some r)
  obtain X y fsc tsc where r: "r = (X, y, fsc, tsc)" by (cases r) auto
  note prep = Some [unfolded r]
  show ?thesis
  proof (cases "keras_available e")
    case False
    with assms prep show ?thesis by (simp add: train_single_stock_def Let_def)
  next
    case ka: True
    show ?thesis
    proof (cases "keras_fit e (take (split_index (length X)) X) (take (split_index (length X)) y) epochs
         (min bs (max 8 (int (length (take (split_index (length X)) X)) div 10)))")
      case (Inl err)
      with assms prep ka show ?thesis by (simp add: train_single_stock_def Let_def)
    next
      case fit: (Inr history)
      show ?thesis
      proof (cases "keras_evaluate e (net history) (drop (split_index (length X)) X) (drop (split_index (length X)) y)")
        case (Inl err)
        with assms prep ka fit show ?thesis by (simp add: train_single_stock_def Let_def)
      next
        case (Inr lm)
        obtain loss mae where lm: "lm = (loss, mae)" by (cases lm)
        note ev = Inr [unfolded lm]
        from assms prep ka fit ev show ?thesis
          by (auto simp add: train_single_stock_def Let_def safe_key_def split: if_splits)
      qed
    qed
  qed
qed

section \<open>Bulk pipeline\<close>

lemma train_single_stock_result_indep:
  "fst (train_single_stock e self symbol df epochs bs fs) = fst (train_single_stock e self symbol df epochs bs fs')"
  by (simp add: train_single_stock_def Let_def split: option.splits prod.splits sum.splits)

lemma train_loop_acc:
  "\<exists>fs'. train_loop e self epochs bs items (succ, fl, fs) =
     (succ @ map (\<lambda>it. the (symbol_result e self epochs bs it)) (filter (\<lambda>it. symbol_result e self epochs bs it \<noteq> None) items),
      fl @ map fst (filter (\<lambda>it. symbol_result e self epochs bs it = None) items), fs')"
proof (induction items arbitrary: succ fl fs)
  case Nil
  then show ?case by simp
next
  case (Cons it items)
  obtain symbol df where it: "it = (symbol, df)" by (cases it)
  obtain r fs1 where step: "train_single_stock e self symbol df epochs bs fs = (r, fs1)"
    by (cases "train_single_stock e self symbol df epochs bs fs")
  have r: "symbol_result e self epochs bs it = r"
    using step train_single_stock_result_indep [of e self symbol df epochs bs Map.empty fs]
    by (simp add: symbol_result_def it)
  show ?case
  proof (cases r)
    case None
    with Cons.IH [of succ "fl @ [symbol]" fs1] step r it show ?thesis by auto
  next
    case (Some md)
    with Cons.IH [of "succ @ [md]" fl fs1] step r it show ?thesis by auto
  qed
qed

section \<open>Sequence builder\<close>

lemma wf_df_col_length:
  "wf_df df \<Longrightarrow> map_of (cols df) c = Some s \<Longrightarrow> length s = nrows df"
  by (auto simp: wf_df_def list_all_iff dest: map_of_SomeD)

lemma select_cols_ok:
  "list_all (\<lambda>c. map_of (cols df) c \<noteq> None) names \<Longrightarrow>
   select_cols df names = Inr (map (\<lambda>c. the (map_of (cols df) c)) names)"
  by (induction names) (auto simp: get_col_def)

lemma feature_complete_present:
  "feature_complete names df \<Longrightarrow> list_all (\<lambda>c. map_of (cols df) c \<noteq> None) names"
  by (auto simp: feature_complete_def list_all_iff split: option.splits)

lemma feature_complete_close:
  "feature_complete names df \<Longrightarrow> \<exists>close. get_col df ''Close'' = Inr close \<and> length close = nrows df \<and> list_all isfinite close"
  by (auto simp: feature_complete_def get_col_def wf_df_col_length split: option.splits)

lemma feature_complete_values:
  assumes "feature_complete names df"
  shows "df_values df names = Inr (rows_of (nrows df) (map (\<lambda>c. the (map_of (cols df) c)) names))"
  using select_cols_ok [OF feature_complete_present [OF assms]]
  by (simp add: df_values_def)

lemma rows_of_length [simp]: "length (rows_of n ss) = n"
  by (simp add: rows_of_def)

lemma rows_of_nth: "i < n \<Longrightarrow> rows_of n ss ! i = map (\<lambda>s. s ! i) ss"
  by (simp add: rows_of_def)

lemma feature_complete_finite:
  assumes "feature_complete names df"
  shows "all_finite (rows_of (nrows df) (map (\<lambda>c. the (map_of (cols df) c)) names))"
proof -
  have "isfinite (the (map_of (cols df) c) ! i)" if "c \<in> set names" "i < nrows df" for c i
  proof -
    from assms that obtain s where s: "map_of (cols df) c = Some s" "list_all isfinite s"
      by (auto simp: feature_complete_def list_all_iff split: option.splits)
    from assms s have "length s = nrows df" by (auto simp: feature_complete_def wf_df_col_length)
    with s that show ?thesis by (simp add: list_all_length)
  qed
  then show ?thesis
    by (auto simp: all_finite_def rows_of_def list_all_iff)
qed

lemma isfinite_not_isinf: "isfinite x \<Longrightarrow> \<not> isinf x"
  by (cases x) auto

lemma check_array_ok:
  assumes "rows \<noteq> []" "0 < ncols rows" "all_finite rows"
  shows "check_array rows = Inr ()"
proof -
  from assms(3) have "\<not> list_ex (list_ex isinf) rows"
    by (auto simp: all_finite_def list_all_iff list_ex_iff dest: isfinite_not_isinf)
  with assms show ?thesis by (simp add: check_array_def)
qed

lemma fit_transform_ok:
  assumes "check_array rows = Inr ()"
  shows "\<exists>s. scaler_fit rows = Inr s \<and> fit_transform rows = Inr (s, map (per_column scale_cell s) rows)"
  using assms by (simp add: fit_transform_def scaler_fit_def scaler_transform_def)

lemma ncols_rows_of: "0 < n \<Longrightarrow> ncols (rows_of n ss) = length ss"
  by (simp add: ncols_def rows_of_def upt_conv_Cons split: list.splits)

lemma ncols_reshape_col: "xs \<noteq> [] \<Longrightarrow> ncols (reshape_col xs) = 1"
  by (cases xs) (simp_all add: ncols_def reshape_col_def)

lemma all_finite_reshape_col: "list_all isfinite xs \<Longrightarrow> all_finite (reshape_col xs)"
  by (simp add: all_finite_def reshape_col_def list_all_iff)

lemma create_sequences_length:
  "create_sequences L sf sp = (X, y) \<Longrightarrow> length X = length sf - L \<and> length y = length sf - L"
  by (auto simp: create_sequences_def)

lemma create_sequences_nth:
  assumes "create_sequences L sf sp = (X, y)" "i < length sf - L"
  shows "X ! i = take L (drop i sf)" "y ! i = sp ! (i + L) ! 0"
  using assms by (auto simp: create_sequences_def slice_def add.commute)

lemma prepare_stock_data_ok:
  assumes close: "has_col df0 ''Close''"
    and frame: "indicator_frame df0 = Inr df"
    and enough: "lookback self + 50 \<le> nrows df"
    and complete: "feature_complete (features self) df"
  shows "\<exists>fd close fsc tsc.
           df_values df (features self) = Inr fd \<and> length fd = nrows df
         \<and> get_col df ''Close'' = Inr close \<and> length close = nrows df
         \<and> scaler_fit fd = Inr fsc \<and> scaler_fit (reshape_col close) = Inr tsc
         \<and> prepare_stock_data self df0 =
             Some (fst (create_sequences (lookback self) (map (per_column scale_cell fsc) fd)
                          (map (per_column scale_cell tsc) (reshape_col close))),
                   snd (create_sequences (lookback self) (map (per_column scale_cell fsc) fd)
                          (map (per_column scale_cell tsc) (reshape_col close))),
                   fsc, tsc)"
proof -
  define fd where "fd = rows_of (nrows df) (map (\<lambda>c. the (map_of (cols df) c)) (features self))"
  have vals: "df_values df (features self) = Inr fd"
    using feature_complete_values [OF complete] by (simp add: fd_def)
  have fin: "all_finite fd" using feature_complete_finite [OF complete] by (simp add: fd_def)
  have pos: "0 < nrows df" using enough by simp
  have len: "length fd = nrows df" by (simp add: fd_def)
  have ne: "fd \<noteq> []" using pos len by auto
  have nc: "0 < ncols fd" using complete pos by (simp add: fd_def ncols_rows_of feature_complete_def)
  from fit_transform_ok [OF check_array_ok [OF ne nc fin]]
  obtain fsc where fsc: "scaler_fit fd = Inr fsc"
    "fit_transform fd = Inr (fsc, map (per_column scale_cell fsc) fd)" by blast
  from feature_complete_close [OF complete]
  obtain close where cl: "get_col df ''Close'' = Inr close" "length close = nrows df"
    "list_all isfinite close" by blast
  have cne: "close \<noteq> []" using cl(2) pos by auto
  have "reshape_col close \<noteq> []" using cne by (simp add: reshape_col_def)
  moreover have "0 < ncols (reshape_col close)" using cne by (simp add: ncols_reshape_col)
  moreover have "all_finite (reshape_col close)" using cl(3) by (rule all_finite_reshape_col)
  ultimately have "check_array (reshape_col close) = Inr ()" by (rule check_array_ok)
  from fit_transform_ok [OF this]
  obtain tsc where tsc: "scaler_fit (reshape_col close) = Inr tsc"
    "fit_transform (reshape_col close) = Inr (tsc, map (per_column scale_cell tsc) (reshape_col close))"
    by blast
  have "prepare_stock_data_try self df0 =
      Inr (Some (fst (create_sequences (lookback self) (map (per_column scale_cell fsc) fd)
                          (map (per_column scale_cell tsc) (reshape_col close))),
                   snd (create_sequences (lookback self) (map (per_column scale_cell fsc) fd)
                          (map (per_column scale_cell tsc) (reshape_col close))),
                   fsc, tsc))"
    using close frame enough vals fin fsc(2) cl(1) tsc(2)
    by (simp add: prepare_stock_data_try_def Let_def split: prod.splits)
  then show ?thesis using vals len cl fsc(1) tsc(1)
    by (simp add: prepare_stock_data_def)
qed

lemma prepare_stock_data_short:
  assumes "indicator_frame df0 = Inr df" "nrows df < lookback self + 50"
  shows "prepare_stock_data self df0 = None"
  using assms by (simp add: prepare_stock_data_def prepare_stock_data_try_def)


lemma fit_transform_length:
  "fit_transform rows = Inr (s, t) \<Longrightarrow> length t = length rows"
  by (auto simp: fit_transform_def scaler_transform_def bindE_def split: sum.splits if_splits)

lemma select_cols_length:
  "select_cols df names = Inr ss \<Longrightarrow> length ss = length names"
  by (induction names arbitrary: ss) (auto simp: bindE_def split: sum.splits)

lemma df_values_length: "df_values df names = Inr fd \<Longrightarrow> length fd = nrows df"
  by (auto simp: df_values_def bindE_def split: sum.splits)

lemma clean_features_length [simp]: "length (clean_features rows) = length rows"
  by (simp add: clean_features_def Let_def)

lemma prepare_stock_data_SomeD:
  assumes "prepare_stock_data self df0 = Some (X, y, fsc, tsc)"
  shows "\<exists>df. indicator_frame df0 = Inr df \<and> lookback self + 50 \<le> nrows df
            \<and> length X = nrows df - lookback self \<and> length y = nrows df - lookback self"
proof -
  from assms have tr: "prepare_stock_data_try self df0 = Inr (Some (X, y, fsc, tsc))"
    by (simp add: prepare_stock_data_def split: sum.splits)
  from tr have hc: "has_col df0 ''Close''"
    by (auto simp: prepare_stock_data_try_def split: if_splits)
  from tr hc obtain df where df: "indicator_frame df0 = Inr df"
    by (cases "indicator_frame df0") (auto simp: prepare_stock_data_try_def)
  from tr hc df have enough: "lookback self + 50 \<le> nrows df"
    by (auto simp: prepare_stock_data_try_def split: if_splits)
  from tr hc df enough obtain fd0 where fd0: "df_values df (features self) = Inr fd0"
    by (cases "df_values df (features self)") (auto simp: prepare_stock_data_try_def)
  define fd where "fd = (if \<not> all_finite fd0 then clean_features fd0 else fd0)"
  have lfd: "length fd = nrows df" using df_values_length [OF fd0] by (simp add: fd_def)
  from tr hc df enough fd0 have fin: "all_finite fd"
    by (auto simp: prepare_stock_data_try_def fd_def Let_def split: if_splits)
  from tr hc df enough fd0 fin obtain sc sf where ft: "fit_transform fd = Inr (sc, sf)"
    by (cases "fit_transform fd") (auto simp: prepare_stock_data_try_def fd_def Let_def split: if_splits)
  from tr hc df enough fd0 fin ft obtain close where cl: "get_col df ''Close'' = Inr close"
    by (cases "get_col df ''Close''") (auto simp: prepare_stock_data_try_def fd_def Let_def split: if_splits)
  from tr hc df enough fd0 fin ft cl obtain ts sp where
    ft2: "fit_transform (reshape_col close) = Inr (ts, sp)"
    by (cases "fit_transform (reshape_col close)")
       (auto simp: prepare_stock_data_try_def fd_def Let_def split: if_splits)
  from tr hc df enough fd0 fin ft cl ft2
  have "create_sequences (lookback self) sf sp = (X, y)"
    by (auto simp: prepare_stock_data_try_def fd_def Let_def split: if_splits prod.splits)
  from create_sequences_length [OF this] fit_transform_length [OF ft] lfd df enough
  show ?thesis by auto
qed

lemma per_column_single:
  "length (data_min s) = 1 \<Longrightarrow> length (data_max s) = 1 \<Longrightarrow>
   per_column f s [x] = [f (hd (data_min s)) (hd (data_max s)) x]"
  by (cases "data_min s"; cases "data_max s") (auto simp: per_column_def)

lemma scaler_fit_lengths:
  "scaler_fit rows = Inr s \<Longrightarrow> length (data_min s) = ncols rows \<and> length (data_max s) = ncols rows"
  by (auto simp: scaler_fit_def bindE_def split: sum.splits)

text \<open>
  Claim C1 (causal windowing), for ModelTrainer.prepare_stock_data: on a feature frame of N
  indicator-complete rows with N at least lookback + 50, sequence building returns exactly
  N - lookback samples; sample i is the scaled feature rows i up to i + lookback - 1, and its
  label is the scaled close price of row i + lookback.
\<close>

theorem causal_windowing:
  assumes "has_col df0 ''Close''"
    and "indicator_frame df0 = Inr df"
    and "lookback self + 50 \<le> nrows df"
    and "feature_complete (features self) df"
  shows "\<exists>X y fsc tsc fd close sf sp.
           prepare_stock_data self df0 = Some (X, y, fsc, tsc)
         \<and> df_values df (features self) = Inr fd \<and> fit_transform fd = Inr (fsc, sf)
         \<and> get_col df ''Close'' = Inr close \<and> fit_transform (reshape_col close) = Inr (tsc, sp)
         \<and> length sf = nrows df \<and> length close = nrows df
         \<and> length X = nrows df - lookback self \<and> length y = nrows df - lookback self
         \<and> (\<forall>i < nrows df - lookback self.
               X ! i = take (lookback self) (drop i sf)
             \<and> length (X ! i) = lookback self
             \<and> (\<forall>j < lookback self. X ! i ! j = sf ! (i + j))
             \<and> y ! i = hd (sp ! (i + lookback self))
             \<and> y ! i = scale_cell (hd (data_min tsc)) (hd (data_max tsc))
                         (close ! (i + lookback self)))"
proof -
  from prepare_stock_data_ok [OF assms]
  obtain fd close fsc tsc where
    vals: "df_values df (features self) = Inr fd" and lfd: "length fd = nrows df"
    and cl: "get_col df ''Close'' = Inr close" and lcl: "length close = nrows df"
    and fsc: "scaler_fit fd = Inr fsc" and tsc: "scaler_fit (reshape_col close) = Inr tsc"
    and prep: "prepare_stock_data self df0 =
             Some (fst (create_sequences (lookback self) (map (per_column scale_cell fsc) fd)
                          (map (per_column scale_cell tsc) (reshape_col close))),
                   snd (create_sequences (lookback self) (map (per_column scale_cell fsc) fd)
                          (map (per_column scale_cell tsc) (reshape_col close))),
                   fsc, tsc)"
    by blast
  define sf where "sf = map (per_column scale_cell fsc) fd"
  define sp where "sp = map (per_column scale_cell tsc) (reshape_col close)"
  define X where "X = fst (create_sequences (lookback self) sf sp)"
  define y where "y = snd (create_sequences (lookback self) sf sp)"
  have cs: "create_sequences (lookback self) sf sp = (X, y)" by (simp add: X_def y_def)
  have lsf: "length sf = nrows df" by (simp add: sf_def lfd)
  have pos: "0 < nrows df" using assms(3) by simp
  have cne: "close \<noteq> []" using lcl pos by auto
  have ft1: "fit_transform fd = Inr (fsc, sf)"
    using fsc by (auto simp: fit_transform_def scaler_transform_def sf_def scaler_fit_def bindE_def
        split: sum.splits)
  have ft2: "fit_transform (reshape_col close) = Inr (tsc, sp)"
    using tsc by (auto simp: fit_transform_def scaler_transform_def sp_def scaler_fit_def bindE_def
        split: sum.splits)
  have one: "length (data_min tsc) = 1" "length (data_max tsc) = 1"
    using scaler_fit_lengths [OF tsc] ncols_reshape_col [OF cne] by simp_all
  have spn: "sp ! k = [scale_cell (hd (data_min tsc)) (hd (data_max tsc)) (close ! k)]"
    if "k < nrows df" for k
    using that lcl by (simp add: sp_def reshape_col_def per_column_single [OF one])
  have win: "X ! i = take (lookback self) (drop i sf) \<and> length (X ! i) = lookback self
             \<and> (\<forall>j < lookback self. X ! i ! j = sf ! (i + j))
             \<and> y ! i = hd (sp ! (i + lookback self))
             \<and> y ! i = scale_cell (hd (data_min tsc)) (hd (data_max tsc))
                         (close ! (i + lookback self))"
    if i: "i < nrows df - lookback self" for i
  proof -
    from i have il: "i < length sf - lookback self" by (simp add: lsf)
    have k: "i + lookback self < nrows df" using i by simp
    have x: "X ! i = take (lookback self) (drop i sf)" by (rule create_sequences_nth(1) [OF cs il])
    have yv: "y ! i = sp ! (i + lookback self) ! 0" by (rule create_sequences_nth(2) [OF cs il])
    have len: "length (X ! i) = lookback self" using x il by simp
    have "X ! i ! j = sf ! (i + j)" if "j < lookback self" for j
      using that x il by simp
    with x len yv spn [OF k] show ?thesis by simp
  qed
  have "length X = nrows df - lookback self" "length y = nrows df - lookback self"
    using create_sequences_length [OF cs] lsf by simp_all
  with prep vals ft1 cl ft2 lsf lcl win show ?thesis
    unfolding sf_def [symmetric] sp_def [symmetric] X_def [symmetric] y_def [symmetric]
    by blast
qed

lemma ModelTrainer_features: "features (ModelTrainer d) = feature_names"
  by (simp add: ModelTrainer_def feature_names_def)

lemma demo_frame_nrows [simp]: "nrows (demo_frame n) = n"
  by (simp add: demo_frame_def nrows_def)

lemma demo_frame_has_close: "has_col (demo_frame n) ''Close''"
  by (simp add: demo_frame_def has_col_def feature_names_def)

lemma demo_frame_indicator: "indicator_frame (demo_frame n) = Inr (demo_frame n)"
  by (simp add: indicator_frame_def demo_frame_def has_col_def feature_names_def)

lemma demo_frame_complete: "feature_complete feature_names (demo_frame n)"
  by (simp add: feature_complete_def wf_df_def demo_frame_def nrows_def feature_names_def
      list_all_iff)

text \<open>
  Claim C5 (insufficient-data threshold): with fewer than lookback + 50 rows in the frame
  whose length is checked, sequence building returns None; on an indicator-complete frame it
  returns None exactly in that case, and otherwise the sequences and both fitted scalers.
\<close>

theorem insufficient_data_threshold:
  assumes "has_col df0 ''Close''"
    and "indicator_frame df0 = Inr df"
  shows "(nrows df < lookback self + 50 \<longrightarrow> prepare_stock_data self df0 = None)
       \<and> (feature_complete (features self) df \<longrightarrow>
            (prepare_stock_data self df0 = None \<longleftrightarrow> nrows df < lookback self + 50))
       \<and> (feature_complete (features self) df \<and> lookback self + 50 \<le> nrows df \<longrightarrow>
            (\<exists>X y fsc tsc fd close.
               prepare_stock_data self df0 = Some (X, y, fsc, tsc)
             \<and> length X = nrows df - lookback self \<and> length y = nrows df - lookback self
             \<and> df_values df (features self) = Inr fd \<and> scaler_fit fd = Inr fsc
             \<and> get_col df ''Close'' = Inr close \<and> scaler_fit (reshape_col close) = Inr tsc))"
proof -
  have short: "prepare_stock_data self df0 = None" if "nrows df < lookback self + 50"
    using prepare_stock_data_short [OF assms(2) that] .
  have ok: "\<exists>X y fsc tsc fd close.
               prepare_stock_data self df0 = Some (X, y, fsc, tsc)
             \<and> length X = nrows df - lookback self \<and> length y = nrows df - lookback self
             \<and> df_values df (features self) = Inr fd \<and> scaler_fit fd = Inr fsc
             \<and> get_col df ''Close'' = Inr close \<and> scaler_fit (reshape_col close) = Inr tsc"
    if c: "feature_complete (features self) df" and n: "lookback self + 50 \<le> nrows df"
  proof -
    from prepare_stock_data_ok [OF assms n c]
    obtain fd close fsc tsc X y where
      *: "df_values df (features self) = Inr fd" "get_col df ''Close'' = Inr close"
         "scaler_fit fd = Inr fsc" "scaler_fit (reshape_col close) = Inr tsc"
         "prepare_stock_data self df0 = Some (X, y, fsc, tsc)"
      by blast
    from prepare_stock_data_SomeD [OF *(5)] assms(2)
    have "length X = nrows df - lookback self" "length y = nrows df - lookback self" by auto
    with * show ?thesis by blast
  qed
  have iff: "prepare_stock_data self df0 = None \<longleftrightarrow> nrows df < lookback self + 50"
    if c: "feature_complete (features self) df"
  proof (cases "nrows df < lookback self + 50")
    case True
    with short show ?thesis by simp
  next
    case False
    then have "lookback self + 50 \<le> nrows df" by simp
    from ok [OF c this] False show ?thesis by auto
  qed
  from short ok iff show ?thesis by blast
qed

theorem insufficient_data_threshold_witness:
  "has_col (demo_frame 79) ''Close''
   \<and> indicator_frame (demo_frame 79) = Inr (demo_frame 79)
   \<and> nrows (demo_frame 79) < lookback (ModelTrainer ''models'') + 50
   \<and> prepare_stock_data (ModelTrainer ''models'') (demo_frame 79) = None
   \<and> has_col (demo_frame 80) ''Close''
   \<and> indicator_frame (demo_frame 80) = Inr (demo_frame 80)
   \<and> feature_complete (features (ModelTrainer ''models'')) (demo_frame 80)
   \<and> lookback (ModelTrainer ''models'') + 50 \<le> nrows (demo_frame 80)
   \<and> (\<exists>X y fsc tsc. prepare_stock_data (ModelTrainer ''models'') (demo_frame 80) = Some (X, y, fsc, tsc)
        \<and> length X = 50 \<and> length y = 50)"
proof -
  have l: "lookback (ModelTrainer ''models'') = 30" by (simp add: ModelTrainer_def)
  have c: "feature_complete (features (ModelTrainer ''models'')) (demo_frame 80)"
    by (simp add: ModelTrainer_features demo_frame_complete)
  from insufficient_data_threshold [OF demo_frame_has_close demo_frame_indicator, of 79 "ModelTrainer ''models''"]
    insufficient_data_threshold [OF demo_frame_has_close demo_frame_indicator, of 80 "ModelTrainer ''models''"]
    c l demo_frame_has_close demo_frame_indicator
  show ?thesis by auto
qed

theorem causal_windowing_witness:
  "has_col (demo_frame 80) ''Close''
   \<and> indicator_frame (demo_frame 80) = Inr (demo_frame 80)
   \<and> lookback (ModelTrainer ''models'') + 50 \<le> nrows (demo_frame 80)
   \<and> feature_complete (features (ModelTrainer ''models'')) (demo_frame 80)
   \<and> (\<exists>X y fsc tsc sf. prepare_stock_data (ModelTrainer ''models'') (demo_frame 80) = Some (X, y, fsc, tsc)
        \<and> length X = 50 \<and> length y = 50 \<and> X ! 49 = take 30 (drop 49 sf) \<and> length sf = 80)"
proof -
  have l: "lookback (ModelTrainer ''models'') = 30" by (simp add: ModelTrainer_def)
  have n: "lookback (ModelTrainer ''models'') + 50 \<le> nrows (demo_frame 80)" by (simp add: l)
  have c: "feature_complete (features (ModelTrainer ''models'')) (demo_frame 80)"
    by (simp add: ModelTrainer_features demo_frame_complete)
  from causal_windowing [OF demo_frame_has_close demo_frame_indicator n c]
  obtain X y fsc tsc sf where
    "prepare_stock_data (ModelTrainer ''models'') (demo_frame 80) = Some (X, y, fsc, tsc)"
    "length sf = 80" "length X = 50" "length y = 50"
    "\<forall>i < 50. X ! i = take 30 (drop i sf)"
    by (auto simp: l)
  then have "\<exists>X y fsc tsc sf. prepare_stock_data (ModelTrainer ''models'') (demo_frame 80) = Some (X, y, fsc, tsc)
        \<and> length X = 50 \<and> length y = 50 \<and> X ! 49 = take 30 (drop 49 sf) \<and> length sf = 80"
    by (intro exI [of _ X] exI [of _ y] exI [of _ fsc] exI [of _ tsc] exI [of _ sf]) simp
  with demo_frame_has_close demo_frame_indicator n c show ?thesis by blast
qed

section \<open>Trainer, bulk pipeline and model store\<close>

lemma train_single_stock_ok:
  assumes "prepare_stock_data self df = Some (X, y, fsc, tsc)"
    and "keras_available e"
    and "keras_fit e (take (split_index (length X)) X) (take (split_index (length X)) y) epochs
           (min bs (max 8 (int (length (take (split_index (length X)) X)) div 10))) = Inr history"
    and "keras_evaluate e (net history) (drop (split_index (length X)) X)
           (drop (split_index (length X)) y) = Inr (loss, mae)"
    and "loss_history history \<noteq> []"
    and "\<forall>p \<in> set (artifact_paths self symbol). writable e p"
  shows "\<exists>md fs'. train_single_stock e self symbol df epochs bs fs = (Some md, fs')"
  using assms by (simp add: train_single_stock_def Let_def artifact_paths_def safe_key_def)

lemma demo_prepare:
  assumes "80 \<le> n"
  shows "\<exists>X y fsc tsc. prepare_stock_data (ModelTrainer d) (demo_frame n) = Some (X, y, fsc, tsc)"
proof -
  have l: "lookback (ModelTrainer d) + 50 \<le> nrows (demo_frame n)"
    using assms by (simp add: ModelTrainer_def)
  have c: "feature_complete (features (ModelTrainer d)) (demo_frame n)"
    by (simp add: ModelTrainer_features demo_frame_complete)
  from prepare_stock_data_ok [OF demo_frame_has_close demo_frame_indicator l c]
  show ?thesis by blast
qed

lemma demo_train_ok:
  assumes "80 \<le> n"
  shows "\<exists>md fs'. train_single_stock demo_env (ModelTrainer d) symbol (demo_frame n) epochs bs fs = (Some md, fs')"
proof -
  from demo_prepare [OF assms] obtain X y fsc tsc where
    p: "prepare_stock_data (ModelTrainer d) (demo_frame n) = Some (X, y, fsc, tsc)" by blast
  show ?thesis
    by (rule train_single_stock_ok [OF p, where history = "\<lparr>net = (\<lambda>w. Fin 0), loss_history = [Fin 1]\<rparr>"
          and loss = "Fin 0" and mae = "Fin 0"])
       (simp_all add: demo_env_def)
qed

lemma demo_train_short:
  assumes "n < 80"
  shows "train_single_stock demo_env (ModelTrainer d) symbol (demo_frame n) epochs bs fs = (None, fs)"
proof -
  have "nrows (demo_frame n) < lookback (ModelTrainer d) + 50"
    using assms by (simp add: ModelTrainer_def)
  from prepare_stock_data_short [OF demo_frame_indicator this]
  show ?thesis by (simp add: train_single_stock_def)
qed

text \<open>
  Claim C10 (metadata sample counts): whenever train_single_stock returns a metadata record
  (which it has then written to the metadata file of the symbol), training_samples plus
  test_samples is N - lookback for the N rows of the frame the sequences were built from,
  training_samples is the integer part of 0.8 (N - lookback), the network was fitted on that
  many samples from the front, and the recorded feature list is the list used to select the
  columns of the sequences: the nine names, in order, for a trainer as constructed.
\<close>

theorem metadata_sample_count_invariant:
  assumes "train_single_stock e self symbol df0 epochs bs fs = (Some md, fs')"
  shows "\<exists>df X y fsc tsc history.
           indicator_frame df0 = Inr df
         \<and> prepare_stock_data self df0 = Some (X, y, fsc, tsc)
         \<and> length X = nrows df - lookback self
         \<and> training_samples md + test_samples md = nrows df - lookback self
         \<and> training_samples md = (4 * (nrows df - lookback self)) div 5
         \<and> keras_fit e (take (training_samples md) X) (take (training_samples md) y) epochs
              (min bs (max 8 (int (training_samples md) div 10))) = Inr history
         \<and> md_lookback md = lookback self
         \<and> md_features md = features self
         \<and> (features self = features (ModelTrainer (model_dir self)) \<longrightarrow>
              md_features md = [''Close'', ''Volume'', ''MA5'', ''MA10'', ''MA20'',
                                ''Price_Change'', ''Price_Range'', ''Volume_Change'', ''RSI''])
         \<and> fs' (model_dir self @ ''/metadata/'' @ safe_key symbol @ ''.json'')
              = Some (JsonFile (MetadataJson md))"
proof -
  from train_single_stock_SomeD [OF assms]
  obtain X y fsc tsc history loss mae where
    prep: "prepare_stock_data self df0 = Some (X, y, fsc, tsc)"
    and fit: "keras_fit e (take (split_index (length X)) X) (take (split_index (length X)) y) epochs
         (min bs (max 8 (int (length (take (split_index (length X)) X)) div 10))) = Inr history"
    and md: "md = \<lparr>md_symbol = symbol, trained_date = now e,
            training_samples = length (take (split_index (length X)) X),
            test_samples = length (drop (split_index (length X)) X),
            test_loss = loss, test_mae = mae,
            final_train_loss = last (loss_history history),
            md_epochs = epochs, md_lookback = lookback self, md_features = features self\<rparr>"
    and fs': "fs' = fs(model_dir self @ ''/'' @ safe_key symbol @ ''.keras'' \<mapsto> KerasFile (net history),
             model_dir self @ ''/scalers/'' @ safe_key symbol @ ''.pkl'' \<mapsto> ScalersPickle fsc tsc,
             model_dir self @ ''/metadata/'' @ safe_key symbol @ ''.json'' \<mapsto> JsonFile (MetadataJson md))"
    by blast
  from prepare_stock_data_SomeD [OF prep]
  obtain df where df: "indicator_frame df0 = Inr df"
    and lx: "length X = nrows df - lookback self" by blast
  have le: "split_index (length X) \<le> length X" by (simp add: split_index_def)
  have ts: "training_samples md = split_index (length X)" using le by (simp add: md)
  have tt: "test_samples md = length X - split_index (length X)" by (simp add: md)
  have a: "training_samples md + test_samples md = nrows df - lookback self"
    using ts tt le lx by linarith
  have b: "training_samples md = (4 * (nrows df - lookback self)) div 5"
    using ts lx by (simp add: split_index_def)
  have c: "keras_fit e (take (training_samples md) X) (take (training_samples md) y) epochs
              (min bs (max 8 (int (training_samples md) div 10))) = Inr history"
    using fit ts le by (simp add: min_absorb2)
  have d: "md_lookback md = lookback self" "md_features md = features self" by (simp_all add: md)
  have e: "features self = features (ModelTrainer (model_dir self)) \<longrightarrow>
              md_features md = [''Close'', ''Volume'', ''MA5'', ''MA10'', ''MA20'',
                                ''Price_Change'', ''Price_Range'', ''Volume_Change'', ''RSI'']"
    using d(2) by (simp add: ModelTrainer_def)
  have f: "fs' (model_dir self @ ''/metadata/'' @ safe_key symbol @ ''.json'')
              = Some (JsonFile (MetadataJson md))" by (simp add: fs')
  from df prep lx a b c d e f show ?thesis by blast
qed

theorem metadata_sample_count_invariant_witness:
  "\<exists>md fs'. train_single_stock demo_env (ModelTrainer ''models'') ''TEST'' (demo_frame 300) 10 32 Map.empty
              = (Some md, fs')
     \<and> training_samples md = 216 \<and> test_samples md = 54
     \<and> md_features md = [''Close'', ''Volume'', ''MA5'', ''MA10'', ''MA20'',
                          ''Price_Change'', ''Price_Range'', ''Volume_Change'', ''RSI'']"
proof -
  from demo_train_ok [of 300 "''models''" "''TEST''" 10 32 Map.empty]
  obtain md fs' where
    t: "train_single_stock demo_env (ModelTrainer ''models'') ''TEST'' (demo_frame 300) 10 32 Map.empty
          = (Some md, fs')" by auto
  from metadata_sample_count_invariant [OF t]
  obtain df where "indicator_frame (demo_frame 300) = Inr df"
    "training_samples md + test_samples md = nrows df - lookback (ModelTrainer ''models'')"
    "training_samples md = (4 * (nrows df - lookback (ModelTrainer ''models''))) div 5"
    "md_features md = features (ModelTrainer ''models'')"
    by blast
  then have "training_samples md = 216 \<and> test_samples md = 54
     \<and> md_features md = [''Close'', ''Volume'', ''MA5'', ''MA10'', ''MA20'',
                          ''Price_Change'', ''Price_Range'', ''Volume_Change'', ''RSI'']"
    by (auto simp: demo_frame_indicator ModelTrainer_def)
  with t show ?thesis by blast
qed

text \<open>
  Claim C4 (bulk partial-failure tolerance): whatever happens to single symbols,
  train_all_stocks returns its summary as soon as the summary file can be written; in it
  successful + failed = total_stocks, failed_symbols lists, in order, exactly the symbols
  whose training returned None, and every other symbol contributes its metadata record.
\<close>

theorem train_all_stocks_partial_failure:
  assumes "writable e (model_dir self @ ''/training_summary_'' @ map lower_char market_name @ ''.json'')"
  shows "\<exists>summary.
           fst (train_all_stocks e self stock_data market_name epochs bs fs) = Inr summary
         \<and> total_stocks summary = length stock_data
         \<and> successful summary + failed summary = total_stocks summary
         \<and> successful summary = length (models summary)
         \<and> failed summary = length (failed_symbols summary)
         \<and> failed_symbols summary =
             map fst (filter (\<lambda>item. symbol_result e self epochs bs item = None) stock_data)
         \<and> models summary =
             map (\<lambda>item. the (symbol_result e self epochs bs item))
                 (filter (\<lambda>item. symbol_result e self epochs bs item \<noteq> None) stock_data)"
proof -
  from train_loop_acc [of e self epochs bs stock_data "[]" "[]" fs]
  obtain fs' where loop: "train_loop e self epochs bs stock_data ([], [], fs) =
     (map (\<lambda>it. the (symbol_result e self epochs bs it))
          (filter (\<lambda>it. symbol_result e self epochs bs it \<noteq> None) stock_data),
      map fst (filter (\<lambda>it. symbol_result e self epochs bs it = None) stock_data), fs')"
    by auto
  have count: "length (filter (\<lambda>it. symbol_result e self epochs bs it \<noteq> None) stock_data)
             + length (filter (\<lambda>it. symbol_result e self epochs bs it = None) stock_data)
             = length stock_data"
    using sum_length_filter_compl [of "\<lambda>it. symbol_result e self epochs bs it \<noteq> None" stock_data]
    by simp
  show ?thesis
    using assms count by (simp add: train_all_stocks_def loop Let_def)
qed

lemma demo_symbol_result_ok:
  "80 \<le> n \<Longrightarrow> symbol_result demo_env (ModelTrainer d) epochs bs (s, demo_frame n) \<noteq> None"
  using demo_train_ok [of n d s epochs bs Map.empty] by (auto simp: symbol_result_def)

lemma demo_symbol_result_short:
  "n < 80 \<Longrightarrow> symbol_result demo_env (ModelTrainer d) epochs bs (s, demo_frame n) = None"
  using demo_train_short [of n d s epochs bs Map.empty] by (simp add: symbol_result_def)

theorem train_all_stocks_partial_failure_witness:
  "writable demo_env (model_dir (ModelTrainer ''models'') @ ''/training_summary_''
      @ map lower_char ''Indian'' @ ''.json'')
   \<and> (\<exists>summary.
         fst (train_all_stocks demo_env (ModelTrainer ''models'') demo_universe ''Indian'' 10 32 Map.empty)
           = Inr summary
       \<and> total_stocks summary = 5 \<and> successful summary = 4 \<and> failed summary = 1
       \<and> failed_symbols summary = [''S3''] \<and> length (models summary) = 4)"
proof -
  have w: "writable demo_env (model_dir (ModelTrainer ''models'') @ ''/training_summary_''
      @ map lower_char ''Indian'' @ ''.json'')"
    by (simp add: demo_env_def)
  from train_all_stocks_partial_failure [OF w, of demo_universe 10 32 Map.empty]
  obtain summary where
    s: "fst (train_all_stocks demo_env (ModelTrainer ''models'') demo_universe ''Indian'' 10 32 Map.empty)
           = Inr summary"
    "total_stocks summary = length demo_universe"
    "successful summary + failed summary = total_stocks summary"
    "failed summary = length (failed_symbols summary)"
    "successful summary = length (models summary)"
    "failed_symbols summary =
       map fst (filter (\<lambda>item. symbol_result demo_env (ModelTrainer ''models'') 10 32 item = None)
                  demo_universe)"
    by blast
  have f: "failed_symbols summary = [''S3'']"
    using s(6) by (simp add: demo_universe_def demo_symbol_result_ok demo_symbol_result_short)
  have t5: "total_stocks summary = 5" using s(2) by (simp add: demo_universe_def)
  have f1: "failed summary = 1" using s(4) f by simp
  have s4: "successful summary = 4" using s(3) t5 f1 by simp
  from t5 f1 s4 f s(5) have "total_stocks summary = 5 \<and> successful summary = 4 \<and> failed summary = 1
       \<and> failed_symbols summary = [''S3''] \<and> length (models summary) = 4"
    by simp
  with w s(1) show ?thesis by blast
qed

text \<open>
  Claim C8 (model store key and miss behaviour): a successful train_single_stock writes the
  three files of the symbol and nothing else, and load_pretrained_model finds them again
  under the same key and returns the saved metadata; load returns None when any of the three
  files is absent, returns an artifact only when all three exist, and the key holds neither
  a dot nor an ampersand.
\<close>

theorem model_store_key_and_miss:
  "(train_single_stock e self symbol df epochs bs fs = (Some md, fs') \<longrightarrow>
      (\<exists>model fsc tsc.
          load_pretrained_model e self fs' symbol = Some (model, fsc, tsc, MetadataJson md))
      \<and> (\<forall>p \<in> set (artifact_paths self symbol). fs' p \<noteq> None)
      \<and> (\<forall>p. p \<notin> set (artifact_paths self symbol) \<longrightarrow> fs' p = fs p))
   \<and> ((\<exists>p \<in> set (artifact_paths self symbol). fs0 p = None) \<longrightarrow>
        load_pretrained_model e self fs0 symbol = None)
   \<and> (load_pretrained_model e self fs1 symbol \<noteq> None \<longrightarrow>
        (\<forall>p \<in> set (artifact_paths self symbol). fs1 p \<noteq> None))
   \<and> CHR ''.'' \<notin> set (safe_key symbol) \<and> CHR ''&'' \<notin> set (safe_key symbol)"
proof -
  have a: "(\<exists>model fsc tsc.
          load_pretrained_model e self fs' symbol = Some (model, fsc, tsc, MetadataJson md))
      \<and> (\<forall>p \<in> set (artifact_paths self symbol). fs' p \<noteq> None)
      \<and> (\<forall>p. p \<notin> set (artifact_paths self symbol) \<longrightarrow> fs' p = fs p)"
    if t: "train_single_stock e self symbol df epochs bs fs = (Some md, fs')"
  proof -
    from train_single_stock_SomeD [OF t]
    obtain fsc tsc and history :: fit_result where ka: "keras_available e"
      and fs': "fs' = fs(model_dir self @ ''/'' @ safe_key symbol @ ''.keras'' \<mapsto> KerasFile (net history),
             model_dir self @ ''/scalers/'' @ safe_key symbol @ ''.pkl'' \<mapsto> ScalersPickle fsc tsc,
             model_dir self @ ''/metadata/'' @ safe_key symbol @ ''.json'' \<mapsto> JsonFile (MetadataJson md))"
      by blast
    have "load_pretrained_model e self fs' symbol = Some (net history, fsc, tsc, MetadataJson md)"
      using ka paths_distinct [of "model_dir self" "safe_key symbol" "model_dir self" "safe_key symbol"]
      by (simp add: load_pretrained_model_def fs' Let_def safe_key_def [symmetric])
    moreover have "\<forall>p \<in> set (artifact_paths self symbol). fs' p \<noteq> None"
      by (simp add: artifact_paths_def fs')
    moreover have "\<forall>p. p \<notin> set (artifact_paths self symbol) \<longrightarrow> fs' p = fs p"
      by (simp add: artifact_paths_def fs')
    ultimately show ?thesis by blast
  qed
  have b: "load_pretrained_model e self fs0 symbol = None"
    if "\<exists>p \<in> set (artifact_paths self symbol). fs0 p = None"
    using load_miss [OF that] .
  have c: "\<forall>p \<in> set (artifact_paths self symbol). fs1 p \<noteq> None"
    if "load_pretrained_model e self fs1 symbol \<noteq> None"
    using that load_hit_present [of e self fs1 symbol] by auto
  from a b c safe_key_clean [of symbol] show ?thesis by blast
qed

theorem model_store_key_and_miss_witness:
  "\<exists>md fs'.
      train_single_stock demo_env (ModelTrainer ''models'') ''M&M.NS'' (demo_frame 300) 10 32 Map.empty
        = (Some md, fs')
    \<and> (\<exists>model fsc tsc. load_pretrained_model demo_env (ModelTrainer ''models'') fs' ''M&M.NS''
          = Some (model, fsc, tsc, MetadataJson md))
    \<and> load_pretrained_model demo_env (ModelTrainer ''models'') fs' ''M&M.NS'' \<noteq> None
    \<and> (\<forall>p \<in> set (artifact_paths (ModelTrainer ''models'') ''M&M.NS''). fs' p \<noteq> None)
    \<and> (\<exists>p \<in> set (artifact_paths (ModelTrainer ''models'') ''M&M.NS''). Map.empty p = (None :: disk_file option))
    \<and> load_pretrained_model demo_env (ModelTrainer ''models'') Map.empty ''M&M.NS'' = None
    \<and> safe_key ''M&M.NS'' = ''MANDM_NS''"
proof -
  from demo_train_ok [of 300 "''models''" "''M&M.NS''" 10 32 Map.empty]
  obtain md fs' where
    t: "train_single_stock demo_env (ModelTrainer ''models'') ''M&M.NS'' (demo_frame 300) 10 32 Map.empty
          = (Some md, fs')" by auto
  have m: "\<exists>p \<in> set (artifact_paths (ModelTrainer ''models'') ''M&M.NS''). Map.empty p = (None :: disk_file option)"
    by (simp add: artifact_paths_def) blast
  have k: "safe_key ''M&M.NS'' = ''MANDM_NS''" by (simp add: safe_key_def str_replace_def)
  from model_store_key_and_miss [of demo_env "ModelTrainer ''models''" "''M&M.NS''" "demo_frame 300"
      10 32 Map.empty md fs' Map.empty fs'] t m k
  show ?thesis by blast
qed

section \<open>Recursive forecast loop\<close>

lemma feature_names_length [simp]: "length feature_names = 9"
  by (simp add: feature_names_def)

lemma concat_length_uniform:
  "list_all (\<lambda>r. length r = k) w \<Longrightarrow> length (concat w) = length w * k"
  by (induction w) auto

lemma window_shape_reshape:
  "window_shape L w \<Longrightarrow> length (concat w) = L * length feature_names"
  using concat_length_uniform [of "length feature_names" w] by (simp add: window_shape_def)

lemma window_shape_last:
  "window_shape L w \<Longrightarrow> w \<noteq> [] \<and> length (last w) = 9"
  by (cases w rule: rev_cases) (auto simp: window_shape_def)

lemma window_shape_slide:
  assumes "window_shape L w"
  shows "window_shape L (tl w @ [(last w)[0 := p]])"
proof -
  from window_shape_last [OF assms] have ne: "w \<noteq> []" and ll: "length (last w) = 9" by simp_all
  have "list_all (\<lambda>r. length r = length feature_names) (tl w)"
    using assms ne by (cases w) (auto simp: window_shape_def)
  with assms ne ll show ?thesis by (simp add: window_shape_def)
qed

lemma forecast_loop_step:
  assumes "window_shape L w"
  shows "forecast_loop model L (Suc days) w preds
           = forecast_loop model L days (tl w @ [(last w)[0 := model w]]) (preds @ [model w])"
  using window_shape_reshape [OF assms] window_shape_last [OF assms]
  by (auto simp: Let_def)

lemma forecast_loop_total:
  "window_shape L w \<Longrightarrow>
   \<exists>ps w'. forecast_loop model L days w preds = Inr (preds @ ps, w') \<and> length ps = days
            \<and> window_shape L w'"
proof (induction days arbitrary: w preds)
  case 0
  then show ?case by simp
next
  case (Suc days)
  from Suc.IH [OF window_shape_slide [OF Suc.prems], of "model w" "preds @ [model w]"]
  obtain ps w' where
    "forecast_loop model L days (tl w @ [(last w)[0 := model w]]) (preds @ [model w])
       = Inr ((preds @ [model w]) @ ps, w')" "length ps = days" "window_shape L w'"
    by blast
  then have "forecast_loop model L (Suc days) w preds = Inr (preds @ (model w # ps), w')
      \<and> length (model w # ps) = Suc days \<and> window_shape L w'"
    by (simp add: forecast_loop_step [OF Suc.prems] del: forecast_loop.simps)
  then show ?case by blast
qed

lemma forecast_loop_preds_range:
  "forecast_loop model L days w preds = Inr (ps, w') \<Longrightarrow>
   set ps \<subseteq> set preds \<union> range model"
proof (induction days arbitrary: w preds)
  case 0
  then show ?case by auto
next
  case (Suc days)
  from Suc.prems have
    "forecast_loop model L days (tl w @ [(last w)[0 := model w]]) (preds @ [model w]) = Inr (ps, w')"
    by (auto simp: Let_def split: if_splits)
  from Suc.IH [OF this] show ?case by auto
qed

lemma window_after_slide:
  "window_after model (slide model w) k = window_after model w (Suc k)"
  by (induction k) simp_all

lemma window_after_shape:
  "window_shape L w \<Longrightarrow> window_shape L (window_after model w k)"
  by (induction k) (simp_all add: slide_def window_shape_slide)

lemma forecast_loop_windows:
  "window_shape L w \<Longrightarrow>
   forecast_loop model L n w preds
     = Inr (preds @ map (\<lambda>k. model (window_after model w k)) [0..<n], window_after model w n)"
proof (induction n arbitrary: w preds)
  case 0
  then show ?case by simp
next
  case (Suc n)
  have s: "window_shape L (slide model w)"
    unfolding slide_def by (rule window_shape_slide [OF Suc.prems])
  have "forecast_loop model L (Suc n) w preds
      = forecast_loop model L n (slide model w) (preds @ [model w])"
    unfolding slide_def by (rule forecast_loop_step [OF Suc.prems])
  also have "\<dots> = Inr ((preds @ [model w]) @ map (\<lambda>k. model (window_after model (slide model w) k)) [0..<n],
                        window_after model (slide model w) n)"
    by (rule Suc.IH [OF s])
  also have "\<dots> = Inr (preds @ map (\<lambda>k. model (window_after model w k)) [0..<Suc n],
                        window_after model w (Suc n))"
    by (simp only: window_after_slide map_upt_Suc append_assoc append_Cons append_Nil
        window_after.simps)
  finally show ?case .
qed

text \<open>
  Claim C6 (frame property of the recursive forecast): on a window of lookback rows the
  loop never fails; its n predictions are the network's outputs on the successive windows,
  and it ends on the window after n passes. In every pass the next window is the current
  one without its oldest row, followed by a copy of its last row in which only cell 0 (the
  close price) is replaced by the prediction, the other eight cells being unchanged; so the
  window keeps its length, the lookback.
\<close>

theorem forecast_loop_frame:
  assumes "window_shape L w"
  shows "forecast_loop model L n w preds
           = Inr (preds @ map (\<lambda>k. model (window_after model w k)) [0..<n], window_after model w n)
       \<and> window_after model w 0 = w
       \<and> (\<forall>k. length (window_after model w k) = L
              \<and> window_shape L (window_after model w k)
              \<and> butlast (window_after model w (Suc k)) = tl (window_after model w k)
              \<and> length (last (window_after model w (Suc k))) = 9
              \<and> last (window_after model w (Suc k)) ! 0 = model (window_after model w k)
              \<and> (\<forall>j. 0 < j \<and> j < 9 \<longrightarrow>
                    last (window_after model w (Suc k)) ! j = last (window_after model w k) ! j))"
proof -
  have frame: "length (window_after model w k) = L
              \<and> window_shape L (window_after model w k)
              \<and> butlast (window_after model w (Suc k)) = tl (window_after model w k)
              \<and> length (last (window_after model w (Suc k))) = 9
              \<and> last (window_after model w (Suc k)) ! 0 = model (window_after model w k)
              \<and> (\<forall>j. 0 < j \<and> j < 9 \<longrightarrow>
                    last (window_after model w (Suc k)) ! j = last (window_after model w k) ! j)"
    for k
  proof -
    define v where "v = window_after model w k"
    have sh: "window_shape L v" unfolding v_def by (rule window_after_shape [OF assms])
    from window_shape_last [OF sh] have ne: "v \<noteq> []" and ll: "length (last v) = 9" by simp_all
    have nx: "window_after model w (Suc k) = tl v @ [(last v)[0 := model v]]"
      by (simp add: v_def slide_def)
    from sh ll show ?thesis
      unfolding nx v_def [symmetric] by (simp add: window_shape_def)
  qed
  from forecast_loop_windows [OF assms] frame show ?thesis by simp
qed

theorem forecast_loop_frame_witness:
  "window_shape 30 demo_window
   \<and> forecast_loop last_close 30 7 demo_window []
       = Inr (map (\<lambda>k. last_close (window_after last_close demo_window k)) [0..<7],
              window_after last_close demo_window 7)
   \<and> length (window_after last_close demo_window 7) = 30
   \<and> butlast (window_after last_close demo_window 1) = tl demo_window
   \<and> last (window_after last_close demo_window 1)
       = [Fin 291, Fin 291, Fin 292, Fin 293, Fin 294, Fin 295, Fin 296, Fin 297, Fin 298]"
proof -
  have w: "window_shape 30 demo_window"
    by (simp add: window_shape_def demo_window_def list_all_iff)
  have l: "last demo_window = map (\<lambda>j. Fin (real (290 + j))) [0..<9]"
    by (simp add: demo_window_def last_map)
  have p: "last_close demo_window = Fin 291"
    by (simp add: last_close_def l upt_rec)
  have n: "last (window_after last_close demo_window 1)
       = [Fin 291, Fin 291, Fin 292, Fin 293, Fin 294, Fin 295, Fin 296, Fin 297, Fin 298]"
    by (simp add: slide_def p l upt_rec)
  note f = forecast_loop_frame [OF w, of last_close 7 "[]"]
  from f have a: "forecast_loop last_close 30 7 demo_window []
       = Inr (map (\<lambda>k. last_close (window_after last_close demo_window k)) [0..<7],
              window_after last_close demo_window 7)" by simp
  from f have b: "length (window_after last_close demo_window 7) = 30" by blast
  from f have "butlast (window_after last_close demo_window (Suc 0))
      = tl (window_after last_close demo_window 0)" by blast
  then have c: "butlast (window_after last_close demo_window 1) = tl demo_window" by simp
  from w a b c n show ?thesis by (intro conjI)
qed

section \<open>Feature engineer\<close>

lemma replace_val_id: "a \<notin> set s \<Longrightarrow> replace_val a b s = s"
  by (induction s) (auto simp: replace_val_def)

lemma length_replace_val [simp]: "length (replace_val a b s) = length s"
  by (simp add: replace_val_def)

lemma length_replace_inf [simp]: "length (replace_inf b s) = length s"
  by (simp add: replace_inf_def)

lemma length_fillna [simp]: "length (fillna b s) = length s"
  by (simp add: fillna_def)

lemma length_shift1 [simp]: "length (shift1 s) = length s"
  by (cases s) (simp_all add: shift1_def)

lemma length_diff [simp]: "length (diff s) = length s"
  by (simp add: diff_def)

lemma length_ffill_from [simp]: "length (ffill_from p s) = length s"
  by (induction s arbitrary: p) auto

lemma length_pct_change [simp]: "length (pct_change s) = length s"
  by (simp add: pct_change_def ffill_def)

lemma length_rolling_mean [simp]: "length (rolling_mean w s) = length s"
  by (simp add: rolling_mean_def)

lemma length_where0 [simp]: "length (where0 c s) = length s"
  by (simp add: where0_def)

lemma length_clip [simp]: "length (clip lo hi s) = length s"
  by (simp add: clip_def)

lemma length_rsi_series [simp]: "length (rsi_series close) = length close"
  by (simp add: rsi_series_def Let_def)

lemma isfinite_iff: "isfinite x \<longleftrightarrow> (\<exists>a. x = Fin a)"
  by (cases x) auto

lemma foldl_fadd_fin:
  "list_all isfinite w \<Longrightarrow> \<exists>b. foldl fadd (Fin a) w = Fin b"
  by (induction w arbitrary: a) (auto simp: isfinite_iff)

lemma window_mean_finite:
  assumes "list_all isfinite w" "w \<noteq> []"
  shows "isfinite (window_mean w)"
proof -
  from assms(1) have "NaN \<notin> set w" by (auto simp: list_all_iff)
  moreover from foldl_fadd_fin [OF assms(1), of 0] obtain b where "foldl fadd (Fin 0) w = Fin b" ..
  ultimately show ?thesis using assms(2) by (simp add: window_mean_def)
qed

lemma rolling_mean_finite:
  assumes "list_all isfinite s" "0 < w" "w \<le> Suc i" "i < length s"
  shows "isfinite (rolling_mean w s ! i)"
proof -
  have sub: "set (take w (drop (Suc i - w) s)) \<subseteq> set s"
    by (meson set_drop_subset set_take_subset subset_trans)
  with assms(1) have f: "list_all isfinite (take w (drop (Suc i - w) s))"
    by (auto simp: list_all_iff)
  have ne: "take w (drop (Suc i - w) s) \<noteq> []" using assms by auto
  from window_mean_finite [OF f ne] assms show ?thesis
    by (simp add: rolling_mean_def)
qed

lemma ffill_from_id: "NaN \<notin> set s \<Longrightarrow> ffill_from p s = s"
  by (induction s arbitrary: p) auto

lemma shift1_nth: "0 < i \<Longrightarrow> i < length s \<Longrightarrow> shift1 s ! i = s ! (i - 1)"
  by (cases i) (auto simp: shift1_def nth_butlast)

lemma pct_change_finite:
  assumes "list_all isfinite s" "Fin 0 \<notin> set s" "0 < i" "i < length s"
  shows "isfinite (pct_change s ! i)"
proof -
  from assms(1) have nn: "NaN \<notin> set s" by (auto simp: list_all_iff)
  from assms obtain a where a: "s ! i = Fin a" by (auto simp: list_all_length isfinite_iff)
  from assms have "i - 1 < length s" by simp
  with assms(1) obtain b where b: "s ! (i - 1) = Fin b" by (auto simp: list_all_length isfinite_iff)
  from assms b have "b \<noteq> 0" by (metis \<open>i - 1 < length s\<close> nth_mem)
  then show ?thesis
    using assms a b by (simp add: pct_change_def ffill_def ffill_from_id [OF nn] shift1_nth fsub_def)
qed

lemma filled_finite: "isfinite ((if (if isinf x then Fin a else x) = NaN then Fin b else (if isinf x then Fin a else x)))"
  by (cases x) auto

lemma fillna_replace_inf_finite:
  "list_all isfinite (fillna (Fin b) (replace_inf (Fin a) s))"
  by (induction s) (auto simp: fillna_def replace_inf_def isfinite_iff split: if_splits, (metis fval.exhaust isinf.simps)+)

lemma rsi_cell_bounds:
  "\<exists>a. clip_cell 0 100 (fsub (Fin 100) (fdiv (Fin 100) (fadd (Fin 1) (Fin r)))) = Fin a
       \<and> 0 \<le> a \<and> a \<le> 100"
  by (auto simp: fsub_def signed_inf_def)

lemma rsi_series_bounds:
  assumes "x \<in> set (rsi_series close)"
  shows "\<exists>a. x = Fin a \<and> 0 \<le> a \<and> a \<le> 100"
proof -
  define rs0 where "rs0 = map (\<lambda>(g, l). fdiv g l)
      (zip (rolling_mean 14 (where0 fgt0 (diff close)))
           (replace_val (Fin 0) NaN (rolling_mean 14 (map fneg (where0 flt0 (diff close))))))"
  define rs where "rs = fillna (Fin 50) (replace_inf (Fin 100) rs0)"
  have fin: "list_all isfinite rs" unfolding rs_def by (rule fillna_replace_inf_finite)
  from assms obtain r where r: "r \<in> set rs"
    and x: "x = clip_cell 0 100 (fsub (Fin 100) (fdiv (Fin 100) (fadd (Fin 1) r)))"
    by (auto simp: rsi_series_def Let_def clip_def rs_def rs0_def)
  from fin r obtain b where "r = Fin b" by (auto simp: list_all_iff isfinite_iff)
  with x rsi_cell_bounds [of b] show ?thesis by simp
qed

lemma rsi_series_finite: "list_all isfinite (rsi_series close)"
  using rsi_series_bounds by (fastforce simp: list_all_iff)

lemma nrows_set_col [simp]: "nrows (set_col df c s) = nrows df"
  by (simp add: set_col_def nrows_def)

lemma index_set_col [simp]: "index (set_col df c s) = index df"
  by (simp add: set_col_def)

lemma get_col_set_col:
  "get_col (set_col df c s) c' = (if c' = c then Inr s else get_col df c')"
  by (simp add: get_col_def set_col_def update_conv')

lemma has_col_set_col: "has_col (set_col df c s) c' \<longleftrightarrow> c' = c \<or> has_col df c'"
  using dom_update [of c s "cols df"] by (auto simp: has_col_def set_col_def)

lemma has_col_get_col: "has_col df c \<longleftrightarrow> (\<exists>s. get_col df c = Inr s)"
proof (cases "map_of (cols df) c")
  case None
  moreover from None have "c \<notin> fst ` set (cols df)" by (simp add: map_of_eq_None_iff)
  ultimately show ?thesis by (simp add: has_col_def get_col_def)
next
  case (Some s)
  from map_of_SomeD [OF this] have "c \<in> fst ` set (cols df)" by force
  with Some show ?thesis by (simp add: has_col_def get_col_def)
qed

lemma set_update_subset: "set (AList.update k v al) \<subseteq> insert (k, v) (set al)"
  by (induction al) auto

lemma cols_set_col:
  "(c', s') \<in> set (cols (set_col df c s)) \<Longrightarrow> (c', s') = (c, s) \<or> (c', s') \<in> set (cols df)"
  using set_update_subset [of c s "cols df"] by (auto simp: set_col_def)

lemma wf_take_rows: "wf_df (take_rows df keep)"
  by (auto simp: wf_df_def take_rows_def nrows_def list_all_iff)

lemma nrows_take_rows [simp]: "nrows (take_rows df keep) = length keep"
  by (simp add: take_rows_def nrows_def)

lemma take_rows_all:
  assumes "wf_df df"
  shows "take_rows df [0..<nrows df] = df"
proof -
  have "map (\<lambda>(c, s). (c, map ((!) s) [0..<nrows df])) (cols df) = cols df"
  proof (rule map_idI)
    fix p assume p: "p \<in> set (cols df)"
    obtain c s where cs: "p = (c, s)" by (cases p)
    with p assms have "length s = nrows df" by (auto simp: wf_df_def list_all_iff)
    then have "map ((!) s) [0..<nrows df] = s" using map_nth [of s] by simp
    then show "(case p of (c, s) \<Rightarrow> (c, map ((!) s) [0..<nrows df])) = p"
      by (simp add: cs)
  qed
  moreover have "map ((!) (index df)) [0..<nrows df] = index df"
    by (simp add: nrows_def map_nth)
  ultimately show ?thesis by (simp add: take_rows_def)
qed

lemma cols_ok_set_col:
  assumes "cols_ok n k df" "length s = n" "\<And>i. k \<le> i \<Longrightarrow> i < n \<Longrightarrow> isfinite (s ! i)"
  shows "cols_ok n k (set_col df c s)"
  using assms cols_set_col [of _ _ df c s] by (fastforce simp: cols_ok_def)

lemma cols_ok_wf: "cols_ok n k df \<Longrightarrow> wf_df df"
  by (auto simp: cols_ok_def wf_df_def list_all_iff)

lemma all_finite_nth: "list_all isfinite s \<Longrightarrow> i < length s \<Longrightarrow> isfinite (s ! i)"
  by (simp add: list_all_length)

lemma nrows_replace_inf_df [simp]: "nrows (replace_inf_df d) = nrows d"
  by (simp add: replace_inf_df_def nrows_def)

lemma replace_inf_nth:
  "i < length s \<Longrightarrow> replace_inf b s ! i = (if isinf (s ! i) then b else s ! i)"
  by (simp add: replace_inf_def)

lemma not_nan_not_inf_finite: "x \<noteq> NaN \<Longrightarrow> \<not> isinf x \<Longrightarrow> isfinite x"
  by (cases x) auto

lemma dropna_col_finite:
  assumes wf: "wf_df d" and hc: "has_col d c"
  shows "\<exists>s'. map_of (cols (dropna (replace_inf_df d))) c = Some s' \<and> list_all isfinite s'"
proof -
  from hc obtain s where s: "map_of (cols d) c = Some s"
    by (auto simp: has_col_get_col get_col_def split: option.splits)
  have ls: "length s = nrows d" by (rule wf_df_col_length [OF wf s])
  define d1 where "d1 = replace_inf_df d"
  define keep where "keep = filter (\<lambda>i. list_all (\<lambda>(c, s). s ! i \<noteq> NaN) (cols d1)) [0..<nrows d1]"
  have m1: "map_of (cols d1) c = Some (replace_inf NaN s)"
    using s by (simp add: d1_def replace_inf_df_def map_of_map)
  then have mem: "(c, replace_inf NaN s) \<in> set (cols d1)" by (rule map_of_SomeD)
  have m2: "map_of (cols (dropna d1)) c = Some (map ((!) (replace_inf NaN s)) keep)"
    using m1 by (simp add: dropna_def take_rows_def keep_def map_of_map)
  have "isfinite (replace_inf NaN s ! i)" if "i \<in> set keep" for i
  proof -
    from that have i: "i < nrows d" and ok: "list_all (\<lambda>(c, s). s ! i \<noteq> NaN) (cols d1)"
      by (auto simp: keep_def d1_def)
    from ok mem have nn: "replace_inf NaN s ! i \<noteq> NaN" by (auto simp: list_all_iff)
    from i ls have r: "replace_inf NaN s ! i = (if isinf (s ! i) then NaN else s ! i)"
      by (simp add: replace_inf_nth)
    with nn have "\<not> isinf (s ! i)" by auto
    with r nn show ?thesis by (simp add: not_nan_not_inf_finite)
  qed
  then have "list_all isfinite (map ((!) (replace_inf NaN s)) keep)"
    by (simp add: list_all_iff)
  with m2 show ?thesis by (auto simp: d1_def)
qed

lemma length_filter_mono:
  "(\<And>x. x \<in> set xs \<Longrightarrow> Q x \<Longrightarrow> P x) \<Longrightarrow> length (filter Q xs) \<le> length (filter P xs)"
  by (induction xs) auto

lemma length_filter_ge: "length (filter (\<lambda>i. k \<le> i) [0..<n]) = n - k"
  by (induction n) (auto simp: Suc_diff_le)

lemma dropna_count:
  assumes "cols_ok n k d"
  shows "n - k \<le> nrows (dropna (replace_inf_df d))"
proof -
  define d1 where "d1 = replace_inf_df d"
  have n: "nrows d1 = n" using assms by (simp add: d1_def cols_ok_def)
  have ok: "list_all (\<lambda>(c, s). s ! i \<noteq> NaN) (cols d1)" if "k \<le> i" "i < n" for i
  proof -
    have "replace_inf NaN s ! i \<noteq> NaN" if "(c, s) \<in> set (cols d)" for c s
    proof -
      from assms that have "length s = n" "isfinite (s ! i)"
        using \<open>k \<le> i\<close> \<open>i < n\<close> by (auto simp: cols_ok_def)
      then show ?thesis using \<open>i < n\<close>
        by (cases "s ! i") (auto simp: replace_inf_nth)
    qed
    then show ?thesis by (auto simp: d1_def replace_inf_df_def list_all_iff)
  qed
  have "length (filter (\<lambda>i. k \<le> i) [0..<n])
      \<le> length (filter (\<lambda>i. list_all (\<lambda>(c, s). s ! i \<noteq> NaN) (cols d1)) [0..<n])"
    by (rule length_filter_mono) (auto intro: ok)
  then show ?thesis
    by (simp add: dropna_def n d1_def [symmetric] length_filter_ge)
qed

lemma get_col_length: "wf_df df \<Longrightarrow> get_col df c = Inr s \<Longrightarrow> length s = nrows df"
  by (auto simp: get_col_def wf_df_col_length split: option.splits)

lemma clean_bars_col:
  assumes "clean_bars df" "get_col df c = Inr s"
  shows "length s = nrows df" "list_all isfinite s"
proof -
  from assms show "length s = nrows df" by (auto simp: clean_bars_def get_col_length)
  from assms(2) have "(c, s) \<in> set (cols df)"
    by (auto simp: get_col_def split: option.splits dest: map_of_SomeD)
  with assms(1) show "list_all isfinite s" by (auto simp: clean_bars_def list_all_iff)
qed

lemma replace_inf_finite_id: "list_all isfinite s \<Longrightarrow> replace_inf b s = s"
  by (induction s) (auto simp: replace_inf_def isfinite_iff)

lemma get_col_replace_inf_df:
  "get_col d c = Inr s \<Longrightarrow> get_col (replace_inf_df d) c = Inr (replace_inf NaN s)"
  by (simp add: get_col_def replace_inf_df_def map_of_map split: option.splits)

lemma cti_clean:
  assumes cb: "clean_bars df0" and pos: "0 < nrows df0"
  shows "\<exists>df1. calculate_technical_indicators df0 = Inr df1
           \<and> feature_complete feature_names (dropna df1)
           \<and> nrows df0 - 19 \<le> nrows (dropna df1)
           \<and> nrows (dropna df1) \<le> nrows df0
           \<and> (\<forall>c. get_col df0 ''Close'' = Inr c \<longrightarrow> get_col df1 ''RSI'' = Inr (rsi_series c))"
proof -
  define n where "n = nrows df0"
  from cb obtain close high low volume where
    gc: "get_col df0 ''Close'' = Inr close" and gh: "get_col df0 ''High'' = Inr high"
    and gl: "get_col df0 ''Low'' = Inr low" and gv: "get_col df0 ''Volume'' = Inr volume"
    by (auto simp: clean_bars_def has_col_get_col)
  note lc = clean_bars_col [OF cb gc] and lh = clean_bars_col [OF cb gh]
    and ll = clean_bars_col [OF cb gl] and lv = clean_bars_col [OF cb gv]
  from cb gc have zc: "Fin 0 \<notin> set close" by (auto simp: clean_bars_def get_col_def split: option.splits)
  from cb gv have zv: "Fin 0 \<notin> set volume" by (auto simp: clean_bars_def get_col_def split: option.splits)
  have hcl: "has_col df0 ''Close''" using gc by (auto simp: has_col_get_col)
  have ok0: "cols_ok n 19 df0"
  proof -
    have "length s = n \<and> (\<forall>i. 19 \<le> i \<and> i < n \<longrightarrow> isfinite (s ! i))"
      if "(c, s) \<in> set (cols df0)" for c s
    proof -
      from cb that have l: "length s = n" and f: "list_all isfinite s"
        by (auto simp: n_def clean_bars_def wf_df_def list_all_iff)
      from l f show ?thesis by (simp add: all_finite_nth)
    qed
    then show ?thesis by (auto simp: cols_ok_def n_def)
  qed
  define dfc where "dfc = set_col df0 ''Close'' close"
  have okc: "cols_ok n 19 dfc" unfolding dfc_def
    using lc by (intro cols_ok_set_col ok0) (simp_all add: n_def all_finite_nth)
  have nc: "nrows dfc = n" by (simp add: dfc_def n_def)
  have "filter (\<lambda>i. close ! i \<noteq> NaN) [0..<n] = [0..<n]"
    using lc by (intro filter_True) (auto simp: n_def list_all_length isfinite_iff)
  then have ds: "dropna_subset ''Close'' dfc = Inr dfc"
    using take_rows_all [OF cols_ok_wf [OF okc]]
    by (simp add: dropna_subset_def dfc_def get_col_set_col n_def)
  define d4 where "d4 = set_col (set_col (set_col (set_col dfc ''MA5'' (rolling_mean 5 close))
      ''MA10'' (rolling_mean 10 close)) ''MA20'' (rolling_mean 20 close))
      ''Price_Change'' (replace_inf (Fin 0) (pct_change close))"
  define d5 where "d5 = set_col d4 ''Price_Range''
      (fillna (Fin 0) (replace_inf (Fin 0)
         (map (\<lambda>((h, l), c). fdiv (fsub h l) c) (zip (zip high low) close))))"
  define d6 where "d6 = set_col (set_col d5 ''Volume'' volume) ''Volume_Change''
      (fillna (Fin 0) (replace_inf (Fin 0) (pct_change volume)))"
  define d7 where "d7 = set_col d6 ''RSI'' (rsi_series close)"
  have avc: "add_volume_change d5 = Inr d6"
  proof -
    have hv0: "has_col df0 ''Volume''" using gv by (auto simp: has_col_get_col)
    have hv: "has_col d5 ''Volume''"
      by (simp add: d5_def d4_def dfc_def has_col_set_col hv0)
    have g5: "get_col d5 ''Volume'' = Inr volume"
      using gv by (simp add: d5_def d4_def dfc_def get_col_set_col)
    show ?thesis
      by (simp add: add_volume_change_def hv g5 get_col_set_col replace_val_id [OF zv] d6_def)
  qed
  have cti: "calculate_technical_indicators df0 = Inr (replace_inf_df d7)"
  proof -
    have s1: "set_col df0 ''Close'' close = dfc"
      by (simp add: dfc_def)
    have g1: "get_col dfc ''Close'' = Inr close" by (simp add: dfc_def get_col_set_col)
    have g2: "get_col dfc ''High'' = Inr high" using gh by (simp add: dfc_def get_col_set_col)
    have g3: "get_col dfc ''Low'' = Inr low" using gl by (simp add: dfc_def get_col_set_col)
    have nz: "nrows dfc \<noteq> 0" using nc pos by (simp add: n_def)
    show ?thesis
      unfolding d7_def
      by (simp add: calculate_technical_indicators_def hcl gc s1 ds nz g1 g2 g3 get_col_set_col
          replace_val_id [OF zc] avc [unfolded d5_def d4_def] Let_def)
  qed
  have ok4: "cols_ok n 19 d4" unfolding d4_def
  proof (intro cols_ok_set_col okc)
    fix i assume i: "19 \<le> i" "i < n"
    show "isfinite (rolling_mean 5 close ! i)" using i lc
      by (intro rolling_mean_finite) (simp_all add: n_def)
    show "isfinite (rolling_mean 10 close ! i)" using i lc
      by (intro rolling_mean_finite) (simp_all add: n_def)
    show "isfinite (rolling_mean 20 close ! i)" using i lc
      by (intro rolling_mean_finite) (simp_all add: n_def)
    have "isfinite (pct_change close ! i)" using i lc zc
      by (intro pct_change_finite) (simp_all add: n_def)
    then show "isfinite (replace_inf (Fin 0) (pct_change close) ! i)"
      using i lc by (cases "pct_change close ! i") (simp_all add: replace_inf_nth n_def)
  qed (simp_all add: lc n_def)
  have ok5: "cols_ok n 19 d5" unfolding d5_def
    using fillna_replace_inf_finite [of 0 0 "map (\<lambda>((h, l), c). fdiv (fsub h l) c) (zip (zip high low) close)"]
    by (intro cols_ok_set_col ok4) (simp_all add: lc lh ll n_def all_finite_nth)
  have ok6: "cols_ok n 19 d6" unfolding d6_def
    using fillna_replace_inf_finite [of 0 0 "pct_change volume"] lv
    by (intro cols_ok_set_col ok5) (simp_all add: n_def all_finite_nth)
  have ok7: "cols_ok n 19 d7" unfolding d7_def
    using rsi_series_finite [of close]
    by (intro cols_ok_set_col ok6) (simp_all add: lc n_def all_finite_nth)
  have has: "has_col d7 c" if "c \<in> set (''Close'' # feature_names)" for c
    using that hcl
    by (auto simp: feature_names_def d7_def d6_def d5_def d4_def dfc_def has_col_set_col)
  have fc: "feature_complete feature_names (dropna (replace_inf_df d7))"
  proof -
    have "case map_of (cols (dropna (replace_inf_df d7))) c of None \<Rightarrow> False
          | Some s \<Rightarrow> list_all isfinite s" if "c \<in> set (''Close'' # feature_names)" for c
      using dropna_col_finite [OF cols_ok_wf [OF ok7] has [OF that]] by auto
    then have "list_all (\<lambda>c. case map_of (cols (dropna (replace_inf_df d7))) c of None \<Rightarrow> False
          | Some s \<Rightarrow> list_all isfinite s) (''Close'' # feature_names)"
      unfolding list_all_iff by blast
    then show ?thesis
      by (simp add: feature_complete_def dropna_def wf_take_rows feature_names_def)
  qed
  have "nrows (dropna (replace_inf_df d7)) \<le> nrows d7"
    by (simp add: dropna_def) (metis diff_zero length_filter_le length_upt)
  moreover have "nrows d7 = nrows df0" using ok7 by (simp add: cols_ok_def n_def)
  moreover have "get_col (replace_inf_df d7) ''RSI'' = Inr (rsi_series close)"
    using get_col_replace_inf_df [of d7 "''RSI''" "rsi_series close"]
    by (simp add: d7_def get_col_set_col replace_inf_finite_id [OF rsi_series_finite])
  ultimately show ?thesis using cti fc dropna_count [OF ok7] gc by (auto simp: n_def)
qed

section \<open>Inference path: the pretrained branch\<close>

lemma check_array_no_inf:
  "rows \<noteq> [] \<Longrightarrow> 0 < ncols rows \<Longrightarrow> \<not> list_ex (list_ex isinf) rows \<Longrightarrow> check_array rows = Inr ()"
  by (simp add: check_array_def)

lemma per_column_length:
  "scaler_width k s \<Longrightarrow> length r = k \<Longrightarrow> length (per_column f s r) = k"
  by (simp add: per_column_def scaler_width_def)

lemma last_rows_30:
  "30 \<le> length rows \<Longrightarrow> length (last_rows 30 rows) = 30 \<and> set (last_rows 30 rows) \<subseteq> set rows"
  by (auto simp: last_rows_def dest: in_set_dropD)

lemma ncols_uniform: "rows \<noteq> [] \<Longrightarrow> \<forall>r \<in> set rows. length r = k \<Longrightarrow> ncols rows = k"
  by (cases rows) (auto simp: ncols_def)

lemma rows_of_row_length: "r \<in> set (rows_of n ss) \<Longrightarrow> length r = length ss"
  by (auto simp: rows_of_def)

lemma pretrained_window:
  assumes fc: "feature_complete feature_names df" and rows: "30 \<le> nrows df"
    and w9: "scaler_width 9 fsc"
  shows "\<exists>vals scaled. df_values df feature_names = Inr vals
           \<and> scaler_transform fsc (last_rows 30 vals) = Inr scaled
           \<and> window_shape 30 scaled"
proof -
  define vals where "vals = rows_of (nrows df) (map (\<lambda>c. the (map_of (cols df) c)) feature_names)"
  have v: "df_values df feature_names = Inr vals"
    using feature_complete_values [OF fc] by (simp add: vals_def)
  have fin: "all_finite vals" using feature_complete_finite [OF fc] by (simp add: vals_def)
  have len: "length vals = nrows df" by (simp add: vals_def)
  have rl: "\<forall>r \<in> set vals. length r = 9"
    using rows_of_row_length [of _ "nrows df" "map (\<lambda>c. the (map_of (cols df) c)) feature_names"]
    by (auto simp: vals_def)
  define ls where "ls = last_rows 30 vals"
  from last_rows_30 [of vals] rows len have l30: "length ls = 30" and sub: "set ls \<subseteq> set vals"
    by (auto simp: ls_def)
  have ne: "ls \<noteq> []" using l30 by auto
  have rl': "\<forall>r \<in> set ls. length r = 9" using rl sub by auto
  have nc: "ncols ls = 9" by (rule ncols_uniform [OF ne rl'])
  have "all_finite ls" using fin sub by (auto simp: all_finite_def list_all_iff)
  then have "check_array ls = Inr ()" using ne nc by (intro check_array_ok) simp_all
  then have st: "scaler_transform fsc ls = Inr (map (per_column scale_cell fsc) ls)"
    using nc w9 by (simp add: scaler_transform_def scaler_width_def)
  have "window_shape 30 (map (per_column scale_cell fsc) ls)"
    using l30 rl' per_column_length [OF w9]
    by (auto simp: window_shape_def list_all_iff)
  with v st show ?thesis unfolding ls_def by blast
qed

lemma inverse_transform_predictions:
  assumes w1: "scaler_width 1 tsc" and ne: "ps \<noteq> []" and ni: "\<forall>p \<in> set ps. \<not> isinf p"
  shows "inverse_transform tsc (reshape_col ps)
           = Inr (map (\<lambda>p. [unscale_cell (hd (data_min tsc)) (hd (data_max tsc)) p]) ps)"
proof -
  have "reshape_col ps \<noteq> []" using ne by (simp add: reshape_col_def)
  moreover have nc: "ncols (reshape_col ps) = 1" by (rule ncols_reshape_col [OF ne])
  moreover have "\<not> list_ex (list_ex isinf) (reshape_col ps)"
    using ni by (auto simp: reshape_col_def list_ex_iff)
  ultimately have "check_array (reshape_col ps) = Inr ()" by (intro check_array_no_inf) simp_all
  moreover have "map (per_column unscale_cell tsc) (reshape_col ps)
      = map (\<lambda>p. [unscale_cell (hd (data_min tsc)) (hd (data_max tsc)) p]) ps"
    using w1 by (simp add: reshape_col_def per_column_single scaler_width_def)
  ultimately show ?thesis using nc w1 by (simp add: inverse_transform_def scaler_width_def)
qed

lemma concat_singletons: "concat (map (\<lambda>p. [f p]) ps) = map f ps"
  by (induction ps) auto

lemma pretrained_ok:
  assumes ka: "keras_available e" and mk: "makedirs_ok e"
    and ld: "load_pretrained_model e (ModelTrainer ''models/pretrained'') fs symbol
               = Some (model, fsc, tsc, MetadataJson md)"
    and dl: "download_stock_with_fallback e symbol ''6mo'' = Some df0" and ne: "\<not> df_empty df0"
    and cti: "calculate_technical_indicators df0 = Inr df1"
    and rows: "30 \<le> nrows (dropna df1)"
    and fc: "feature_complete feature_names (dropna df1)"
    and w9: "scaler_width 9 fsc" and w1: "scaler_width 1 tsc"
    and mi: "\<forall>w. \<not> isinf (model w)"
    and d: "1 \<le> future_days"
  shows "\<exists>r vals scaled ps w close.
           run_lstm_prediction_pretrained e fs symbol period future_days = (Pretrained r, 0)
         \<and> df_values (dropna df1) feature_names = Inr vals
         \<and> scaler_transform fsc (last_rows 30 vals) = Inr scaled
         \<and> forecast_loop model 30 (nat future_days) scaled [] = Inr (ps, w)
         \<and> length ps = nat future_days
         \<and> get_col (dropna df1) ''Close'' = Inr close
         \<and> r = \<lparr>pr_symbol = symbol,
                 pr_predictions = map (unscale_cell (hd (data_min tsc)) (hd (data_max tsc))) ps,
                 pr_future_dates = map (\<lambda>i. last (index (dropna df1)) + 1 + int i) [0..<nat future_days],
                 pr_historical_prices = close,
                 pr_historical_dates = index (dropna df1),
                 pr_current_price = last close,
                 pr_predicted_price = unscale_cell (hd (data_min tsc)) (hd (data_max tsc)) (last ps),
                 pr_price_change_percent =
                   fmul (fdiv (fsub (unscale_cell (hd (data_min tsc)) (hd (data_max tsc)) (last ps))
                                    (last close)) (last close)) (Fin 100),
                 pr_model_metadata = md,
                 pr_using_pretrained = True\<rparr>"
proof -
  define df where "df = dropna df1"
  from pretrained_window [OF fc rows w9] obtain vals scaled where
    v: "df_values df feature_names = Inr vals"
    and st: "scaler_transform fsc (last_rows 30 vals) = Inr scaled"
    and ws: "window_shape 30 scaled" by (auto simp: df_def)
  from forecast_loop_total [OF ws, of model "nat future_days" "[]"] obtain ps w where
    fl: "forecast_loop model 30 (nat future_days) scaled [] = Inr (ps, w)"
    and lp: "length ps = nat future_days" by auto
  have pne: "ps \<noteq> []" using lp d by auto
  from forecast_loop_preds_range [OF fl] mi have ni: "\<forall>p \<in> set ps. \<not> isinf p" by auto
  note inv = inverse_transform_predictions [OF w1 pne ni]
  from feature_complete_close [OF fc] obtain close where
    cl: "get_col df ''Close'' = Inr close" and lc: "length close = nrows df"
    by (auto simp: df_def)
  have cne: "close \<noteq> []" using lc rows by (auto simp: df_def)
  have lastp: "hd (last (map (\<lambda>p. [unscale_cell (hd (data_min tsc)) (hd (data_max tsc)) p]) ps))
      = unscale_cell (hd (data_min tsc)) (hd (data_max tsc)) (last ps)"
    using pne by (simp add: last_map)
  have "pretrained_predict_try e symbol future_days (model, fsc, tsc, MetadataJson md)
      = Inr (Pretrained \<lparr>pr_symbol = symbol,
                 pr_predictions = map (unscale_cell (hd (data_min tsc)) (hd (data_max tsc))) ps,
                 pr_future_dates = map (\<lambda>i. last (index df) + 1 + int i) [0..<nat future_days],
                 pr_historical_prices = close,
                 pr_historical_dates = index df,
                 pr_current_price = last close,
                 pr_predicted_price = unscale_cell (hd (data_min tsc)) (hd (data_max tsc)) (last ps),
                 pr_price_change_percent =
                   fmul (fdiv (fsub (unscale_cell (hd (data_min tsc)) (hd (data_max tsc)) (last ps))
                                    (last close)) (last close)) (Fin 100),
                 pr_model_metadata = md,
                 pr_using_pretrained = True\<rparr>)"
    using dl ne cti rows v st fl inv cl cne pne lastp
    by (simp add: pretrained_predict_try_def df_def [symmetric] Let_def concat_singletons)
  then have "run_lstm_prediction_pretrained e fs symbol period future_days
      = (Pretrained \<lparr>pr_symbol = symbol,
                 pr_predictions = map (unscale_cell (hd (data_min tsc)) (hd (data_max tsc))) ps,
                 pr_future_dates = map (\<lambda>i. last (index df) + 1 + int i) [0..<nat future_days],
                 pr_historical_prices = close,
                 pr_historical_dates = index df,
                 pr_current_price = last close,
                 pr_predicted_price = unscale_cell (hd (data_min tsc)) (hd (data_max tsc)) (last ps),
                 pr_price_change_percent =
                   fmul (fdiv (fsub (unscale_cell (hd (data_min tsc)) (hd (data_max tsc)) (last ps))
                                    (last close)) (last close)) (Fin 100),
                 pr_model_metadata = md,
                 pr_using_pretrained = True\<rparr>, 0)"
    using ka mk ld by (simp add: run_lstm_prediction_pretrained_def)
  with v st fl lp cl show ?thesis unfolding df_def by blast
qed

lemma raw_frame_clean: "clean_bars (raw_frame n)"
  by (auto simp: clean_bars_def raw_frame_def wf_df_def nrows_def has_col_def list_all_iff)

lemma raw_frame_nrows [simp]: "nrows (raw_frame n) = n"
  by (simp add: raw_frame_def nrows_def)

lemma raw_frame_not_empty: "0 < n \<Longrightarrow> \<not> df_empty (raw_frame n)"
  by (simp add: df_empty_def) (simp add: raw_frame_def)

lemma demo_store_load:
  "load_pretrained_model (market_env bars) (ModelTrainer ''models/pretrained'') demo_store ''TEST''
     = Some (demo_network, demo_scaler 9, demo_scaler 1, MetadataJson demo_metadata)"
  by (simp add: load_pretrained_model_def ModelTrainer_def demo_store_def market_env_def
      demo_env_def str_replace_def Let_def)

lemma empty_store_load: "load_pretrained_model e self empty_store symbol = None"
  by (simp add: load_pretrained_model_def empty_store_def Let_def)

lemma market_env_simps [simp]:
  "keras_available (market_env bars)" "makedirs_ok (market_env bars)"
  "download_stock_with_fallback (market_env bars) symbol period = bars"
  by (simp_all add: market_env_def demo_env_def)

lemma demo_scaler_width: "scaler_width k (demo_scaler k)"
  by (simp add: scaler_width_def demo_scaler_def)

lemma load_keras_available:
  "load_pretrained_model e self fs symbol = Some a \<Longrightarrow> keras_available e"
  by (auto simp: load_pretrained_model_def Let_def split: if_splits)

lemma ncols_map_map [simp]: "ncols (map (map f) rows) = ncols rows"
  by (cases rows) (simp_all add: ncols_def)

lemma ncols_clean_features:
  "rows \<noteq> [] \<Longrightarrow> ncols (clean_features rows) = ncols rows"
  by (simp add: clean_features_def Let_def ncols_rows_of)

lemma fit_transform_scaler:
  "fit_transform rows = Inr (s, t) \<Longrightarrow> rows \<noteq> [] \<and> scaler_width (ncols rows) s"
  by (auto simp: fit_transform_def scaler_fit_def scaler_width_def check_array_def bindE_def
      split: sum.splits if_splits)

lemma df_values_ncols:
  assumes "df_values df names = Inr fd" "0 < nrows df"
  shows "ncols fd = length names"
proof -
  from assms(1) obtain ss where ss: "select_cols df names = Inr ss" and fd: "fd = rows_of (nrows df) ss"
    by (auto simp: df_values_def bindE_def split: sum.splits)
  from select_cols_length [OF ss] assms(2) show ?thesis by (simp add: fd ncols_rows_of)
qed

lemma prepare_stock_data_scalers:
  assumes "prepare_stock_data self df0 = Some (X, y, fsc, tsc)"
  shows "scaler_width (length (features self)) fsc \<and> scaler_width 1 tsc"
proof -
  from assms have tr: "prepare_stock_data_try self df0 = Inr (Some (X, y, fsc, tsc))"
    by (simp add: prepare_stock_data_def split: sum.splits)
  from tr have hc: "has_col df0 ''Close''"
    by (auto simp: prepare_stock_data_try_def split: if_splits)
  from tr hc obtain df where df: "indicator_frame df0 = Inr df"
    by (cases "indicator_frame df0") (auto simp: prepare_stock_data_try_def)
  from tr hc df have enough: "lookback self + 50 \<le> nrows df"
    by (auto simp: prepare_stock_data_try_def split: if_splits)
  from tr hc df enough obtain fd0 where fd0: "df_values df (features self) = Inr fd0"
    by (cases "df_values df (features self)") (auto simp: prepare_stock_data_try_def)
  define fd where "fd = (if \<not> all_finite fd0 then clean_features fd0 else fd0)"
  have pos: "0 < nrows df" using enough by simp
  have l0: "length fd0 = nrows df" by (rule df_values_length [OF fd0])
  have ne0: "fd0 \<noteq> []" using l0 pos by auto
  have nc: "ncols fd = length (features self)"
    using df_values_ncols [OF fd0 pos] ne0 by (simp add: fd_def ncols_clean_features)
  from tr hc df enough fd0 have fin: "all_finite fd"
    by (auto simp: prepare_stock_data_try_def fd_def Let_def split: if_splits)
  from tr hc df enough fd0 fin obtain sc sf where ft: "fit_transform fd = Inr (sc, sf)"
    by (cases "fit_transform fd") (auto simp: prepare_stock_data_try_def fd_def Let_def split: if_splits)
  from tr hc df enough fd0 fin ft obtain close where cl: "get_col df ''Close'' = Inr close"
    by (cases "get_col df ''Close''") (auto simp: prepare_stock_data_try_def fd_def Let_def split: if_splits)
  from tr hc df enough fd0 fin ft cl obtain ts sp where
    ft2: "fit_transform (reshape_col close) = Inr (ts, sp)"
    by (cases "fit_transform (reshape_col close)")
       (auto simp: prepare_stock_data_try_def fd_def Let_def split: if_splits)
  from tr hc df enough fd0 fin ft cl ft2
  have eq: "fsc = sc" "tsc = ts"
    by (auto simp: prepare_stock_data_try_def fd_def Let_def split: if_splits prod.splits)
  from fit_transform_scaler [OF ft] nc have a: "scaler_width (length (features self)) sc" by simp
  from fit_transform_scaler [OF ft2] have "close \<noteq> []" and w: "scaler_width (ncols (reshape_col close)) ts"
    by (auto simp: reshape_col_def)
  then have b: "scaler_width 1 ts" by (simp add: ncols_reshape_col)
  from a b eq show ?thesis by simp
qed

lemma saved_artifact_loads:
  assumes "train_single_stock e self symbol df epochs bs fs = (Some md, fs')"
  shows "\<exists>model fsc tsc.
           load_pretrained_model e self fs' symbol = Some (model, fsc, tsc, MetadataJson md)
         \<and> scaler_width (length (features self)) fsc \<and> scaler_width 1 tsc"
proof -
  from train_single_stock_SomeD [OF assms]
  obtain X y fsc tsc and history :: fit_result where ka: "keras_available e"
    and prep: "prepare_stock_data self df = Some (X, y, fsc, tsc)"
    and fs': "fs' = fs(model_dir self @ ''/'' @ safe_key symbol @ ''.keras'' \<mapsto> KerasFile (net history),
             model_dir self @ ''/scalers/'' @ safe_key symbol @ ''.pkl'' \<mapsto> ScalersPickle fsc tsc,
             model_dir self @ ''/metadata/'' @ safe_key symbol @ ''.json'' \<mapsto> JsonFile (MetadataJson md))"
    by blast
  have "load_pretrained_model e self fs' symbol = Some (net history, fsc, tsc, MetadataJson md)"
    using ka paths_distinct [of "model_dir self" "safe_key symbol" "model_dir self" "safe_key symbol"]
    by (simp add: load_pretrained_model_def fs' Let_def safe_key_def [symmetric])
  with prepare_stock_data_scalers [OF prep] show ?thesis by blast
qed

text \<open>
  Claim C7 (prediction output contract), as amended. For every future_days = d with d at
  least 1: when the model directories can be created; the store holds a loadable artifact
  for the symbol whose metadata is a metadata record, whose feature scaler was fitted on 9
  columns and whose target scaler on 1 column (as every artifact saved by train_single_stock
  is, lemma \<open>saved_artifact_loads\<close>), and whose network never predicts an infinity;
  the market data provider returns a frame that is not empty; and the indicator computation
  leaves at least 30 rows, all indicator-complete; then the pretrained path returns a
  successful result, without any training run, holding exactly d predicted prices, which
  are the d predictions collected by the forecast loop inverse-transformed through the
  target scaler, and exactly d future dates, the d days that follow the last historical
  date.
\<close>

theorem prediction_output_contract:
  assumes "makedirs_ok e"
    and "load_pretrained_model e (ModelTrainer ''models/pretrained'') fs symbol
           = Some (model, fsc, tsc, MetadataJson md)"
    and "scaler_width 9 fsc" and "scaler_width 1 tsc" and "\<forall>w. \<not> isinf (model w)"
    and "download_stock_with_fallback e symbol ''6mo'' = Some df0" and "\<not> df_empty df0"
    and "calculate_technical_indicators df0 = Inr df1"
    and "30 \<le> nrows (dropna df1)"
    and "feature_complete feature_names (dropna df1)"
    and "1 \<le> d"
  shows "\<exists>r vals scaled ps w.
           run_lstm_prediction_pretrained e fs symbol period d = (Pretrained r, 0)
         \<and> df_values (dropna df1) feature_names = Inr vals
         \<and> scaler_transform fsc (last_rows 30 vals) = Inr scaled
         \<and> forecast_loop model 30 (nat d) scaled [] = Inr (ps, w)
         \<and> length ps = nat d
         \<and> pr_predictions r = map (unscale_cell (hd (data_min tsc)) (hd (data_max tsc))) ps
         \<and> inverse_transform tsc (reshape_col ps) = Inr (reshape_col (pr_predictions r))
         \<and> int (length (pr_predictions r)) = d
         \<and> int (length (pr_future_dates r)) = d
         \<and> pr_historical_dates r = index (dropna df1)
         \<and> (\<forall>x \<in> set (pr_future_dates r). last (pr_historical_dates r) < x)
         \<and> (\<forall>i < nat d. pr_future_dates r ! i = last (pr_historical_dates r) + 1 + int i)"
proof -
  note ka = load_keras_available [OF assms(2)]
  from pretrained_ok [OF ka assms(1,2,6,7,8,9,10,3,4,5,11), of period]
  obtain r vals scaled ps w close where
    run: "run_lstm_prediction_pretrained e fs symbol period d = (Pretrained r, 0)"
    and v: "df_values (dropna df1) feature_names = Inr vals"
    and st: "scaler_transform fsc (last_rows 30 vals) = Inr scaled"
    and fl: "forecast_loop model 30 (nat d) scaled [] = Inr (ps, w)"
    and lp: "length ps = nat d"
    and r: "r = \<lparr>pr_symbol = symbol,
                 pr_predictions = map (unscale_cell (hd (data_min tsc)) (hd (data_max tsc))) ps,
                 pr_future_dates = map (\<lambda>i. last (index (dropna df1)) + 1 + int i) [0..<nat d],
                 pr_historical_prices = close,
                 pr_historical_dates = index (dropna df1),
                 pr_current_price = last close,
                 pr_predicted_price = unscale_cell (hd (data_min tsc)) (hd (data_max tsc)) (last ps),
                 pr_price_change_percent =
                   fmul (fdiv (fsub (unscale_cell (hd (data_min tsc)) (hd (data_max tsc)) (last ps))
                                    (last close)) (last close)) (Fin 100),
                 pr_model_metadata = md,
                 pr_using_pretrained = True\<rparr>"
    by blast
  have pne: "ps \<noteq> []" using lp assms(11) by auto
  from forecast_loop_preds_range [OF fl] assms(5) have ni: "\<forall>p \<in> set ps. \<not> isinf p" by auto
  have inv: "inverse_transform tsc (reshape_col ps) = Inr (reshape_col (pr_predictions r))"
    using inverse_transform_predictions [OF assms(4) pne ni]
    by (simp add: r reshape_col_def comp_def)
  have a: "pr_predictions r = map (unscale_cell (hd (data_min tsc)) (hd (data_max tsc))) ps"
    by (simp add: r)
  have b: "int (length (pr_predictions r)) = d" "int (length (pr_future_dates r)) = d"
    using lp assms(11) by (simp_all add: r)
  have c: "pr_historical_dates r = index (dropna df1)" by (simp add: r)
  have e: "\<forall>x \<in> set (pr_future_dates r). last (pr_historical_dates r) < x"
    by (auto simp: r)
  have f: "\<forall>i < nat d. pr_future_dates r ! i = last (pr_historical_dates r) + 1 + int i"
    by (simp add: r)
  from run v st fl lp a inv b c e f show ?thesis by blast
qed

theorem prediction_output_contract_witness:
  "\<exists>df1 r.
     makedirs_ok (market_env (Some (raw_frame 60)))
   \<and> load_pretrained_model (market_env (Some (raw_frame 60))) (ModelTrainer ''models/pretrained'')
        demo_store ''TEST'' = Some (demo_network, demo_scaler 9, demo_scaler 1, MetadataJson demo_metadata)
   \<and> scaler_width 9 (demo_scaler 9) \<and> scaler_width 1 (demo_scaler 1)
   \<and> (\<forall>w. \<not> isinf (demo_network w))
   \<and> download_stock_with_fallback (market_env (Some (raw_frame 60))) ''TEST'' ''6mo'' = Some (raw_frame 60)
   \<and> \<not> df_empty (raw_frame 60)
   \<and> calculate_technical_indicators (raw_frame 60) = Inr df1
   \<and> 30 \<le> nrows (dropna df1)
   \<and> feature_complete feature_names (dropna df1)
   \<and> (1::int) \<le> 7
   \<and> run_lstm_prediction_pretrained (market_env (Some (raw_frame 60))) demo_store ''TEST'' ''2y'' 7
        = (Pretrained r, 0)
   \<and> length (pr_predictions r) = 7 \<and> length (pr_future_dates r) = 7
   \<and> (\<forall>x \<in> set (pr_future_dates r). last (pr_historical_dates r) < x)"
proof -
  from cti_clean [OF raw_frame_clean, of 60] obtain df1 where
    c: "calculate_technical_indicators (raw_frame 60) = Inr df1"
    and fc: "feature_complete feature_names (dropna df1)"
    and n: "30 \<le> nrows (dropna df1)" by auto
  have ni: "\<forall>w. \<not> isinf (demo_network w)" by (simp add: demo_network_def)
  have ne: "\<not> df_empty (raw_frame 60)" by (simp add: raw_frame_not_empty)
  have dl: "download_stock_with_fallback (market_env (Some (raw_frame 60))) ''TEST'' ''6mo''
      = Some (raw_frame 60)" by simp
  have d: "(1::int) \<le> 7" by simp
  from prediction_output_contract [OF market_env_simps(2) demo_store_load
      demo_scaler_width demo_scaler_width ni dl ne c n fc d, of "''2y''"]
  obtain r where
    "run_lstm_prediction_pretrained (market_env (Some (raw_frame 60))) demo_store ''TEST'' ''2y'' 7
        = (Pretrained r, 0)"
    "int (length (pr_predictions r)) = 7" "int (length (pr_future_dates r)) = 7"
    "\<forall>x \<in> set (pr_future_dates r). last (pr_historical_dates r) < x"
    by blast
  with c fc n ni ne dl d demo_store_load [of "Some (raw_frame 60)"] demo_scaler_width [of 9]
    demo_scaler_width [of 1]
  show ?thesis by (intro exI [of _ df1] exI [of _ r]) simp
qed

lemma pretrained_zero_days:
  assumes ka: "keras_available e" and mk: "makedirs_ok e"
    and ld: "load_pretrained_model e (ModelTrainer ''models/pretrained'') fs symbol
               = Some (model, fsc, tsc, MetadataJson md)"
    and dl: "download_stock_with_fallback e symbol ''6mo'' = Some df0" and ne: "\<not> df_empty df0"
    and cti: "calculate_technical_indicators df0 = Inr df1"
    and rows: "30 \<le> nrows (dropna df1)"
    and fc: "feature_complete feature_names (dropna df1)"
    and w9: "scaler_width 9 fsc"
    and d: "d \<le> 0"
  shows "run_lstm_prediction_pretrained e fs symbol period d
           = (Failure (StrOf (ValueError ''Found array with 0 sample(s)'')), 0)"
proof -
  from pretrained_window [OF fc rows w9] obtain vals scaled where
    v: "df_values (dropna df1) feature_names = Inr vals"
    and st: "scaler_transform fsc (last_rows 30 vals) = Inr scaled" by auto
  have z: "nat d = 0" using d by simp
  have "pretrained_predict_try e symbol d (model, fsc, tsc, MetadataJson md)
      = Inl (ValueError ''Found array with 0 sample(s)'')"
    using dl ne cti rows v st z
    by (simp add: pretrained_predict_try_def Let_def inverse_transform_def check_array_def
        reshape_col_def)
  then show ?thesis using ka mk ld by (simp add: run_lstm_prediction_pretrained_def)
qed

text \<open>
  The claim C7 as stated, for every d, fails at d = 0: no prediction is collected, the
  inverse transform refuses the empty array, and the path returns a failure dictionary.
\<close>

theorem prediction_output_contract_counterexample:
  "load_pretrained_model (market_env (Some (raw_frame 60))) (ModelTrainer ''models/pretrained'')
        demo_store ''TEST'' = Some (demo_network, demo_scaler 9, demo_scaler 1, MetadataJson demo_metadata)
   \<and> download_stock_with_fallback (market_env (Some (raw_frame 60))) ''TEST'' ''6mo'' = Some (raw_frame 60)
   \<and> run_lstm_prediction_pretrained (market_env (Some (raw_frame 60))) demo_store ''TEST'' ''2y'' 0
        = (Failure (StrOf (ValueError ''Found array with 0 sample(s)'')), 0)"
proof -
  from cti_clean [OF raw_frame_clean, of 60] obtain df1 where
    c: "calculate_technical_indicators (raw_frame 60) = Inr df1"
    and fc: "feature_complete feature_names (dropna df1)"
    and n: "30 \<le> nrows (dropna df1)" by auto
  have ne: "\<not> df_empty (raw_frame 60)" by (simp add: raw_frame_not_empty)
  have dl: "download_stock_with_fallback (market_env (Some (raw_frame 60))) ''TEST'' ''6mo''
      = Some (raw_frame 60)" by simp
  from pretrained_zero_days [OF market_env_simps(1) market_env_simps(2) demo_store_load dl ne c n fc
      demo_scaler_width, of 0 "''2y''"] dl demo_store_load [of "Some (raw_frame 60)"]
  show ?thesis by simp
qed

section \<open>Feature engineer: the RSI of a window without losses\<close>

lemma fdiv_NaN [simp]: "fdiv g NaN = NaN"
  by (cases g) simp_all

lemma rsi_zero_loss:
  assumes "i < length close"
    and "rolling_mean 14 (map fneg (where0 flt0 (diff close))) ! i = Fin 0"
  shows "rsi_series close ! i = Fin (5000 / 51)"
  using assms
  by (simp add: rsi_series_def Let_def clip_def fillna_def replace_inf_def replace_val_def fsub_def)

lemma rising_loss:
  "rolling_mean 14 (map fneg (where0 flt0 (diff rising_closes))) ! 14 = Fin 0"
  by (simp add: rising_closes_def diff_def shift1_def rolling_mean_def where0_def window_mean_def
      fsub_def upt_rec)

lemma rising_gain:
  "rolling_mean 14 (where0 fgt0 (diff rising_closes)) ! 14 = Fin 1"
  by (simp add: rising_closes_def diff_def shift1_def rolling_mean_def where0_def window_mean_def
      fsub_def upt_rec)

lemma rising_bars_clean: "clean_bars rising_bars"
  by (auto simp: clean_bars_def rising_bars_def rising_closes_def wf_df_def nrows_def has_col_def
      list_all_iff)

lemma rising_bars_close: "get_col rising_bars ''Close'' = Inr rising_closes"
  by (simp add: get_col_def rising_bars_def)

text \<open>
  Claim C2 (RSI edge-case policy), evaluated on fifteen daily bars whose close rises by 1
  every day. At the last row the 14-day mean gain is 1 and the 14-day mean loss is 0. The
  feature engineer replaces the zero loss by NaN and fills the undefined ratio RS with 50
  (under the comment \<^verbatim>\<open>Default to neutral RSI\<close>), so the RSI of that zero-loss row is
  100 - 100 / 51 = 5000 / 51, about 98.04, and not the neutral value 50. That every RSI
  value is a number between 0 and 100 is lemmas \<open>rsi_series_bounds\<close> and
  \<open>rsi_series_finite\<close>.
\<close>

theorem rsi_zero_loss_not_neutral:
  "\<exists>df1 rsi.
      calculate_technical_indicators rising_bars = Inr df1
    \<and> get_col df1 ''RSI'' = Inr rsi
    \<and> rsi = rsi_series rising_closes
    \<and> rolling_mean 14 (where0 fgt0 (diff rising_closes)) ! 14 = Fin 1
    \<and> rolling_mean 14 (map fneg (where0 flt0 (diff rising_closes))) ! 14 = Fin 0
    \<and> rsi ! 14 = Fin (5000 / 51)
    \<and> rsi ! 14 \<noteq> Fin 50"
proof -
  have pos: "0 < nrows rising_bars" by (simp add: rising_bars_def nrows_def)
  from cti_clean [OF rising_bars_clean pos] rising_bars_close
  obtain df1 where c: "calculate_technical_indicators rising_bars = Inr df1"
    and r: "get_col df1 ''RSI'' = Inr (rsi_series rising_closes)" by auto
  have v: "rsi_series rising_closes ! 14 = Fin (5000 / 51)"
    by (rule rsi_zero_loss [OF _ rising_loss]) (simp add: rising_closes_def)
  from c r v rising_gain rising_loss show ?thesis by simp
qed

section \<open>Inference path: the fallback\<close>

lemma run_simulation_calls:
  "snd (run_simulation e df d) = (case prepare_data 30 df of Inl err \<Rightarrow> 0 | Inr p \<Rightarrow> 1)"
  by (simp add: run_simulation_def split: sum.splits)

lemma simulations_one_calls:
  "snd (simulations e df d (Suc 0)) = (case prepare_data 30 df of Inl err \<Rightarrow> 0 | Inr p \<Rightarrow> 1)"
proof -
  obtain r c where rc: "run_simulation e df d = (r, c)" by (cases "run_simulation e df d")
  with run_simulation_calls [of e df d]
  have "c = (case prepare_data 30 df of Inl err \<Rightarrow> 0 | Inr p \<Rightarrow> 1)" by simp
  with rc show ?thesis by simp
qed

lemma run_lstm_prediction_try_shape:
  "fst (run_lstm_prediction_try e symbol period n d) = Inr r \<Longrightarrow>
   (\<exists>m. r = Failure m) \<or> (\<exists>sr. r = Simulated sr)"
  by (auto simp: run_lstm_prediction_try_def Let_def split: option.splits if_splits sum.splits prod.splits)

lemma run_lstm_prediction_shape:
  "(\<exists>m. fst (run_lstm_prediction e symbol period n d) = Failure m)
   \<or> (\<exists>sr. fst (run_lstm_prediction e symbol period n d) = Simulated sr)"
proof (cases "keras_available e")
  case False
  then show ?thesis by (simp add: run_lstm_prediction_def)
next
  case True
  obtain x calls where x: "run_lstm_prediction_try e symbol period n d = (x, calls)"
    by (cases "run_lstm_prediction_try e symbol period n d")
  show ?thesis
  proof (cases x)
    case (Inl err)
    with x True show ?thesis by (simp add: run_lstm_prediction_def)
  next
    case (Inr r)
    with x run_lstm_prediction_try_shape [of e symbol period n d r] True
    show ?thesis by (auto simp: run_lstm_prediction_def)
  qed
qed

lemma run_lstm_prediction_not_pretrained:
  "using_pretrained (fst (run_lstm_prediction e symbol period n d)) = None"
  using run_lstm_prediction_shape [of e symbol period n d] by auto

lemma run_lstm_prediction_try_calls:
  "snd (run_lstm_prediction_try e symbol period 1 d) =
     (case download_stock_with_fallback e symbol period of
        None \<Rightarrow> 0
      | Some df \<Rightarrow> if df_empty df \<or> \<not> has_col df ''Close'' then 0
                   else (case prepare_data 30 df of Inl err \<Rightarrow> 0 | Inr p \<Rightarrow> 1))"
proof (cases "download_stock_with_fallback e symbol period")
  case None
  then show ?thesis by (simp add: run_lstm_prediction_try_def)
next
  case (Some df)
  show ?thesis
  proof (cases "df_empty df \<or> \<not> has_col df ''Close''")
    case True
    with Some show ?thesis
      by (auto simp: run_lstm_prediction_try_def has_col_get_col split: sum.splits)
  next
    case False
    then obtain close where c: "get_col df ''Close'' = Inr close" by (auto simp: has_col_get_col)
    obtain ap calls where s: "simulations e df d (Suc 0) = (ap, calls)"
      by (cases "simulations e df d (Suc 0)")
    with simulations_one_calls [of e df d]
    have "calls = (case prepare_data 30 df of Inl err \<Rightarrow> 0 | Inr p \<Rightarrow> 1)" by simp
    with Some False c s show ?thesis
      by (simp add: run_lstm_prediction_try_def Let_def del: simulations.simps)
  qed
qed

lemma run_lstm_prediction_calls:
  "keras_available e \<Longrightarrow>
   snd (run_lstm_prediction e symbol period 1 d) = snd (run_lstm_prediction_try e symbol period 1 d)"
  by (simp add: run_lstm_prediction_def split: prod.splits sum.splits)

lemma pretrained_predict_try_shape:
  "pretrained_predict_try e symbol d a = Inr r \<Longrightarrow>
   (\<exists>m. r = Failure m) \<or> (\<exists>pr. r = Pretrained pr \<and> pr_using_pretrained pr)"
  by (auto simp: pretrained_predict_try_def Let_def bindE_def
      split: option.splits if_splits sum.splits prod.splits json.splits)

lemma demo_pretrained_run:
  "\<exists>r. run_lstm_prediction_pretrained (market_env (Some (raw_frame 60))) demo_store ''TEST'' period 7
         = (Pretrained r, 0) \<and> pr_using_pretrained r"
proof -
  from cti_clean [OF raw_frame_clean, of 60] obtain df1 where
    c: "calculate_technical_indicators (raw_frame 60) = Inr df1"
    and fc: "feature_complete feature_names (dropna df1)"
    and n: "30 \<le> nrows (dropna df1)" by auto
  have ni: "\<forall>w. \<not> isinf (demo_network w)" by (simp add: demo_network_def)
  have ne: "\<not> df_empty (raw_frame 60)" by (simp add: raw_frame_not_empty)
  have dl: "download_stock_with_fallback (market_env (Some (raw_frame 60))) ''TEST'' ''6mo''
      = Some (raw_frame 60)" by simp
  have d: "(1::int) \<le> 7" by simp
  from pretrained_ok [OF market_env_simps(1) market_env_simps(2) demo_store_load dl ne c n fc
      demo_scaler_width demo_scaler_width ni d, of period]
  show ?thesis by auto
qed

lemma demo_no_data_run:
  "run_lstm_prediction_pretrained (market_env None) empty_store ''TEST'' ''2y'' 7
     = (Failure (Text ''No data found for symbol TEST''), 0)"
  by (simp add: run_lstm_prediction_pretrained_def empty_store_load run_lstm_prediction_def
      run_lstm_prediction_try_def)

text \<open>
  LSTMPredictor.prepare_data succeeds on clean bars whose RSI is defined from row 19 on, when
  at least lookback + 50 rows are left; so it does on 99 or more of the sample bars.
\<close>

lemma prepare_data_ok:
  assumes ind: "predictor_indicators data = Inr df"
    and enough: "L + 50 \<le> nrows df"
    and complete: "feature_complete feature_names df"
  shows "\<exists>p. prepare_data L data = Inr p"
proof -
  define fd where "fd = rows_of (nrows df) (map (\<lambda>c. the (map_of (cols df) c)) feature_names)"
  have vals: "df_values df feature_names = Inr fd"
    using feature_complete_values [OF complete] by (simp add: fd_def)
  have fin: "all_finite fd" using feature_complete_finite [OF complete] by (simp add: fd_def)
  have pos: "0 < nrows df" using enough by simp
  have len: "length fd = nrows df" by (simp add: fd_def)
  have ne: "fd \<noteq> []" using pos len by auto
  have nc: "0 < ncols fd" using complete pos by (simp add: fd_def ncols_rows_of feature_complete_def)
  from fit_transform_ok [OF check_array_ok [OF ne nc fin]]
  obtain fsc where fsc: "fit_transform fd = Inr (fsc, map (per_column scale_cell fsc) fd)" by blast
  from feature_complete_close [OF complete]
  obtain close where cl: "get_col df ''Close'' = Inr close" "length close = nrows df"
    "list_all isfinite close" by blast
  have cne: "close \<noteq> []" using cl(2) pos by auto
  have "reshape_col close \<noteq> []" using cne by (simp add: reshape_col_def)
  moreover have "0 < ncols (reshape_col close)" using cne by (simp add: ncols_reshape_col)
  moreover have "all_finite (reshape_col close)" using cl(3) by (rule all_finite_reshape_col)
  ultimately have "check_array (reshape_col close) = Inr ()" by (rule check_array_ok)
  from fit_transform_ok [OF this]
  obtain tsc where tsc:
    "fit_transform (reshape_col close) = Inr (tsc, map (per_column scale_cell tsc) (reshape_col close))"
    by blast
  show ?thesis using ind enough vals fsc cl(1) tsc
    by (simp add: prepare_data_def Let_def split: prod.splits)
qed

lemma filter_ge_upt: "filter (\<lambda>i. k \<le> i) [0..<n] = [k..<n]"
  by (induction n) auto

lemma dropna_from:
  assumes ok: "cols_ok n k d" and mem: "(c0, s0) \<in> set (cols d)"
    and nan: "\<And>i. i < k \<Longrightarrow> i < n \<Longrightarrow> s0 ! i = NaN"
  shows "dropna d = take_rows d [k..<n]"
proof -
  have n: "nrows d = n" using ok by (simp add: cols_ok_def)
  have "filter (\<lambda>i. list_all (\<lambda>(c, s). s ! i \<noteq> NaN) (cols d)) [0..<n]
      = filter (\<lambda>i. k \<le> i) [0..<n]"
  proof (rule filter_cong [OF refl])
    fix i assume "i \<in> set [0..<n]"
    then have i: "i < n" by simp
    show "list_all (\<lambda>(c, s). s ! i \<noteq> NaN) (cols d) = (k \<le> i)"
    proof
      assume "list_all (\<lambda>(c, s). s ! i \<noteq> NaN) (cols d)"
      with mem have "s0 ! i \<noteq> NaN" by (auto simp: list_all_iff)
      with nan [of i] i show "k \<le> i" by (meson not_le)
    next
      assume ki: "k \<le> i"
      have "s ! i \<noteq> NaN" if "(c, s) \<in> set (cols d)" for c s
      proof -
        from ok that ki i have "isfinite (s ! i)" by (auto simp: cols_ok_def)
        then show ?thesis by (auto simp: isfinite_iff)
      qed
      then show "list_all (\<lambda>(c, s). s ! i \<noteq> NaN) (cols d)" by (auto simp: list_all_iff)
    qed
  qed
  then show ?thesis by (simp add: dropna_def n filter_ge_upt)
qed

lemma take_rows_complete:
  assumes ok: "cols_ok n k d" and has: "\<And>c. c \<in> set (''Close'' # names) \<Longrightarrow> has_col d c"
    and ne: "names \<noteq> []"
  shows "feature_complete names (take_rows d [k..<n])"
proof -
  have "case map_of (cols (take_rows d [k..<n])) c of None \<Rightarrow> False
        | Some s \<Rightarrow> list_all isfinite s" if "c \<in> set (''Close'' # names)" for c
  proof -
    from has [OF that] obtain s where s: "map_of (cols d) c = Some s"
      by (auto simp: has_col_get_col get_col_def split: option.splits)
    then have mem: "(c, s) \<in> set (cols d)" by (rule map_of_SomeD)
    have m: "map_of (cols (take_rows d [k..<n])) c = Some (map ((!) s) [k..<n])"
      using s by (simp add: take_rows_def map_of_map)
    from ok mem have "isfinite (s ! i)" if "k \<le> i" "i < n" for i
      using that by (auto simp: cols_ok_def)
    then have "list_all isfinite (map ((!) s) [k..<n])" by (simp add: list_all_iff)
    with m show ?thesis by simp
  qed
  then have "list_all (\<lambda>c. case map_of (cols (take_rows d [k..<n])) c of None \<Rightarrow> False
        | Some s \<Rightarrow> list_all isfinite s) (''Close'' # names)"
    unfolding list_all_iff by blast
  then show ?thesis using ne
    by (simp add: feature_complete_def wf_take_rows)
qed

lemma predictor_clean:
  assumes cb: "clean_bars df0" and gc: "get_col df0 ''Close'' = Inr close"
    and rsi: "\<And>i. 19 \<le> i \<Longrightarrow> i < nrows df0 \<Longrightarrow>
        isfinite (fsub (Fin 100) (fdiv (Fin 100) (fadd (Fin 1)
           (fdiv (rolling_mean 14 (where0 fgt0 (diff close)) ! i)
                 (rolling_mean 14 (map fneg (where0 flt0 (diff close))) ! i)))))"
  shows "\<exists>df1. predictor_indicators df0 = Inr df1 \<and> feature_complete feature_names df1
           \<and> nrows df1 = nrows df0 - 19"
proof -
  define n where "n = nrows df0"
  from cb obtain high low volume where
    gh: "get_col df0 ''High'' = Inr high"
    and gl: "get_col df0 ''Low'' = Inr low" and gv: "get_col df0 ''Volume'' = Inr volume"
    by (auto simp: clean_bars_def has_col_get_col)
  note lc = clean_bars_col [OF cb gc] and lh = clean_bars_col [OF cb gh]
    and ll = clean_bars_col [OF cb gl] and lv = clean_bars_col [OF cb gv]
  from cb gc have zc: "Fin 0 \<notin> set close" by (auto simp: clean_bars_def get_col_def split: option.splits)
  from cb gv have zv: "Fin 0 \<notin> set volume" by (auto simp: clean_bars_def get_col_def split: option.splits)
  have hcl: "has_col df0 ''Close''" using gc by (auto simp: has_col_get_col)
  have hvl: "has_col df0 ''Volume''" using gv by (auto simp: has_col_get_col)
  have ok0: "cols_ok n 19 df0"
  proof -
    have "length s = n \<and> (\<forall>i. 19 \<le> i \<and> i < n \<longrightarrow> isfinite (s ! i))"
      if "(c, s) \<in> set (cols df0)" for c s
    proof -
      from cb that have l: "length s = n" and f: "list_all isfinite s"
        by (auto simp: n_def clean_bars_def wf_df_def list_all_iff)
      from l f show ?thesis by (simp add: all_finite_nth)
    qed
    then show ?thesis by (auto simp: cols_ok_def n_def)
  qed
  define range where "range = map (\<lambda>((h, l), c). fdiv (fsub h l) c) (zip (zip high low) close)"
  define rsis where "rsis = map (\<lambda>r. fsub (Fin 100) (fdiv (Fin 100) (fadd (Fin 1) r)))
      (map (\<lambda>(g, l). fdiv g l) (zip (rolling_mean 14 (where0 fgt0 (diff close)))
         (rolling_mean 14 (map fneg (where0 flt0 (diff close))))))"
  define d4 where "d4 = set_col (set_col (set_col (set_col df0 ''MA5'' (rolling_mean 5 close))
      ''MA10'' (rolling_mean 10 close)) ''MA20'' (rolling_mean 20 close))
      ''Price_Change'' (pct_change close)"
  define d7 where "d7 = set_col (set_col (set_col d4 ''Price_Range'' range)
      ''Volume_Change'' (pct_change volume)) ''RSI'' rsis"
  have pin: "predictor_indicators df0 = Inr (dropna d7)"
    by (simp add: predictor_indicators_def gc gh gl gv Let_def d7_def d4_def range_def rsis_def)
  have ok4: "cols_ok n 19 d4" unfolding d4_def
  proof (intro cols_ok_set_col ok0)
    fix i assume i: "19 \<le> i" "i < n"
    show "isfinite (rolling_mean 5 close ! i)" using i lc
      by (intro rolling_mean_finite) (simp_all add: n_def)
    show "isfinite (rolling_mean 10 close ! i)" using i lc
      by (intro rolling_mean_finite) (simp_all add: n_def)
    show "isfinite (rolling_mean 20 close ! i)" using i lc
      by (intro rolling_mean_finite) (simp_all add: n_def)
    show "isfinite (pct_change close ! i)" using i lc zc
      by (intro pct_change_finite) (simp_all add: n_def)
  qed (simp_all add: lc n_def)
  have rf: "isfinite (range ! i)" if "i < n" for i
  proof -
    from that lh have "isfinite (high ! i)" by (simp add: all_finite_nth n_def)
    then obtain a where a: "high ! i = Fin a" by (auto simp: isfinite_iff)
    from that ll have "isfinite (low ! i)" by (simp add: all_finite_nth n_def)
    then obtain b where b: "low ! i = Fin b" by (auto simp: isfinite_iff)
    from that lc have "isfinite (close ! i)" by (simp add: all_finite_nth n_def)
    then obtain c where c: "close ! i = Fin c" by (auto simp: isfinite_iff)
    from that lc have "close ! i \<in> set close" by (simp add: n_def)
    with zc c have "c \<noteq> 0" by auto
    with a b c show ?thesis using that lc lh ll
      by (simp add: range_def n_def fsub_def)
  qed
  have rsf: "isfinite (rsis ! i)" if "19 \<le> i" "i < n" for i
    using rsi [of i] that lc by (simp add: rsis_def n_def)
  have ok7: "cols_ok n 19 d7" unfolding d7_def
  proof (intro cols_ok_set_col ok4)
    fix i assume i: "19 \<le> i" "i < n"
    show "isfinite (range ! i)" using i by (simp add: rf)
    show "isfinite (pct_change volume ! i)" using i lv zv
      by (intro pct_change_finite) (simp_all add: n_def)
    show "isfinite (rsis ! i)" using i by (rule rsf)
  qed (simp_all add: lc lh ll lv n_def range_def rsis_def)
  have g20: "get_col d7 ''MA20'' = Inr (rolling_mean 20 close)"
    by (simp add: d7_def d4_def get_col_set_col)
  then have mem: "(''MA20'', rolling_mean 20 close) \<in> set (cols d7)"
    by (auto simp: get_col_def split: option.splits dest: map_of_SomeD)
  have nan: "rolling_mean 20 close ! i = NaN" if "i < 19" "i < n" for i
    using that lc by (simp add: rolling_mean_def n_def)
  have dn: "dropna d7 = take_rows d7 [19..<n]"
    by (rule dropna_from [OF ok7 mem]) (rule nan)
  have has: "has_col d7 c" if "c \<in> set (''Close'' # feature_names)" for c
    using that hcl hvl
    by (auto simp: feature_names_def d7_def d4_def has_col_set_col)
  have fc: "feature_complete feature_names (take_rows d7 [19..<n])"
    by (rule take_rows_complete [OF ok7 has]) (simp_all add: feature_names_def)
  from pin dn fc show ?thesis by (simp add: n_def)
qed

lemma foldl_fadd_replicate:
  "foldl fadd (Fin a) (replicate k (Fin c)) = Fin (a + real k * c)"
  by (induction k arbitrary: a) (simp_all add: algebra_simps)

lemma window_mean_replicate: "0 < k \<Longrightarrow> window_mean (replicate k (Fin c)) = Fin c"
  by (simp add: window_mean_def foldl_fadd_replicate)

lemma rolling_mean_const:
  assumes "0 < w" "w \<le> Suc i" "i < length s"
    and c: "\<And>j. Suc i - w \<le> j \<Longrightarrow> j \<le> i \<Longrightarrow> s ! j = Fin c"
  shows "rolling_mean w s ! i = Fin c"
proof -
  have "take w (drop (Suc i - w) s) = replicate w (Fin c)"
  proof (rule nth_equalityI)
    show "length (take w (drop (Suc i - w) s)) = length (replicate w (Fin c))"
      using assms by simp
  next
    fix j assume "j < length (take w (drop (Suc i - w) s))"
    then have j: "j < w" by simp
    with assms have "s ! (Suc i - w + j) = Fin c" by (intro c) simp_all
    with j assms show "take w (drop (Suc i - w) s) ! j = replicate w (Fin c) ! j" by simp
  qed
  with assms show ?thesis
    by (simp add: rolling_mean_def window_mean_replicate)
qed

lemma raw_close: "get_col (raw_frame n) ''Close'' = Inr (map (\<lambda>i. Fin (real (101 + i))) [0..<n])"
  by (simp add: raw_frame_def get_col_def)

lemma raw_diff:
  assumes "0 < j" "j < n"
  shows "diff (map (\<lambda>i. Fin (real (101 + i))) [0..<n]) ! j = Fin 1"
  using assms by (simp add: diff_def shift1_nth fsub_def)

lemma raw_rsi:
  assumes "19 \<le> i" "i < n"
  shows "fsub (Fin 100) (fdiv (Fin 100) (fadd (Fin 1)
           (fdiv (rolling_mean 14 (where0 fgt0 (diff (map (\<lambda>i. Fin (real (101 + i))) [0..<n]))) ! i)
                 (rolling_mean 14 (map fneg (where0 flt0 (diff (map (\<lambda>i. Fin (real (101 + i))) [0..<n])))) ! i))))
         = Fin 100"
proof -
  let ?close = "map (\<lambda>i. Fin (real (101 + i))) [0..<n]"
  have g: "rolling_mean 14 (where0 fgt0 (diff ?close)) ! i = Fin 1"
  proof (rule rolling_mean_const)
    fix j assume "Suc i - 14 \<le> j" "j \<le> i"
    with assms have j: "0 < j" "j < n" by simp_all
    from raw_diff [OF j] j show "where0 fgt0 (diff ?close) ! j = Fin 1"
      by (simp add: where0_def)
  qed (use assms in simp_all)
  have l: "rolling_mean 14 (map fneg (where0 flt0 (diff ?close))) ! i = Fin 0"
  proof (rule rolling_mean_const)
    fix j assume "Suc i - 14 \<le> j" "j \<le> i"
    with assms have j: "0 < j" "j < n" by simp_all
    from raw_diff [OF j] j show "map fneg (where0 flt0 (diff ?close)) ! j = Fin 0"
      by (simp add: where0_def)
  qed (use assms in simp_all)
  show ?thesis unfolding g l by (simp add: signed_inf_def fsub_def)
qed

lemma raw_frame_prepare:
  assumes "99 \<le> n"
  shows "\<exists>p. prepare_data 30 (raw_frame n) = Inr p"
proof -
  have "\<exists>df1. predictor_indicators (raw_frame n) = Inr df1 \<and> feature_complete feature_names df1
           \<and> nrows df1 = nrows (raw_frame n) - 19"
    by (rule predictor_clean [OF raw_frame_clean raw_close]) (simp only: raw_rsi raw_frame_nrows isfinite.simps)
  then obtain df1 where "predictor_indicators (raw_frame n) = Inr df1"
    "feature_complete feature_names df1" "nrows df1 = n - 19" by auto
  with assms show ?thesis by (intro prepare_data_ok [of _ df1]) simp_all
qed

text \<open>
  Claim C3 (fallback state machine flag), as amended.

  For every symbol with no persisted artifact (the model store load returns nothing): the
  inference path trains at most once and returns a result that has no using_pretrained
  field (callers read the missing field as false; it is never true); and when the network
  library is available and the model directories can be created, it returns exactly what
  run_lstm_prediction returns with one simulation, and it trains exactly once if and only
  if the market data provider returns a frame that is not empty, has a Close column, and on
  which LSTMPredictor.prepare_data succeeds.

  For every symbol with a loadable persisted artifact: the inference path never trains,
  and every successful result has its using_pretrained field true.

  For every symbol with a valid persisted artifact (the model directories can be created;
  the metadata is a metadata record, the feature scaler was fitted on 9 columns, the target
  scaler on 1 column, the network never predicts an infinity), when the market data
  provider returns a frame that is not empty, the indicator computation leaves at least 30
  rows, all indicator-complete, and future_days is at least 1: the result is successful,
  its using_pretrained field is true and no training was run.
\<close>

theorem fallback_state_machine:
  "(load_pretrained_model e (ModelTrainer ''models/pretrained'') fs symbol = None \<longrightarrow>
        snd (run_lstm_prediction_pretrained e fs symbol period d) \<le> 1
      \<and> using_pretrained (fst (run_lstm_prediction_pretrained e fs symbol period d)) = None
      \<and> (keras_available e \<and> makedirs_ok e \<longrightarrow>
           run_lstm_prediction_pretrained e fs symbol period d
             = run_lstm_prediction e symbol period 1 d
         \<and> (snd (run_lstm_prediction_pretrained e fs symbol period d) = 1 \<longleftrightarrow>
              (\<exists>df p. download_stock_with_fallback e symbol period = Some df \<and> \<not> df_empty df
                      \<and> has_col df ''Close'' \<and> prepare_data 30 df = Inr p))))
   \<and> (load_pretrained_model e (ModelTrainer ''models/pretrained'') fs symbol \<noteq> None \<longrightarrow>
        snd (run_lstm_prediction_pretrained e fs symbol period d) = 0
      \<and> (success (fst (run_lstm_prediction_pretrained e fs symbol period d)) \<longrightarrow>
           using_pretrained (fst (run_lstm_prediction_pretrained e fs symbol period d)) = Some True))
   \<and> (makedirs_ok e
      \<and> load_pretrained_model e (ModelTrainer ''models/pretrained'') fs symbol
           = Some (model, fsc, tsc, MetadataJson md)
      \<and> scaler_width 9 fsc \<and> scaler_width 1 tsc \<and> (\<forall>w. \<not> isinf (model w))
      \<and> download_stock_with_fallback e symbol ''6mo'' = Some df0 \<and> \<not> df_empty df0
      \<and> calculate_technical_indicators df0 = Inr df1
      \<and> 30 \<le> nrows (dropna df1) \<and> feature_complete feature_names (dropna df1)
      \<and> 1 \<le> d \<longrightarrow>
        success (fst (run_lstm_prediction_pretrained e fs symbol period d))
      \<and> using_pretrained (fst (run_lstm_prediction_pretrained e fs symbol period d)) = Some True
      \<and> snd (run_lstm_prediction_pretrained e fs symbol period d) = 0)"
proof -
  have found: "snd (run_lstm_prediction_pretrained e fs symbol period d) = 0
      \<and> (success (fst (run_lstm_prediction_pretrained e fs symbol period d)) \<longrightarrow>
           using_pretrained (fst (run_lstm_prediction_pretrained e fs symbol period d)) = Some True)"
    if ld: "load_pretrained_model e (ModelTrainer ''models/pretrained'') fs symbol \<noteq> None"
  proof -
    from ld obtain a where a: "load_pretrained_model e (ModelTrainer ''models/pretrained'') fs symbol = Some a"
      by auto
    show ?thesis
    proof (cases "keras_available e \<and> makedirs_ok e")
      case False
      then show ?thesis by (auto simp: run_lstm_prediction_pretrained_def)
    next
      case True
      show ?thesis
      proof (cases "pretrained_predict_try e symbol d a")
        case (Inl err)
        with True a show ?thesis by (simp add: run_lstm_prediction_pretrained_def)
      next
        case (Inr r)
        from pretrained_predict_try_shape [OF Inr] True a Inr show ?thesis
          by (auto simp: run_lstm_prediction_pretrained_def)
      qed
    qed
  qed
  have calls: "snd (run_lstm_prediction e symbol period 1 d) =
     (case download_stock_with_fallback e symbol period of
        None \<Rightarrow> 0
      | Some df \<Rightarrow> if df_empty df \<or> \<not> has_col df ''Close'' then 0
                   else (case prepare_data 30 df of Inl err \<Rightarrow> 0 | Inr p \<Rightarrow> 1))"
    if "keras_available e"
    using run_lstm_prediction_calls [OF that] run_lstm_prediction_try_calls [of e symbol period d]
    by simp
  have missing: "snd (run_lstm_prediction_pretrained e fs symbol period d) \<le> 1
      \<and> using_pretrained (fst (run_lstm_prediction_pretrained e fs symbol period d)) = None
      \<and> (keras_available e \<and> makedirs_ok e \<longrightarrow>
           run_lstm_prediction_pretrained e fs symbol period d
             = run_lstm_prediction e symbol period 1 d
         \<and> (snd (run_lstm_prediction_pretrained e fs symbol period d) = 1 \<longleftrightarrow>
              (\<exists>df p. download_stock_with_fallback e symbol period = Some df \<and> \<not> df_empty df
                      \<and> has_col df ''Close'' \<and> prepare_data 30 df = Inr p)))"
    if ld: "load_pretrained_model e (ModelTrainer ''models/pretrained'') fs symbol = None"
  proof (cases "keras_available e \<and> makedirs_ok e")
    case False
    then show ?thesis by (auto simp: run_lstm_prediction_pretrained_def)
  next
    case True
    then have eq: "run_lstm_prediction_pretrained e fs symbol period d
             = run_lstm_prediction e symbol period 1 d"
      using ld by (simp add: run_lstm_prediction_pretrained_def)
    from True have c: "snd (run_lstm_prediction e symbol period 1 d) =
     (case download_stock_with_fallback e symbol period of
        None \<Rightarrow> 0
      | Some df \<Rightarrow> if df_empty df \<or> \<not> has_col df ''Close'' then 0
                   else (case prepare_data 30 df of Inl err \<Rightarrow> 0 | Inr p \<Rightarrow> 1))"
      by (intro calls) simp
    have le: "snd (run_lstm_prediction e symbol period 1 d) \<le> 1"
      unfolding c by (simp split: option.splits sum.splits)
    have one: "snd (run_lstm_prediction e symbol period 1 d) = 1 \<longleftrightarrow>
              (\<exists>df p. download_stock_with_fallback e symbol period = Some df \<and> \<not> df_empty df
                      \<and> has_col df ''Close'' \<and> prepare_data 30 df = Inr p)"
      unfolding c by (auto split: option.splits sum.splits)
    from eq le one run_lstm_prediction_not_pretrained [of e symbol period 1 d]
    show ?thesis by simp
  qed
  have valid: "success (fst (run_lstm_prediction_pretrained e fs symbol period d))
      \<and> using_pretrained (fst (run_lstm_prediction_pretrained e fs symbol period d)) = Some True
      \<and> snd (run_lstm_prediction_pretrained e fs symbol period d) = 0"
    if mk: "makedirs_ok e"
      and ld: "load_pretrained_model e (ModelTrainer ''models/pretrained'') fs symbol
           = Some (model, fsc, tsc, MetadataJson md)"
      and w9: "scaler_width 9 fsc" and w1: "scaler_width 1 tsc" and ni: "\<forall>w. \<not> isinf (model w)"
      and dl: "download_stock_with_fallback e symbol ''6mo'' = Some df0" and ne: "\<not> df_empty df0"
      and ct: "calculate_technical_indicators df0 = Inr df1"
      and n: "30 \<le> nrows (dropna df1)" and fc: "feature_complete feature_names (dropna df1)"
      and d: "1 \<le> d"
  proof -
    from pretrained_ok [OF load_keras_available [OF ld] mk ld dl ne ct n fc w9 w1 ni d, of period]
    obtain r where r: "run_lstm_prediction_pretrained e fs symbol period d = (Pretrained r, 0)"
      and u: "pr_using_pretrained r" by auto
    then show ?thesis by simp
  qed
  from found missing valid show ?thesis by blast
qed

theorem fallback_state_machine_witness:
  "\<exists>p.
     load_pretrained_model (market_env (Some (raw_frame 60))) (ModelTrainer ''models/pretrained'')
        demo_store ''TEST'' \<noteq> None
   \<and> success (fst (run_lstm_prediction_pretrained (market_env (Some (raw_frame 60))) demo_store
                     ''TEST'' ''2y'' 7))
   \<and> using_pretrained (fst (run_lstm_prediction_pretrained (market_env (Some (raw_frame 60)))
                     demo_store ''TEST'' ''2y'' 7)) = Some True
   \<and> snd (run_lstm_prediction_pretrained (market_env (Some (raw_frame 60))) demo_store
            ''TEST'' ''2y'' 7) = 0
   \<and> load_pretrained_model (market_env (Some (raw_frame 100))) (ModelTrainer ''models/pretrained'')
        empty_store ''TEST'' = None
   \<and> keras_available (market_env (Some (raw_frame 100)))
   \<and> makedirs_ok (market_env (Some (raw_frame 100)))
   \<and> download_stock_with_fallback (market_env (Some (raw_frame 100))) ''TEST'' ''2y''
        = Some (raw_frame 100)
   \<and> \<not> df_empty (raw_frame 100) \<and> has_col (raw_frame 100) ''Close''
   \<and> prepare_data 30 (raw_frame 100) = Inr p
   \<and> run_lstm_prediction_pretrained (market_env (Some (raw_frame 100))) empty_store ''TEST'' ''2y'' 7
        = run_lstm_prediction (market_env (Some (raw_frame 100))) ''TEST'' ''2y'' 1 7
   \<and> snd (run_lstm_prediction_pretrained (market_env (Some (raw_frame 100))) empty_store
            ''TEST'' ''2y'' 7) = 1
   \<and> using_pretrained (fst (run_lstm_prediction_pretrained (market_env (Some (raw_frame 100)))
                              empty_store ''TEST'' ''2y'' 7)) = None"
proof -
  have l1: "load_pretrained_model (market_env (Some (raw_frame 60))) (ModelTrainer ''models/pretrained'')
      demo_store ''TEST'' \<noteq> None" by (simp add: demo_store_load)
  from demo_pretrained_run [of "''2y''"]
  have s: "success (fst (run_lstm_prediction_pretrained (market_env (Some (raw_frame 60))) demo_store
                     ''TEST'' ''2y'' 7))" by auto
  have l2: "load_pretrained_model (market_env (Some (raw_frame 100))) (ModelTrainer ''models/pretrained'')
        empty_store ''TEST'' = None" by (rule empty_store_load)
  have k: "keras_available (market_env (Some (raw_frame 100)))
      \<and> makedirs_ok (market_env (Some (raw_frame 100)))" by simp
  have dl: "download_stock_with_fallback (market_env (Some (raw_frame 100))) ''TEST'' ''2y''
        = Some (raw_frame 100)" by simp
  have ne: "\<not> df_empty (raw_frame 100)" by (simp add: raw_frame_not_empty)
  have hc: "has_col (raw_frame 100) ''Close''" by (simp add: has_col_def raw_frame_def)
  from raw_frame_prepare [of 100] obtain p where p: "prepare_data 30 (raw_frame 100) = Inr p"
    by auto
  note f1 = fallback_state_machine [of "market_env (Some (raw_frame 60))" demo_store "''TEST''" "''2y''" 7]
  note f2 = fallback_state_machine [of "market_env (Some (raw_frame 100))" empty_store "''TEST''" "''2y''" 7]
  from f1 l1 s have a: "using_pretrained (fst (run_lstm_prediction_pretrained (market_env (Some (raw_frame 60)))
                     demo_store ''TEST'' ''2y'' 7)) = Some True
     \<and> snd (run_lstm_prediction_pretrained (market_env (Some (raw_frame 60))) demo_store
            ''TEST'' ''2y'' 7) = 0" by blast
  from f2 l2 k have b: "run_lstm_prediction_pretrained (market_env (Some (raw_frame 100))) empty_store
          ''TEST'' ''2y'' 7
        = run_lstm_prediction (market_env (Some (raw_frame 100))) ''TEST'' ''2y'' 1 7
   \<and> using_pretrained (fst (run_lstm_prediction_pretrained (market_env (Some (raw_frame 100)))
                              empty_store ''TEST'' ''2y'' 7)) = None" by blast
  from dl ne hc p have ex: "\<exists>df p. download_stock_with_fallback (market_env (Some (raw_frame 100)))
        ''TEST'' ''2y'' = Some df \<and> \<not> df_empty df \<and> has_col df ''Close''
        \<and> prepare_data 30 df = Inr p" by blast
  from f2 l2 k ex have c: "snd (run_lstm_prediction_pretrained (market_env (Some (raw_frame 100)))
      empty_store ''TEST'' ''2y'' 7) = 1" by blast
  from l1 s a l2 k dl ne hc p b c show ?thesis by blast
qed

theorem fallback_state_machine_counterexample:
  "load_pretrained_model (market_env None) (ModelTrainer ''models/pretrained'') empty_store ''TEST''
     = None
   \<and> run_lstm_prediction_pretrained (market_env None) empty_store ''TEST'' ''2y'' 7
       = (Failure (Text ''No data found for symbol TEST''), 0)
   \<and> snd (run_lstm_prediction_pretrained (market_env None) empty_store ''TEST'' ''2y'' 7) \<noteq> 1
   \<and> using_pretrained (fst (run_lstm_prediction_pretrained (market_env None) empty_store
                              ''TEST'' ''2y'' 7)) \<noteq> Some False
   \<and> load_pretrained_model (market_env None) (ModelTrainer ''models/pretrained'') demo_store ''TEST''
       = Some (demo_network, demo_scaler 9, demo_scaler 1, MetadataJson demo_metadata)
   \<and> run_lstm_prediction_pretrained (market_env None) demo_store ''TEST'' ''2y'' 7
       = (Failure (Text ''No data found for TEST''), 0)
   \<and> using_pretrained (fst (run_lstm_prediction_pretrained (market_env None) demo_store
                              ''TEST'' ''2y'' 7)) \<noteq> Some True"
proof -
  have "run_lstm_prediction_pretrained (market_env None) demo_store ''TEST'' ''2y'' 7
       = (Failure (Text ''No data found for TEST''), 0)"
    by (simp add: run_lstm_prediction_pretrained_def demo_store_load pretrained_predict_try_def)
  then show ?thesis by (simp add: demo_no_data_run empty_store_load demo_store_load)
qed

section \<open>Inference path: failures\<close>

lemma failure_shape: "error_message r = None \<longleftrightarrow> success r"
  by (cases r) simp_all

lemma lstm_no_data:
  assumes "fetch_fails e symbol period"
  shows "run_lstm_prediction e symbol period n d =
           (if keras_available e then (Failure (Text (''No data found for symbol '' @ symbol)), 0)
            else (Failure (Text ''TensorFlow/Keras not installed. Please install: pip install tensorflow keras''), 0))"
  using assms
  by (auto simp: run_lstm_prediction_def run_lstm_prediction_try_def fetch_fails_def
      split: option.splits)

lemma pretrained_try_no_data:
  assumes "fetch_fails e symbol ''6mo''"
  shows "pretrained_predict_try e symbol d (model, fsc, tsc, js) =
           (case js of MetadataJson md \<Rightarrow> Inr (Failure (Text (''No data found for '' @ symbol)))
            | SummaryJson sm \<Rightarrow> Inl (KeyError ''trained_date'')
            | OtherJson \<Rightarrow> Inl (KeyError ''trained_date''))"
  using assms
  by (auto simp: pretrained_predict_try_def fetch_fails_def split: option.splits json.splits)

lemma pretrained_try_short:
  assumes "download_stock_with_fallback e symbol ''6mo'' = Some df0"
    and "calculate_technical_indicators df0 = Inr df1" and "nrows (dropna df1) < 30"
  shows "pretrained_predict_try e symbol d (model, fsc, tsc, js) =
           (case js of
              MetadataJson md \<Rightarrow>
                if df_empty df0 then Inr (Failure (Text (''No data found for '' @ symbol)))
                else Inr (Failure (Text (''Insufficient recent data: need 30 rows, got ''
                              @ show_nat (nrows (dropna df1)) @ ''. Try longer period.'')))
            | SummaryJson sm \<Rightarrow> Inl (KeyError ''trained_date'')
            | OtherJson \<Rightarrow> Inl (KeyError ''trained_date''))"
  using assms
  by (simp add: pretrained_predict_try_def Let_def split: json.splits)

lemma pretrained_found_failure:
  assumes ld: "load_pretrained_model e (ModelTrainer ''models/pretrained'') fs symbol = Some a"
    and tr: "\<And>r. pretrained_predict_try e symbol d a = Inr r \<Longrightarrow> \<exists>m. r = Failure m"
  shows "\<exists>m. run_lstm_prediction_pretrained e fs symbol period d = (Failure m, 0)"
proof (cases "keras_available e \<and> makedirs_ok e")
  case False
  then show ?thesis by (auto simp: run_lstm_prediction_pretrained_def)
next
  case True
  show ?thesis
  proof (cases "pretrained_predict_try e symbol d a")
    case (Inl err)
    with True ld show ?thesis by (simp add: run_lstm_prediction_pretrained_def)
  next
    case (Inr r)
    with tr obtain m where "r = Failure m" by blast
    with True ld Inr show ?thesis by (simp add: run_lstm_prediction_pretrained_def)
  qed
qed

text \<open>
  Claim C9 (soft failure on bad upstream data). The entry points are total functions
  returning a result dictionary: every exception raised on the way is caught and turned
  into a failure dictionary. For every symbol whose market data fetch returns nothing or an
  empty frame, run_lstm_prediction and run_lstm_prediction_pretrained (with or without a
  persisted artifact) return success = false with an error message, without training; so
  does the pretrained path when fewer than 30 indicator-complete rows are left. With the
  model directories creatable and a metadata record in the artifact, the messages are those
  of the two guards of the pretrained path. For every input of either entry point, the
  error message is missing exactly when the result is a success.
\<close>

theorem soft_failure_on_bad_data:
  "(fetch_fails e symbol period \<longrightarrow>
        \<not> success (fst (run_lstm_prediction e symbol period n d))
      \<and> error_message (fst (run_lstm_prediction e symbol period n d)) \<noteq> None
      \<and> snd (run_lstm_prediction e symbol period n d) = 0
      \<and> (keras_available e \<longrightarrow>
           run_lstm_prediction e symbol period n d
             = (Failure (Text (''No data found for symbol '' @ symbol)), 0)))
   \<and> (load_pretrained_model e (ModelTrainer ''models/pretrained'') fs symbol = None
      \<and> fetch_fails e symbol period \<longrightarrow>
        \<not> success (fst (run_lstm_prediction_pretrained e fs symbol period d))
      \<and> error_message (fst (run_lstm_prediction_pretrained e fs symbol period d)) \<noteq> None
      \<and> snd (run_lstm_prediction_pretrained e fs symbol period d) = 0)
   \<and> (load_pretrained_model e (ModelTrainer ''models/pretrained'') fs symbol \<noteq> None
      \<and> fetch_fails e symbol ''6mo'' \<longrightarrow>
        \<not> success (fst (run_lstm_prediction_pretrained e fs symbol period d))
      \<and> error_message (fst (run_lstm_prediction_pretrained e fs symbol period d)) \<noteq> None
      \<and> snd (run_lstm_prediction_pretrained e fs symbol period d) = 0)
   \<and> (load_pretrained_model e (ModelTrainer ''models/pretrained'') fs symbol \<noteq> None
      \<and> download_stock_with_fallback e symbol ''6mo'' = Some df0
      \<and> calculate_technical_indicators df0 = Inr df1 \<and> nrows (dropna df1) < 30 \<longrightarrow>
        \<not> success (fst (run_lstm_prediction_pretrained e fs symbol period d))
      \<and> error_message (fst (run_lstm_prediction_pretrained e fs symbol period d)) \<noteq> None
      \<and> snd (run_lstm_prediction_pretrained e fs symbol period d) = 0)
   \<and> (makedirs_ok e
      \<and> load_pretrained_model e (ModelTrainer ''models/pretrained'') fs symbol
           = Some (model, fsc, tsc, MetadataJson md)
      \<and> fetch_fails e symbol ''6mo'' \<longrightarrow>
        run_lstm_prediction_pretrained e fs symbol period d
          = (Failure (Text (''No data found for '' @ symbol)), 0))
   \<and> (makedirs_ok e
      \<and> load_pretrained_model e (ModelTrainer ''models/pretrained'') fs symbol
           = Some (model, fsc, tsc, MetadataJson md)
      \<and> download_stock_with_fallback e symbol ''6mo'' = Some df0 \<and> \<not> df_empty df0
      \<and> calculate_technical_indicators df0 = Inr df1 \<and> nrows (dropna df1) < 30 \<longrightarrow>
        run_lstm_prediction_pretrained e fs symbol period d
          = (Failure (Text (''Insufficient recent data: need 30 rows, got ''
                              @ show_nat (nrows (dropna df1)) @ ''. Try longer period.'')), 0))
   \<and> (error_message (fst (run_lstm_prediction e symbol period n d)) = None
        \<longleftrightarrow> success (fst (run_lstm_prediction e symbol period n d)))
   \<and> (error_message (fst (run_lstm_prediction_pretrained e fs symbol period d)) = None
        \<longleftrightarrow> success (fst (run_lstm_prediction_pretrained e fs symbol period d)))"
proof -
  have a: "\<not> success (fst (run_lstm_prediction e symbol period n d))
      \<and> error_message (fst (run_lstm_prediction e symbol period n d)) \<noteq> None
      \<and> snd (run_lstm_prediction e symbol period n d) = 0
      \<and> (keras_available e \<longrightarrow>
           run_lstm_prediction e symbol period n d
             = (Failure (Text (''No data found for symbol '' @ symbol)), 0))"
    if "fetch_fails e symbol period" for n
    using lstm_no_data [OF that, of n d] by simp
  have b: "\<not> success (fst (run_lstm_prediction_pretrained e fs symbol period d))
      \<and> error_message (fst (run_lstm_prediction_pretrained e fs symbol period d)) \<noteq> None
      \<and> snd (run_lstm_prediction_pretrained e fs symbol period d) = 0"
    if ld: "load_pretrained_model e (ModelTrainer ''models/pretrained'') fs symbol = None"
      and ff: "fetch_fails e symbol period"
  proof (cases "keras_available e \<and> makedirs_ok e")
    case False
    then show ?thesis by (auto simp: run_lstm_prediction_pretrained_def)
  next
    case True
    with ld have "run_lstm_prediction_pretrained e fs symbol period d
        = run_lstm_prediction e symbol period 1 d"
      by (simp add: run_lstm_prediction_pretrained_def)
    with a [OF ff, of 1] show ?thesis by simp
  qed
  have c: "\<not> success (fst (run_lstm_prediction_pretrained e fs symbol period d))
      \<and> error_message (fst (run_lstm_prediction_pretrained e fs symbol period d)) \<noteq> None
      \<and> snd (run_lstm_prediction_pretrained e fs symbol period d) = 0"
    if ld: "load_pretrained_model e (ModelTrainer ''models/pretrained'') fs symbol \<noteq> None"
      and ff: "fetch_fails e symbol ''6mo''"
  proof -
    from ld obtain model fsc tsc js where
      l: "load_pretrained_model e (ModelTrainer ''models/pretrained'') fs symbol = Some (model, fsc, tsc, js)"
      by auto
    have fl: "\<exists>m. r = Failure m" if "pretrained_predict_try e symbol d (model, fsc, tsc, js) = Inr r" for r
      using that pretrained_try_no_data [OF ff, of d model fsc tsc js]
      by (auto split: json.splits)
    have "\<exists>m. run_lstm_prediction_pretrained e fs symbol period d = (Failure m, 0)"
      by (rule pretrained_found_failure [where d = d, OF l]) (rule fl)
    then show ?thesis by auto
  qed
  have s: "\<not> success (fst (run_lstm_prediction_pretrained e fs symbol period d))
      \<and> error_message (fst (run_lstm_prediction_pretrained e fs symbol period d)) \<noteq> None
      \<and> snd (run_lstm_prediction_pretrained e fs symbol period d) = 0"
    if ld: "load_pretrained_model e (ModelTrainer ''models/pretrained'') fs symbol \<noteq> None"
      and dl: "download_stock_with_fallback e symbol ''6mo'' = Some df0"
      and ct: "calculate_technical_indicators df0 = Inr df1" and n: "nrows (dropna df1) < 30"
  proof -
    from ld obtain model fsc tsc js where
      l: "load_pretrained_model e (ModelTrainer ''models/pretrained'') fs symbol = Some (model, fsc, tsc, js)"
      by auto
    have fl: "\<exists>m. r = Failure m" if "pretrained_predict_try e symbol d (model, fsc, tsc, js) = Inr r" for r
      using that pretrained_try_short [OF dl ct n, of d model fsc tsc js]
      by (auto split: json.splits if_splits)
    have "\<exists>m. run_lstm_prediction_pretrained e fs symbol period d = (Failure m, 0)"
      by (rule pretrained_found_failure [where d = d, OF l]) (rule fl)
    then show ?thesis by auto
  qed
  have m1: "run_lstm_prediction_pretrained e fs symbol period d
          = (Failure (Text (''No data found for '' @ symbol)), 0)"
    if mk: "makedirs_ok e"
      and ld: "load_pretrained_model e (ModelTrainer ''models/pretrained'') fs symbol
           = Some (model, fsc, tsc, MetadataJson md)"
      and ff: "fetch_fails e symbol ''6mo''"
    using mk ld load_keras_available [OF ld] pretrained_try_no_data [OF ff, of d model fsc tsc "MetadataJson md"]
    by (simp add: run_lstm_prediction_pretrained_def)
  have m2: "run_lstm_prediction_pretrained e fs symbol period d
          = (Failure (Text (''Insufficient recent data: need 30 rows, got ''
                              @ show_nat (nrows (dropna df1)) @ ''. Try longer period.'')), 0)"
    if mk: "makedirs_ok e"
      and ld: "load_pretrained_model e (ModelTrainer ''models/pretrained'') fs symbol
           = Some (model, fsc, tsc, MetadataJson md)"
      and dl: "download_stock_with_fallback e symbol ''6mo'' = Some df0" and ne: "\<not> df_empty df0"
      and ct: "calculate_technical_indicators df0 = Inr df1" and n: "nrows (dropna df1) < 30"
    using mk ld load_keras_available [OF ld] ne
      pretrained_try_short [OF dl ct n, of d model fsc tsc "MetadataJson md"]
    by (simp add: run_lstm_prediction_pretrained_def)
  from a b c s m1 m2 failure_shape show ?thesis by blast
qed

theorem soft_failure_on_bad_data_witness:
  "\<exists>df1.
     fetch_fails (market_env None) ''TEST'' ''2y''
   \<and> fetch_fails (market_env None) ''TEST'' ''6mo''
   \<and> keras_available (market_env None) \<and> makedirs_ok (market_env None)
   \<and> run_lstm_prediction (market_env None) ''TEST'' ''2y'' 5 30
       = (Failure (Text ''No data found for symbol TEST''), 0)
   \<and> load_pretrained_model (market_env None) (ModelTrainer ''models/pretrained'') empty_store ''TEST''
       = None
   \<and> \<not> success (fst (run_lstm_prediction_pretrained (market_env None) empty_store ''TEST'' ''2y'' 30))
   \<and> load_pretrained_model (market_env None) (ModelTrainer ''models/pretrained'') demo_store ''TEST''
       = Some (demo_network, demo_scaler 9, demo_scaler 1, MetadataJson demo_metadata)
   \<and> run_lstm_prediction_pretrained (market_env None) demo_store ''TEST'' ''2y'' 30
       = (Failure (Text ''No data found for TEST''), 0)
   \<and> download_stock_with_fallback (market_env (Some (raw_frame 25))) ''TEST'' ''6mo''
       = Some (raw_frame 25)
   \<and> \<not> df_empty (raw_frame 25)
   \<and> calculate_technical_indicators (raw_frame 25) = Inr df1
   \<and> nrows (dropna df1) < 30
   \<and> run_lstm_prediction_pretrained (market_env (Some (raw_frame 25))) demo_store ''TEST'' ''2y'' 30
       = (Failure (Text (''Insufficient recent data: need 30 rows, got ''
                              @ show_nat (nrows (dropna df1)) @ ''. Try longer period.'')), 0)"
proof -
  from cti_clean [OF raw_frame_clean, of 25] obtain df1 where
    c: "calculate_technical_indicators (raw_frame 25) = Inr df1"
    and n: "nrows (dropna df1) < 30" by auto
  have f1: "fetch_fails (market_env None) ''TEST'' ''2y''" by (simp add: fetch_fails_def)
  have f2: "fetch_fails (market_env None) ''TEST'' ''6mo''" by (simp add: fetch_fails_def)
  have k: "keras_available (market_env None)" "makedirs_ok (market_env None)" by simp_all
  have k2: "makedirs_ok (market_env (Some (raw_frame 25)))" by simp
  have l0: "load_pretrained_model (market_env None) (ModelTrainer ''models/pretrained'') empty_store ''TEST''
       = None" by (rule empty_store_load)
  note l1 = demo_store_load [of None]
  note l2 = demo_store_load [of "Some (raw_frame 25)"]
  have dl: "download_stock_with_fallback (market_env (Some (raw_frame 25))) ''TEST'' ''6mo''
       = Some (raw_frame 25)" by simp
  have ne: "\<not> df_empty (raw_frame 25)" by (simp add: raw_frame_not_empty)
  note t1 = soft_failure_on_bad_data [of "market_env None" "''TEST''" "''2y''" 5 30 empty_store]
  note t2 = soft_failure_on_bad_data [of "market_env None" "''TEST''" "''2y''" 5 30 demo_store
      _ _ demo_network "demo_scaler 9" "demo_scaler 1" demo_metadata]
  note t3 = soft_failure_on_bad_data [of "market_env (Some (raw_frame 25))" "''TEST''" "''2y''" 5 30
      demo_store "raw_frame 25" df1 demo_network "demo_scaler 9" "demo_scaler 1" demo_metadata]
  from t1 f1 k have a: "run_lstm_prediction (market_env None) ''TEST'' ''2y'' 5 30
       = (Failure (Text ''No data found for symbol TEST''), 0)" by simp
  from t1 f1 l0 have b: "\<not> success (fst (run_lstm_prediction_pretrained (market_env None) empty_store
      ''TEST'' ''2y'' 30))" by blast
  from t2 f2 k l1 have c1: "run_lstm_prediction_pretrained (market_env None) demo_store ''TEST'' ''2y'' 30
       = (Failure (Text ''No data found for TEST''), 0)" by simp
  from t3 k2 l2 dl ne c n have d1: "run_lstm_prediction_pretrained (market_env (Some (raw_frame 25)))
      demo_store ''TEST'' ''2y'' 30
       = (Failure (Text (''Insufficient recent data: need 30 rows, got ''
                              @ show_nat (nrows (dropna df1)) @ ''. Try longer period.'')), 0)"
    by blast
  from f1 f2 k a l0 b l1 c1 dl ne c n d1 show ?thesis by blast
qed

end
